theory Spec2Isabelle
  imports Complex_Main "HOL-Library.Word" "HOL-Library.Sublist"
begin

section \<open>Traffic statistics: the two Control-API clients\<close>

text \<open>
  The records of \<^verbatim>\<open>xray/traffic.go\<close> and \<^verbatim>\<open>singbox/traffic.go\<close>; the
  sing-box adapter copies the second into the first field by field, so one pair of
  records serves both clients. Counters are Go \<^verbatim>\<open>int64\<close>.
\<close>

record Traffic =
  IsInbound :: bool
  IsOutbound :: bool
  Tag :: string
  Up :: "64 word"
  Down :: "64 word"

record ClientTraffic =
  Email :: string
  CUp :: "64 word"
  CDown :: "64 word"

text \<open>
  A Go \<^verbatim>\<open>map[string]*T\<close> is kept as an association list with one pair per key,
  the newest key last; \<^verbatim>\<open>mapToSlice\<close> returns its values (Go in no fixed order).
\<close>

fun mapGet :: "(string \<times> 'v) list \<Rightarrow> string \<Rightarrow> 'v option" where
  "mapGet [] k = None"
| "mapGet ((k', v) # m) k = (if k' = k then Some v else mapGet m k)"

fun mapPut :: "(string \<times> 'v) list \<Rightarrow> string \<Rightarrow> 'v \<Rightarrow> (string \<times> 'v) list" where
  "mapPut [] k v = [(k, v)]"
| "mapPut ((k', v') # m) k v = (if k' = k then (k, v) # m else (k', v') # mapPut m k v)"

definition mapToSlice :: "(string \<times> 'v) list \<Rightarrow> 'v list" where
  "mapToSlice m = map snd m"

subsection \<open>Xray: the two regular expressions of \<^verbatim>\<open>XrayAPI.GetTraffic\<close>\<close>

text \<open>
  \<^verbatim>\<open>stripPrefix p s\<close> is the rest of \<^verbatim>\<open>s\<close> after the literal \<^verbatim>\<open>p\<close>, when
  \<^verbatim>\<open>s\<close> starts with it.
\<close>

fun stripPrefix :: "string \<Rightarrow> string \<Rightarrow> string option" where
  "stripPrefix [] s = Some s"
| "stripPrefix (p # ps) [] = None"
| "stripPrefix (p # ps) (c # cs) = (if p = c then stripPrefix ps cs else None)"

definition notGt :: "char \<Rightarrow> bool" where
  "notGt c = (c \<noteq> CHR ''>'')"

text \<open>
  The tail \<^verbatim>\<open>>>>([^>]+)>>>traffic>>>(downlink|uplink)\<close> shared by both expressions.
  The class \<^verbatim>\<open>[^>]+\<close> is followed by a literal \<^verbatim>\<open>>\<close>, so only its longest run
  can match; the two alternatives start with different letters.
\<close>

definition matchTail :: "string \<Rightarrow> (string \<times> string) option" where
  "matchTail s =
     (case stripPrefix ''>>>'' s of
        None \<Rightarrow> None
      | Some r \<Rightarrow>
          (let ident = takeWhile notGt r in
           if ident = [] then None
           else (case stripPrefix ''>>>traffic>>>'' (dropWhile notGt r) of
                   None \<Rightarrow> None
                 | Some d \<Rightarrow>
                     (if stripPrefix ''downlink'' d \<noteq> None then Some (ident, ''downlink'')
                      else if stripPrefix ''uplink'' d \<noteq> None then Some (ident, ''uplink'')
                      else None))))"

text \<open>\<^verbatim>\<open>(inbound|outbound)>>>([^>]+)>>>traffic>>>(downlink|uplink)\<close> anchored at the start
  of \<^verbatim>\<open>s\<close>: the three submatches.\<close>

definition trafficMatchAt :: "string \<Rightarrow> (string \<times> string \<times> string) option" where
  "trafficMatchAt s =
     (case stripPrefix ''inbound'' s of
        Some r \<Rightarrow> map_option (\<lambda>(t, d). (''inbound'', t, d)) (matchTail r)
      | None \<Rightarrow>
          (case stripPrefix ''outbound'' s of
             Some r \<Rightarrow> map_option (\<lambda>(t, d). (''outbound'', t, d)) (matchTail r)
           | None \<Rightarrow> None))"

text \<open>\<^verbatim>\<open>user>>>([^>]+)>>>traffic>>>(downlink|uplink)\<close> anchored at the start of \<^verbatim>\<open>s\<close>.\<close>

definition clientMatchAt :: "string \<Rightarrow> (string \<times> string) option" where
  "clientMatchAt s =
     (case stripPrefix ''user'' s of Some r \<Rightarrow> matchTail r | None \<Rightarrow> None)"

text \<open>\<^verbatim>\<open>FindStringSubmatch\<close>: the expressions are not anchored, the leftmost match wins.\<close>

fun trafficRegex :: "string \<Rightarrow> (string \<times> string \<times> string) option" where
  "trafficRegex [] = trafficMatchAt []"
| "trafficRegex (c # cs) =
     (case trafficMatchAt (c # cs) of Some m \<Rightarrow> Some m | None \<Rightarrow> trafficRegex cs)"

fun clientTrafficRegex :: "string \<Rightarrow> (string \<times> string) option" where
  "clientTrafficRegex [] = clientMatchAt []"
| "clientTrafficRegex (c # cs) =
     (case clientMatchAt (c # cs) of Some m \<Rightarrow> Some m | None \<Rightarrow> clientTrafficRegex cs)"

text \<open>\<^verbatim>\<open>processTraffic\<close>: the tag \<^verbatim>\<open>api\<close> returns before the map is touched.\<close>

definition processTraffic ::
  "string \<times> string \<times> string \<Rightarrow> 64 word \<Rightarrow> (string \<times> Traffic) list \<Rightarrow> (string \<times> Traffic) list" where
  "processTraffic matches val trafficMap =
     (case matches of (kind, tag, dir) \<Rightarrow>
        (let isInbound = (kind = ''inbound''); isDown = (dir = ''downlink'') in
         if tag = ''api'' then trafficMap
         else
           (let traffic = (case mapGet trafficMap tag of
                             Some t \<Rightarrow> t
                           | None \<Rightarrow> \<lparr>IsInbound = isInbound, IsOutbound = \<not> isInbound,
                                        Tag = tag, Up = 0, Down = 0\<rparr>)
            in mapPut trafficMap tag
                 (if isDown then traffic\<lparr>Down := val\<rparr> else traffic\<lparr>Up := val\<rparr>))))"

definition processClientTraffic ::
  "string \<times> string \<Rightarrow> 64 word \<Rightarrow> (string \<times> ClientTraffic) list \<Rightarrow> (string \<times> ClientTraffic) list" where
  "processClientTraffic matches val clientTrafficMap =
     (case matches of (email, dir) \<Rightarrow>
        (let isDown = (dir = ''downlink'');
             traffic = (case mapGet clientTrafficMap email of
                          Some t \<Rightarrow> t
                        | None \<Rightarrow> \<lparr>Email = email, CUp = 0, CDown = 0\<rparr>)
         in mapPut clientTrafficMap email
              (if isDown then traffic\<lparr>CDown := val\<rparr> else traffic\<lparr>CUp := val\<rparr>)))"

text \<open>The body of the loop over \<^verbatim>\<open>resp.GetStat()\<close>, and the loop.\<close>

definition xrayStat ::
  "string \<times> 64 word \<Rightarrow> (string \<times> Traffic) list \<times> (string \<times> ClientTraffic) list
     \<Rightarrow> (string \<times> Traffic) list \<times> (string \<times> ClientTraffic) list" where
  "xrayStat stat maps =
     (case trafficRegex (fst stat) of
        Some m \<Rightarrow> (processTraffic m (snd stat) (fst maps), snd maps)
      | None \<Rightarrow>
          (case clientTrafficRegex (fst stat) of
             Some m \<Rightarrow> (fst maps, processClientTraffic m (snd stat) (snd maps))
           | None \<Rightarrow> maps))"

definition xrayGetTraffic :: "(string \<times> 64 word) list \<Rightarrow> Traffic list \<times> ClientTraffic list" where
  "xrayGetTraffic stats =
     (let maps = foldl (\<lambda>m stat. xrayStat stat m) ([], []) stats
      in (mapToSlice (fst maps), mapToSlice (snd maps)))"

subsection \<open>sing-box: \<^verbatim>\<open>parseTrafficKey\<close> and \<^verbatim>\<open>SingBoxAPI.GetTraffic\<close>\<close>

text \<open>\<^verbatim>\<open>bytes.Split(key, ">>>")\<close>: cut at every separator, leftmost first.\<close>

fun splitSep :: "string \<Rightarrow> string list" where
  "splitSep [] = [[]]"
| "splitSep (c # cs) =
     (case stripPrefix ''>>>'' (c # cs) of
        Some r \<Rightarrow> [] # splitSep (drop 2 cs)
      | None \<Rightarrow> (case splitSep cs of p # ps \<Rightarrow> (c # p) # ps | [] \<Rightarrow> [[c]]))"

text \<open>
  The map returned by \<^verbatim>\<open>parseTrafficKey\<close>, one option per key: \<^verbatim>\<open>type\<close> is always
  set, \<^verbatim>\<open>tag\<close>, \<^verbatim>\<open>email\<close> and \<^verbatim>\<open>direction\<close> only under their conditions. Reading a
  missing key of a Go map gives the empty string.
\<close>

record TrafficKey =
  ktype :: string
  ktag :: "string option"
  kemail :: "string option"
  kdirection :: "string option"

definition orEmpty :: "string option \<Rightarrow> string" where
  "orEmpty x = (case x of Some s \<Rightarrow> s | None \<Rightarrow> [])"

definition parseTrafficKey :: "string \<Rightarrow> TrafficKey option" where
  "parseTrafficKey key =
     (case splitSep key of
        [p0, p1, p2, p3] \<Rightarrow>
          Some \<lparr>ktype = p0,
                ktag = (if p0 = ''inbound'' \<or> p0 = ''outbound'' then Some p1 else None),
                kemail = (if p0 = ''inbound'' \<or> p0 = ''outbound'' then None
                          else if p0 = ''user'' then Some p1 else None),
                kdirection = (if p2 = ''traffic'' then Some p3 else None)\<rparr>
      | _ \<Rightarrow> None)"

definition singboxStat ::
  "string \<times> 64 word \<Rightarrow> (string \<times> Traffic) list \<times> (string \<times> ClientTraffic) list
     \<Rightarrow> (string \<times> Traffic) list \<times> (string \<times> ClientTraffic) list" where
  "singboxStat stat maps =
     (case parseTrafficKey (fst stat) of
        None \<Rightarrow> maps
      | Some matches \<Rightarrow>
          if ktype matches = ''inbound'' \<or> ktype matches = ''outbound'' then
            (let tag = orEmpty (ktag matches);
                 isInbound = (ktype matches = ''inbound'');
                 isDown = (orEmpty (kdirection matches) = ''downlink'');
                 traffic = (case mapGet (fst maps) tag of
                              Some t \<Rightarrow> t
                            | None \<Rightarrow> \<lparr>IsInbound = isInbound, IsOutbound = \<not> isInbound,
                                         Tag = tag, Up = 0, Down = 0\<rparr>)
             in (mapPut (fst maps) tag
                   (if isDown then traffic\<lparr>Down := snd stat\<rparr> else traffic\<lparr>Up := snd stat\<rparr>),
                 snd maps))
          else if ktype matches = ''user'' then
            (let email = orEmpty (kemail matches);
                 isDown = (orEmpty (kdirection matches) = ''downlink'');
                 clientTraffic = (case mapGet (snd maps) email of
                                    Some t \<Rightarrow> t
                                  | None \<Rightarrow> \<lparr>Email = email, CUp = 0, CDown = 0\<rparr>)
             in (fst maps,
                 mapPut (snd maps) email
                   (if isDown then clientTraffic\<lparr>CDown := snd stat\<rparr>
                    else clientTraffic\<lparr>CUp := snd stat\<rparr>)))
          else maps)"

text \<open>
  The decoded body is a Go map, ranged over in no fixed order: the loop is run over
  the pairs in any order, and the theorems hold for each.
\<close>

definition singboxGetTraffic :: "(string \<times> 64 word) list \<Rightarrow> Traffic list \<times> ClientTraffic list" where
  "singboxGetTraffic stats =
     (let maps = foldl (\<lambda>m stat. singboxStat stat m) ([], []) stats
      in (mapToSlice (fst maps), mapToSlice (snd maps)))"

text \<open>A key of the shared format \<^verbatim>\<open><kind>>>><id>>>>traffic>>><direction>\<close>.\<close>

definition statKey :: "string \<Rightarrow> string \<Rightarrow> string \<Rightarrow> string" where
  "statKey kind ident dir = kind @ ''>>>'' @ ident @ ''>>>traffic>>>'' @ dir"


text \<open>What a reader of the returned slices sees for one tag or one email.\<close>

definition tagUpDown :: "(string \<times> Traffic) list \<Rightarrow> string \<Rightarrow> (64 word \<times> 64 word) option" where
  "tagUpDown m tag = map_option (\<lambda>t. (Up t, Down t)) (mapGet m tag)"

definition clientUpDown :: "(string \<times> ClientTraffic) list \<Rightarrow> string \<Rightarrow> (64 word \<times> 64 word) option" where
  "clientUpDown m email = map_option (\<lambda>t. (CUp t, CDown t)) (mapGet m email)"

definition upBefore :: "(64 word \<times> 64 word) option \<Rightarrow> 64 word" where
  "upBefore r = (case r of Some (u, d) \<Rightarrow> u | None \<Rightarrow> 0)"

definition downBefore :: "(64 word \<times> 64 word) option \<Rightarrow> 64 word" where
  "downBefore r = (case r of Some (u, d) \<Rightarrow> d | None \<Rightarrow> 0)"



text \<open>Two invariants of the tag map while the loops run: every record sits under its own
  tag, and (Xray) no key is \<^verbatim>\<open>api\<close>.\<close>

definition tagsOk :: "(string \<times> Traffic) list \<Rightarrow> bool" where
  "tagsOk m = (\<forall>(k, t) \<in> set m. Tag t = k)"

definition noApi :: "(string \<times> Traffic) list \<Rightarrow> bool" where
  "noApi m = (\<forall>(k, t) \<in> set m. k \<noteq> ''api'' \<and> Tag t = k)"

text \<open>What a reader of the slices \<^verbatim>\<open>GetTraffic\<close> returns finds for one tag or one email:
  the counters of the first record that carries it.\<close>

definition trafficOf :: "Traffic list \<Rightarrow> string \<Rightarrow> (64 word \<times> 64 word) option" where
  "trafficOf ts tag = map_option (\<lambda>t. (Up t, Down t)) (find (\<lambda>t. Tag t = tag) ts)"

definition clientTrafficOf :: "ClientTraffic list \<Rightarrow> string \<Rightarrow> (64 word \<times> 64 word) option" where
  "clientTrafficOf cs email = map_option (\<lambda>t. (CUp t, CDown t)) (find (\<lambda>t. Email t = email) cs)"

text \<open>The same invariant for the map of client records.\<close>

definition emailsOk :: "(string \<times> ClientTraffic) list \<Rightarrow> bool" where
  "emailsOk m = (\<forall>(k, t) \<in> set m. Email t = k)"

section \<open>JSON values and Go maps\<close>

text \<open>
  A decoded JSON document as \<^verbatim>\<open>encoding/json\<close> hands it to the translator: an object is
  a \<^verbatim>\<open>map[string]interface{}\<close> (kept as an association list, one pair per key), an array
  a \<^verbatim>\<open>[]interface{}\<close>, a number a \<^verbatim>\<open>float64\<close>. \<^verbatim>\<open>JStrs\<close> is a Go \<^verbatim>\<open>[]string\<close> that the
  code stores in a map before encoding it: the assertion \<^verbatim>\<open>.([]interface{})\<close> fails on it,
  and the encoder writes it as an array of strings.
\<close>

datatype json =
    JNull
  | JBool bool
  | JNum rat
  | JStr string
  | JArr "json list"
  | JObj "(string \<times> json) list"
  | JStrs "string list"

type_synonym jmap = "(string \<times> json) list"

text \<open>\<^verbatim>\<open>json.Marshal\<close> followed by decoding: the value another function reads back.\<close>

primrec marshal :: "json \<Rightarrow> json" where
  "marshal JNull = JNull"
| "marshal (JBool b) = JBool b"
| "marshal (JNum n) = JNum n"
| "marshal (JStr s) = JStr s"
| "marshal (JArr xs) = JArr (map marshal xs)"
| "marshal (JObj kvs) = JObj (map (map_prod id marshal) kvs)"
| "marshal (JStrs ss) = JArr (map JStr ss)"

text \<open>\<^verbatim>\<open>delete(m, k)\<close>.\<close>

definition mapDel :: "(string \<times> 'v) list \<Rightarrow> string \<Rightarrow> (string \<times> 'v) list" where
  "mapDel m k = filter (\<lambda>kv. fst kv \<noteq> k) m"

text \<open>The type assertions \<^verbatim>\<open>m[k].(string)\<close>, \<^verbatim>\<open>.([]interface{})\<close>,
  \<^verbatim>\<open>.(map[string]interface{})\<close> and \<^verbatim>\<open>.(bool)\<close>; a missing key fails each of them.\<close>

definition asString :: "json option \<Rightarrow> string option" where
  "asString v = (case v of Some (JStr s) \<Rightarrow> Some s | _ \<Rightarrow> None)"

definition asArray :: "json option \<Rightarrow> json list option" where
  "asArray v = (case v of Some (JArr xs) \<Rightarrow> Some xs | _ \<Rightarrow> None)"

definition asObject :: "json option \<Rightarrow> jmap option" where
  "asObject v = (case v of Some (JObj kvs) \<Rightarrow> Some kvs | _ \<Rightarrow> None)"

definition asBool :: "json option \<Rightarrow> bool option" where
  "asBool v = (case v of Some (JBool b) \<Rightarrow> Some b | _ \<Rightarrow> None)"

text \<open>Reading \<^verbatim>\<open>m[k]\<close> as a value: a missing key is \<^verbatim>\<open>nil\<close>.\<close>

definition orNull :: "json option \<Rightarrow> json" where
  "orNull v = (case v of Some x \<Rightarrow> x | None \<Rightarrow> JNull)"

text \<open>
  A \<^verbatim>\<open>json_util.RawMessage\<close>: no bytes, bytes that hold a JSON document, or other
  bytes. \<^verbatim>\<open>len(r) > 0\<close> is \<^verbatim>\<open>rawPresent\<close>.
\<close>

datatype raw = RawEmpty | RawJson json | RawBytes string

definition rawPresent :: "raw \<Rightarrow> bool" where
  "rawPresent r = (r \<noteq> RawEmpty)"

text \<open>\<^verbatim>\<open>json.Unmarshal(r, &m)\<close> for a \<^verbatim>\<open>map[string]interface{}\<close>: an object decodes,
  \<^verbatim>\<open>null\<close> leaves the map nil (read as empty), anything else is an error.\<close>

definition unmarshalMap :: "raw \<Rightarrow> jmap option" where
  "unmarshalMap r = (case r of RawJson (JObj kvs) \<Rightarrow> Some kvs | RawJson JNull \<Rightarrow> Some [] | _ \<Rightarrow> None)"

text \<open>The same for a \<^verbatim>\<open>[]map[string]interface{}\<close>: every element must be an object or
  \<^verbatim>\<open>null\<close>.\<close>

definition elemMap :: "json \<Rightarrow> jmap option" where
  "elemMap v = (case v of JObj kvs \<Rightarrow> Some kvs | JNull \<Rightarrow> Some [] | _ \<Rightarrow> None)"

definition unmarshalMaps :: "raw \<Rightarrow> jmap list option" where
  "unmarshalMaps r =
     (case r of
        RawJson (JArr xs) \<Rightarrow>
          (if list_all (\<lambda>x. elemMap x \<noteq> None) xs then Some (map (\<lambda>x. the (elemMap x)) xs) else None)
      | RawJson JNull \<Rightarrow> Some []
      | _ \<Rightarrow> None)"

text \<open>
  A decoded \<^verbatim>\<open>null\<close> is a nil map or a nil slice: it is read as an empty one and
  encoded as \<^verbatim>\<open>null\<close> again. \<^verbatim>\<open>reencode x m\<close> is the encoding of the map \<^verbatim>\<open>m\<close> that
  was decoded from \<^verbatim>\<open>x\<close>, and \<^verbatim>\<open>rawElems\<close> the elements an array was decoded from.
\<close>

definition reencode :: "json \<Rightarrow> jmap \<Rightarrow> json" where
  "reencode x m = (if x = JNull then JNull else JObj m)"

definition rawElems :: "raw \<Rightarrow> json list" where
  "rawElems r = (case r of RawJson (JArr xs) \<Rightarrow> xs | _ \<Rightarrow> [])"

section \<open>The two configuration models\<close>

text \<open>
  \<^verbatim>\<open>xray.InboundConfig\<close> and \<^verbatim>\<open>xray.Config\<close> with the fields the translator reads and
  writes, and \<^verbatim>\<open>singbox.InboundConfig\<close> and \<^verbatim>\<open>singbox.Config\<close>.
\<close>

record XrayInbound =
  xListen :: raw
  xPort :: int
  xProtocol :: string
  xSettings :: raw
  xStreamSettings :: raw
  xTag :: string
  xSniffing :: raw

record XrayConfig =
  LogConfig :: raw
  DNSConfig :: raw
  InboundConfigs :: "XrayInbound list"
  OutboundConfigs :: raw
  RouterConfig :: raw

record InboundConfig =
  sbType :: string
  sbTag :: string
  sbListen :: raw
  sbListenPort :: int
  sbUsers :: raw
  sbMethod :: string
  sbPassword :: string
  sbNetwork :: raw
  sbTransport :: raw
  sbTLS :: raw
  sbSniff :: bool
  sbSniffOverrideDestination :: bool
  sbSettings :: raw

record Config =
  Log :: raw
  DNS :: raw
  NTP :: raw
  Inbounds :: "InboundConfig list"
  Outbounds :: raw
  Route :: raw
  Experimental :: raw

section \<open>Xray to sing-box: \<^verbatim>\<open>convertXrayInboundToSingBox\<close>\<close>

definition supportedProtocols :: "string list" where
  "supportedProtocols =
     [''direct'', ''mixed'', ''socks'', ''http'', ''shadowsocks'', ''vmess'', ''trojan'', ''naive'',
      ''hysteria'', ''shadowtls'', ''tuic'', ''hysteria2'', ''vless'', ''anytls'', ''tun'',
      ''redirect'', ''tproxy'']"

text \<open>The body of the loop over \<^verbatim>\<open>clients\<close> for one client object.\<close>

definition convertClient :: "string \<Rightarrow> jmap \<Rightarrow> jmap" where
  "convertClient protocol c =
     (let user0 = [];
          user1 = (case asString (mapGet c ''id'') of
                     Some uuid \<Rightarrow> mapPut user0 ''uuid'' (JStr uuid) | None \<Rightarrow> user0);
          user2 = (case asString (mapGet c ''email'') of
                     Some email \<Rightarrow>
                       (if email \<noteq> [] \<and> protocol = ''vless''
                        then mapPut user1 ''name'' (JStr email) else user1)
                   | None \<Rightarrow> user1);
          user3 = (case asString (mapGet c ''flow'') of
                     Some flow \<Rightarrow> (if flow \<noteq> [] then mapPut user2 ''flow'' (JStr flow) else user2)
                   | None \<Rightarrow> user2)
      in user3)"

text \<open>The loop: an element of \<^verbatim>\<open>clients\<close> that is not an object is skipped.\<close>

fun convertClients :: "string \<Rightarrow> json list \<Rightarrow> jmap list" where
  "convertClients protocol [] = []"
| "convertClients protocol (JObj c # clients) =
     convertClient protocol c # convertClients protocol clients"
| "convertClients protocol (_ # clients) = convertClients protocol clients"

text \<open>The \<^verbatim>\<open>switch\<close> on the protocol, applied to the decoded settings.\<close>

definition convertSettings :: "string \<Rightarrow> jmap \<Rightarrow> InboundConfig \<Rightarrow> InboundConfig" where
  "convertSettings protocol settings sb =
     (if protocol = ''vmess'' \<or> protocol = ''vless'' then
        (case asArray (mapGet settings ''clients'') of
           Some clients \<Rightarrow>
             (let users = convertClients protocol clients in
              if users \<noteq> [] then sb\<lparr>sbUsers := RawJson (marshal (JArr (map JObj users)))\<rparr> else sb)
         | None \<Rightarrow> sb)
      else if protocol = ''trojan'' then
        (case asArray (mapGet settings ''clients'') of
           Some (c0 # _) \<Rightarrow>
             (case asObject (Some c0) of
                Some c \<Rightarrow>
                  (case asString (mapGet c ''password'') of
                     Some password \<Rightarrow> sb\<lparr>sbPassword := password\<rparr> | None \<Rightarrow> sb)
              | None \<Rightarrow> sb)
         | _ \<Rightarrow> sb)
      else if protocol = ''shadowsocks'' then
        (let sb1 = (case asString (mapGet settings ''method'') of
                      Some method \<Rightarrow> sb\<lparr>sbMethod := method\<rparr> | None \<Rightarrow> sb)
         in (case asString (mapGet settings ''password'') of
               Some password \<Rightarrow> sb1\<lparr>sbPassword := password\<rparr> | None \<Rightarrow> sb1))
      else sb)"

text \<open>The transport map built from the decoded stream settings.\<close>

definition convertTransport :: "jmap \<Rightarrow> jmap" where
  "convertTransport stream =
     (case asString (mapGet stream ''network'') of
        Some network \<Rightarrow>
          (if network \<noteq> ''tcp'' then
             (let transport = mapPut [] ''type'' (JStr network) in
              if network = ''ws'' then
                (case asObject (mapGet stream ''wsSettings'') of
                   Some wsSettings \<Rightarrow>
                     (let t1 = mapPut transport ''path'' (orNull (mapGet wsSettings ''path'')) in
                      case asObject (mapGet wsSettings ''headers'') of
                        Some headers \<Rightarrow> mapPut t1 ''headers'' (JObj headers)
                      | None \<Rightarrow> t1)
                 | None \<Rightarrow> transport)
              else if network = ''grpc'' then
                (case asObject (mapGet stream ''grpcSettings'') of
                   Some grpcSettings \<Rightarrow>
                     mapPut transport ''service_name'' (orNull (mapGet grpcSettings ''serviceName''))
                 | None \<Rightarrow> transport)
              else transport)
           else [])
      | None \<Rightarrow> [])"

text \<open>The branch \<^verbatim>\<open>security == "tls"\<close>.\<close>

definition convertTls :: "jmap \<Rightarrow> jmap" where
  "convertTls tlsSettings =
     (let tls0 = [];
          tls1 = (case asString (mapGet tlsSettings ''certificateFile'') of
                    Some certPath \<Rightarrow> mapPut tls0 ''certificate_path'' (JStr certPath) | None \<Rightarrow> tls0);
          tls2 = (case asString (mapGet tlsSettings ''keyFile'') of
                    Some keyPath \<Rightarrow> mapPut tls1 ''key_path'' (JStr keyPath) | None \<Rightarrow> tls1);
          tls3 = (case asString (mapGet tlsSettings ''serverName'') of
                    Some serverName \<Rightarrow> mapPut tls2 ''server_name'' (JStr serverName) | None \<Rightarrow> tls2);
          tls4 = (case asArray (mapGet tlsSettings ''alpn'') of
                    Some alpn \<Rightarrow> mapPut tls3 ''alpn'' (JArr alpn) | None \<Rightarrow> tls3)
      in mapPut tls4 ''enabled'' (JBool True))"

text \<open>The strings of a decoded array, in order; other elements are skipped.\<close>

fun stringsOf :: "json list \<Rightarrow> string list" where
  "stringsOf [] = []"
| "stringsOf (JStr s # xs) = s # stringsOf xs"
| "stringsOf (_ # xs) = stringsOf xs"

text \<open>
  The value chosen twice in the Reality branch, for \<^verbatim>\<open>server_name\<close> and for the
  handshake: \<^verbatim>\<open>dest\<close> when it is a string, else the first element of \<^verbatim>\<open>serverNames\<close>
  when that array is not empty and starts with a string.
\<close>

definition realityServer :: "jmap \<Rightarrow> string option" where
  "realityServer realitySettings =
     (case asString (mapGet realitySettings ''dest'') of
        Some dest \<Rightarrow> Some dest
      | None \<Rightarrow>
          (case asArray (mapGet realitySettings ''serverNames'') of
             Some (first # _) \<Rightarrow> asString (Some first)
           | _ \<Rightarrow> None))"

text \<open>
  The branch \<^verbatim>\<open>security == "reality"\<close>. The last field, \<^verbatim>\<open>max_time_difference\<close>, is
  guarded by \<^verbatim>\<open>realitySettings["maxTimeDiff"].(int64)\<close>, which no decoded value passes
  (a decoded number is a \<^verbatim>\<open>float64\<close>): the field is never written. The nested
  \<^verbatim>\<open>reality\<close> map first, then the TLS map that holds it.
\<close>

definition realityObject :: "jmap \<Rightarrow> jmap" where
  "realityObject realitySettings =
     (let reality0 = mapPut [] ''enabled'' (JBool True);
          reality1 = (case realityServer realitySettings of
                        Some name \<Rightarrow> mapPut reality0 ''handshake'' (JObj (mapPut [] ''server'' (JStr name)))
                      | None \<Rightarrow> reality0);
          reality2 = (case asString (mapGet realitySettings ''privateKey'') of
                        Some privateKey \<Rightarrow> mapPut reality1 ''private_key'' (JStr privateKey)
                      | None \<Rightarrow> reality1);
          reality3 = (case asArray (mapGet realitySettings ''shortIds'') of
                        Some shortIds \<Rightarrow>
                          (if shortIds \<noteq> [] \<and> stringsOf shortIds \<noteq> []
                           then mapPut reality2 ''short_id'' (JStrs (stringsOf shortIds))
                           else reality2)
                      | None \<Rightarrow> reality2)
      in reality3)"

definition convertReality :: "jmap \<Rightarrow> jmap" where
  "convertReality realitySettings =
     (let tls0 = mapPut [] ''enabled'' (JBool True);
          tls1 = (case realityServer realitySettings of
                    Some name \<Rightarrow> mapPut tls0 ''server_name'' (JStr name) | None \<Rightarrow> tls0)
      in mapPut tls1 ''reality'' (JObj (realityObject realitySettings)))"

text \<open>The TLS field written from the decoded stream settings, if any.\<close>

definition convertSecurity :: "jmap \<Rightarrow> raw option" where
  "convertSecurity stream =
     (case asString (mapGet stream ''security'') of
        Some security \<Rightarrow>
          (if security = ''tls'' then
             (case asObject (mapGet stream ''tlsSettings'') of
                Some tlsSettings \<Rightarrow> Some (RawJson (marshal (JObj (convertTls tlsSettings))))
              | None \<Rightarrow> None)
           else if security = ''reality'' then
             (case asObject (mapGet stream ''realitySettings'') of
                Some realitySettings \<Rightarrow> Some (RawJson (marshal (JObj (convertReality realitySettings))))
              | None \<Rightarrow> None)
           else None)
      | None \<Rightarrow> None)"

definition convertStream :: "raw \<Rightarrow> InboundConfig \<Rightarrow> InboundConfig" where
  "convertStream streamSettings sb =
     (if rawPresent streamSettings then
        (case unmarshalMap streamSettings of
           Some stream \<Rightarrow>
             (let transport = convertTransport stream;
                  sb1 = (case convertSecurity stream of Some tls \<Rightarrow> sb\<lparr>sbTLS := tls\<rparr> | None \<Rightarrow> sb)
              in if mapGet transport ''type'' \<noteq> None
                 then sb1\<lparr>sbTransport := RawJson (marshal (JObj transport))\<rparr> else sb1)
         | None \<Rightarrow> sb)
      else sb)"

definition convertSniffing :: "raw \<Rightarrow> InboundConfig \<Rightarrow> InboundConfig" where
  "convertSniffing sniffing sb =
     (if rawPresent sniffing then
        (case unmarshalMap sniffing of
           Some sniff \<Rightarrow>
             (let sb1 = (case asBool (mapGet sniff ''enabled'') of
                           Some enabled \<Rightarrow> sb\<lparr>sbSniff := enabled\<rparr> | None \<Rightarrow> sb)
              in (case asArray (mapGet sniff ''destOverride'') of
                    Some destOverride \<Rightarrow>
                      (if destOverride \<noteq> [] then sb1\<lparr>sbSniffOverrideDestination := True\<rparr> else sb1)
                  | None \<Rightarrow> sb1))
         | None \<Rightarrow> sb)
      else sb)"

text \<open>\<^verbatim>\<open>convertXrayInboundToSingBox\<close>; \<^verbatim>\<open>None\<close> is the \<^verbatim>\<open>nil\<close> of an unsupported protocol.\<close>

definition convertXrayInboundToSingBox :: "XrayInbound \<Rightarrow> InboundConfig option" where
  "convertXrayInboundToSingBox xrayInbound =
     (if xProtocol xrayInbound \<notin> set supportedProtocols then None
      else
        (let sb0 = \<lparr>sbType = xProtocol xrayInbound, sbTag = xTag xrayInbound,
                     sbListen = (if rawPresent (xListen xrayInbound) then xListen xrayInbound
                                 else RawJson JNull),
                     sbListenPort = xPort xrayInbound, sbUsers = RawEmpty, sbMethod = [],
                     sbPassword = [], sbNetwork = RawEmpty, sbTransport = RawEmpty,
                     sbTLS = RawEmpty, sbSniff = False, sbSniffOverrideDestination = False,
                     sbSettings = RawEmpty\<rparr>;
             sb1 = (case unmarshalMap (xSettings xrayInbound) of
                      Some settings \<Rightarrow> convertSettings (xProtocol xrayInbound) settings sb0
                    | None \<Rightarrow> sb0);
             sb2 = convertStream (xStreamSettings xrayInbound) sb1;
             sb3 = convertSniffing (xSniffing xrayInbound) sb2
         in Some sb3))"

section \<open>Xray to sing-box: \<^verbatim>\<open>ConvertXrayToSingBox\<close>\<close>

text \<open>The test \<^verbatim>\<open>v, ok := m[k].(string); ok && v != ""\<close>.\<close>

definition asNonEmptyString :: "json option \<Rightarrow> string option" where
  "asNonEmptyString v = (case asString v of Some s \<Rightarrow> (if s \<noteq> [] then Some s else None) | None \<Rightarrow> None)"

text \<open>The log section.\<close>

definition convertLog :: "raw \<Rightarrow> raw" where
  "convertLog logConfig =
     (if rawPresent logConfig then
        (case unmarshalMap logConfig of
           Some xrayLog \<Rightarrow>
             (let l1 = (case asString (mapGet xrayLog ''loglevel'') of
                          Some level \<Rightarrow> mapPut [] ''level'' (JStr level)
                        | None \<Rightarrow> mapPut [] ''level'' (JStr ''warn''));
                  l2 = (case asNonEmptyString (mapGet xrayLog ''error'') of
                          Some errorLog \<Rightarrow> mapPut l1 ''output'' (JStr errorLog)
                        | None \<Rightarrow>
                            (case asNonEmptyString (mapGet xrayLog ''access'') of
                               Some access \<Rightarrow> mapPut l1 ''output'' (JStr access)
                             | None \<Rightarrow> l1))
              in RawJson (marshal (JObj (mapPut l2 ''timestamp'' (JBool True)))))
         | None \<Rightarrow> RawEmpty)
      else RawJson (marshal (JObj [(''level'', JStr ''warn''), (''timestamp'', JBool True)])))"

text \<open>Deleting a key of the nested \<^verbatim>\<open>settings\<close> map changes the map the outbound holds.\<close>

definition inSettings :: "(jmap \<Rightarrow> jmap) \<Rightarrow> jmap \<Rightarrow> jmap" where
  "inSettings f outboundMap =
     (case asObject (mapGet outboundMap ''settings'') of
        Some settings \<Rightarrow> mapPut outboundMap ''settings'' (JObj (f settings))
      | None \<Rightarrow> outboundMap)"

text \<open>One outbound: \<^verbatim>\<open>None\<close> is the \<^verbatim>\<open>continue\<close> of \<^verbatim>\<open>tun\<close> and \<^verbatim>\<open>tunnel\<close>.\<close>

definition convertOutbound :: "jmap \<Rightarrow> jmap option" where
  "convertOutbound outboundMap =
     (let protocol = asString (mapGet outboundMap ''protocol'');
          skip = (protocol = Some ''tun'' \<or> protocol = Some ''tunnel'');
          o1 = (if protocol = Some ''freedom'' then
                  inSettings (\<lambda>settings. mapDel (mapDel (mapDel settings ''domainStrategy'') ''redirect'') ''noises'')
                    (mapPut outboundMap ''protocol'' (JStr ''direct''))
                else if protocol = Some ''blackhole'' then
                  mapPut (mapPut outboundMap ''protocol'' (JStr ''block'')) ''settings'' (JObj [])
                else outboundMap);
          o2 = (case asString (mapGet o1 ''protocol'') of
                  Some p \<Rightarrow> mapDel (mapPut o1 ''type'' (JStr p)) ''protocol''
                | None \<Rightarrow> o1);
          o3 = (case asObject (mapGet o2 ''settings'') of
                  Some settings \<Rightarrow>
                    (case asString (mapGet settings ''domainStrategy'') of
                       Some domainStrategy \<Rightarrow>
                         inSettings (\<lambda>st. mapDel st ''domainStrategy'')
                           (mapPut o2 ''domain_strategy'' (JStr domainStrategy))
                     | None \<Rightarrow> o2)
                | None \<Rightarrow> o2)
      in if skip then None else Some o3)"

definition convertOutbounds :: "raw \<Rightarrow> raw" where
  "convertOutbounds outboundConfigs =
     (if rawPresent outboundConfigs then
        (case unmarshalMaps outboundConfigs of
           Some outboundArray \<Rightarrow>
             RawJson (marshal (JArr (List.map_filter
               (\<lambda>(x, outboundMap). map_option (reencode x) (convertOutbound outboundMap))
               (zip (rawElems outboundConfigs) outboundArray))))
         | None \<Rightarrow> RawEmpty)
      else RawEmpty)"

text \<open>
  The \<^verbatim>\<open>ip\<close> entries of a rule: the values after the prefix \<^verbatim>\<open>geoip:\<close>, and the other
  strings; an entry that is not a string goes to neither list.
\<close>

fun geoipList :: "json list \<Rightarrow> string list" where
  "geoipList [] = []"
| "geoipList (JStr ipStr # ip) =
     (case stripPrefix ''geoip:'' ipStr of
        Some geoipValue \<Rightarrow> geoipValue # geoipList ip
      | None \<Rightarrow> geoipList ip)"
| "geoipList (_ # ip) = geoipList ip"

fun regularIPs :: "json list \<Rightarrow> json list" where
  "regularIPs [] = []"
| "regularIPs (JStr ipStr # ip) =
     (case stripPrefix ''geoip:'' ipStr of
        Some geoipValue \<Rightarrow> regularIPs ip
      | None \<Rightarrow> JStr ipStr # regularIPs ip)"
| "regularIPs (_ # ip) = regularIPs ip"

text \<open>The last test of the loop body: a rule that holds a \<^verbatim>\<open>geoip\<close> field already.\<close>

definition geoipCheck :: "bool \<Rightarrow> jmap \<Rightarrow> bool \<times> json" where
  "geoipCheck hasGeoipConfig ruleMap =
     (case asArray (mapGet ruleMap ''geoip'') of
        Some (g # gs) \<Rightarrow> (hasGeoipConfig, JObj ruleMap)
      | _ \<Rightarrow>
          (case asString (mapGet ruleMap ''geoip'') of
             Some geoipStr \<Rightarrow> (if geoipStr \<noteq> [] then (hasGeoipConfig, JObj ruleMap) else (True, JObj ruleMap))
           | None \<Rightarrow> (True, JObj ruleMap)))"

text \<open>
  One element of \<^verbatim>\<open>rules\<close>, in the order of the loop body: the marker and the two
  renamed fields, then the \<^verbatim>\<open>ip\<close> entries. The result is the element after the changes
  made to it in place, and whether it is appended to \<^verbatim>\<open>filteredRules\<close> (\<^verbatim>\<open>False\<close> is
  a \<^verbatim>\<open>continue\<close>). An element that is not an object is appended as it is.
\<close>

definition renameRuleFields :: "jmap \<Rightarrow> jmap" where
  "renameRuleFields ruleMap =
     (let r1 = (if mapGet ruleMap ''type'' \<noteq> None then mapDel ruleMap ''type'' else ruleMap);
          r2 = (case asString (mapGet r1 ''outboundTag'') of
                  Some outboundTag \<Rightarrow> mapDel (mapPut r1 ''outbound'' (JStr outboundTag)) ''outboundTag''
                | None \<Rightarrow> r1);
          r3 = (case asArray (mapGet r2 ''inboundTag'') of
                  Some inboundTag \<Rightarrow> mapDel (mapPut r2 ''inbound'' (JArr inboundTag)) ''inboundTag''
                | None \<Rightarrow> r2)
      in r3)"

definition convertRuleIp :: "bool \<Rightarrow> jmap \<Rightarrow> bool \<times> json" where
  "convertRuleIp hasGeoipConfig ruleMap =
     (case asArray (mapGet ruleMap ''ip'') of
        Some ip \<Rightarrow>
          (if geoipList ip \<noteq> [] \<and> \<not> hasGeoipConfig then (False, JObj ruleMap)
           else
             (let r4 = (if geoipList ip \<noteq> []
                        then mapDel (mapPut ruleMap ''geoip'' (JStrs (geoipList ip))) ''ip''
                        else ruleMap);
                  r5 = (if regularIPs ip \<noteq> [] then mapPut r4 ''ip'' (JArr (regularIPs ip))
                        else if geoipList ip = [] then mapDel r4 ''ip'' else r4)
              in geoipCheck hasGeoipConfig r5))
      | None \<Rightarrow> geoipCheck hasGeoipConfig ruleMap)"

definition convertRule :: "bool \<Rightarrow> json \<Rightarrow> bool \<times> json" where
  "convertRule hasGeoipConfig rule =
     (case rule of
        JObj ruleMap \<Rightarrow> convertRuleIp hasGeoipConfig (renameRuleFields ruleMap)
      | _ \<Rightarrow> (True, rule))"

text \<open>
  The loop over \<^verbatim>\<open>rules\<close> and the assignment after it: \<^verbatim>\<open>filteredRules\<close> replaces
  the array only when an element was dropped; otherwise the route keeps the array it
  had, whose objects were changed in place.
\<close>

definition convertRules :: "bool \<Rightarrow> json list \<Rightarrow> json list" where
  "convertRules hasGeoipConfig rules =
     (let results = map (convertRule hasGeoipConfig) rules;
          filteredRules = map snd (filter fst results)
      in if length filteredRules \<noteq> length rules then filteredRules else map snd results)"

text \<open>The two deletions at the head of the route branch.\<close>

definition dropDomainStrategy :: "jmap \<Rightarrow> jmap" where
  "dropDomainStrategy route0 =
     (let route1 = (if mapGet route0 ''domainStrategy'' \<noteq> None
                    then mapDel route0 ''domainStrategy'' else route0)
      in (if mapGet route1 ''domain_strategy'' \<noteq> None
          then mapDel route1 ''domain_strategy'' else route1))"

definition convertRoute :: "raw \<Rightarrow> raw" where
  "convertRoute routerConfig =
     (if rawPresent routerConfig then
        (case unmarshalMap routerConfig of
           Some route0 \<Rightarrow>
             (let route = dropDomainStrategy route0;
                  hasGeoipConfig = (asObject (mapGet route ''geoip'') \<noteq> None);
                  route' = (case asArray (mapGet route ''rules'') of
                              Some rules \<Rightarrow> mapPut route ''rules'' (JArr (convertRules hasGeoipConfig rules))
                            | None \<Rightarrow> route)
              in RawJson (marshal (reencode (case routerConfig of RawJson x \<Rightarrow> x | _ \<Rightarrow> JNull) route')))
         | None \<Rightarrow> routerConfig)
      else RawEmpty)"

text \<open>\<^verbatim>\<open>ConvertXrayToSingBox\<close>; its error result is always \<^verbatim>\<open>nil\<close>.\<close>

definition ConvertXrayToSingBox :: "XrayConfig \<Rightarrow> Config" where
  "ConvertXrayToSingBox xrayConfig =
     \<lparr>Log = convertLog (LogConfig xrayConfig),
      DNS = (if rawPresent (DNSConfig xrayConfig) then DNSConfig xrayConfig else RawEmpty),
      NTP = RawEmpty,
      Inbounds = List.map_filter convertXrayInboundToSingBox (InboundConfigs xrayConfig),
      Outbounds = convertOutbounds (OutboundConfigs xrayConfig),
      Route = convertRoute (RouterConfig xrayConfig),
      Experimental = RawEmpty\<rparr>"

section \<open>sing-box to Xray: \<^verbatim>\<open>convertSingBoxInboundToXray\<close> and \<^verbatim>\<open>ConvertSingBoxToXray\<close>\<close>

text \<open>The body of the loop over \<^verbatim>\<open>users\<close>.\<close>

definition convertUser :: "jmap \<Rightarrow> jmap" where
  "convertUser user =
     (let client0 = [];
          client1 = (case asString (mapGet user ''uuid'') of
                       Some uuid \<Rightarrow> mapPut client0 ''id'' (JStr uuid) | None \<Rightarrow> client0);
          client2 = (case asNonEmptyString (mapGet user ''name'') of
                       Some name \<Rightarrow> mapPut client1 ''email'' (JStr name)
                     | None \<Rightarrow>
                         (case asNonEmptyString (mapGet user ''email'') of
                            Some email \<Rightarrow> mapPut client1 ''email'' (JStr email)
                          | None \<Rightarrow> client1));
          client3 = (case asString (mapGet user ''flow'') of
                       Some flow \<Rightarrow> mapPut client2 ''flow'' (JStr flow) | None \<Rightarrow> client2)
      in client3)"

definition settingsToXray :: "InboundConfig \<Rightarrow> jmap" where
  "settingsToXray sbInbound =
     (if sbType sbInbound = ''vmess'' \<or> sbType sbInbound = ''vless'' then
        (if rawPresent (sbUsers sbInbound) then
           (case unmarshalMaps (sbUsers sbInbound) of
              Some users \<Rightarrow> mapPut [] ''clients'' (JArr (map (\<lambda>u. JObj (convertUser u)) users))
            | None \<Rightarrow> [])
         else [])
      else if sbType sbInbound = ''trojan'' then
        (if sbPassword sbInbound \<noteq> []
         then mapPut [] ''clients'' (JArr [JObj [(''password'', JStr (sbPassword sbInbound))]])
         else [])
      else if sbType sbInbound = ''shadowsocks'' then
        (let s1 = (if sbMethod sbInbound \<noteq> [] then mapPut [] ''method'' (JStr (sbMethod sbInbound)) else [])
         in if sbPassword sbInbound \<noteq> [] then mapPut s1 ''password'' (JStr (sbPassword sbInbound)) else s1)
      else [])"

definition transportToXray :: "raw \<Rightarrow> jmap \<Rightarrow> jmap" where
  "transportToXray sbTransportRaw stream =
     (if rawPresent sbTransportRaw then
        (case unmarshalMap sbTransportRaw of
           Some transport \<Rightarrow>
             (case asString (mapGet transport ''type'') of
                Some networkType \<Rightarrow>
                  (let stream1 = mapPut stream ''network'' (JStr networkType) in
                   if networkType = ''ws'' then
                     (let ws1 = (case asString (mapGet transport ''path'') of
                                   Some path \<Rightarrow> mapPut [] ''path'' (JStr path) | None \<Rightarrow> []);
                          ws2 = (case asObject (mapGet transport ''headers'') of
                                   Some headers \<Rightarrow> mapPut ws1 ''headers'' (JObj headers) | None \<Rightarrow> ws1)
                      in mapPut stream1 ''wsSettings'' (JObj ws2))
                   else if networkType = ''grpc'' then
                     (let g1 = (case asString (mapGet transport ''service_name'') of
                                  Some serviceName \<Rightarrow> mapPut [] ''serviceName'' (JStr serviceName)
                                | None \<Rightarrow> [])
                      in mapPut stream1 ''grpcSettings'' (JObj g1))
                   else stream1)
              | None \<Rightarrow> stream)
         | None \<Rightarrow> stream)
      else stream)"

text \<open>The Reality settings rebuilt from the TLS map and its \<^verbatim>\<open>reality\<close> object.\<close>

definition realityToXray :: "jmap \<Rightarrow> jmap \<Rightarrow> jmap" where
  "realityToXray tlsConfig reality =
     (let rs1 = (case asString (mapGet tlsConfig ''server_name'') of
                   Some serverName \<Rightarrow>
                     mapPut (mapPut [] ''dest'' (JStr serverName)) ''serverNames'' (JStrs [serverName])
                 | None \<Rightarrow> []);
          rs2 = (case asString (mapGet reality ''private_key'') of
                   Some privateKey \<Rightarrow> mapPut rs1 ''privateKey'' (JStr privateKey) | None \<Rightarrow> rs1);
          rs3 = (case asArray (mapGet reality ''short_id'') of
                   Some (sid # sids) \<Rightarrow>
                     (if stringsOf (sid # sids) \<noteq> []
                      then mapPut rs2 ''shortIds'' (JStrs (stringsOf (sid # sids))) else rs2)
                 | _ \<Rightarrow>
                     (case asString (mapGet reality ''short_id'') of
                        Some shortId \<Rightarrow> mapPut rs2 ''shortIds'' (JStrs [shortId])
                      | None \<Rightarrow> rs2))
      in rs3)"

definition tlsToXray :: "jmap \<Rightarrow> jmap" where
  "tlsToXray tlsConfig =
     (let t1 = (case asString (mapGet tlsConfig ''certificate_path'') of
                  Some certPath \<Rightarrow> mapPut [] ''certificateFile'' (JStr certPath) | None \<Rightarrow> []);
          t2 = (case asString (mapGet tlsConfig ''key_path'') of
                  Some keyPath \<Rightarrow> mapPut t1 ''keyFile'' (JStr keyPath) | None \<Rightarrow> t1);
          t3 = (case asString (mapGet tlsConfig ''server_name'') of
                  Some serverName \<Rightarrow> mapPut t2 ''serverName'' (JStr serverName) | None \<Rightarrow> t2);
          t4 = (case asArray (mapGet tlsConfig ''alpn'') of
                  Some alpn \<Rightarrow> mapPut t3 ''alpn'' (JArr alpn) | None \<Rightarrow> t3)
      in t4)"

definition securityToXray :: "raw \<Rightarrow> jmap \<Rightarrow> jmap" where
  "securityToXray sbTLSRaw stream =
     (if rawPresent sbTLSRaw then
        (case unmarshalMap sbTLSRaw of
           Some tlsConfig \<Rightarrow>
             (case asObject (mapGet tlsConfig ''reality'') of
                Some reality \<Rightarrow>
                  mapPut (mapPut stream ''security'' (JStr ''reality''))
                    ''realitySettings'' (JObj (realityToXray tlsConfig reality))
              | None \<Rightarrow>
                  mapPut (mapPut stream ''security'' (JStr ''tls''))
                    ''tlsSettings'' (JObj (tlsToXray tlsConfig)))
         | None \<Rightarrow> stream)
      else stream)"

definition convertSingBoxInboundToXray :: "InboundConfig \<Rightarrow> XrayInbound" where
  "convertSingBoxInboundToXray sbInbound =
     (let stream = securityToXray (sbTLS sbInbound) (transportToXray (sbTransport sbInbound) [])
      in \<lparr>xListen = (if rawPresent (sbListen sbInbound) then sbListen sbInbound else RawEmpty),
          xPort = sbListenPort sbInbound,
          xProtocol = sbType sbInbound,
          xSettings = RawJson (marshal (JObj (settingsToXray sbInbound))),
          xStreamSettings = (if stream \<noteq> [] then RawJson (marshal (JObj stream)) else RawEmpty),
          xTag = sbTag sbInbound,
          xSniffing =
            (if sbSniff sbInbound then
               RawJson (marshal (JObj
                 (let sniffing = mapPut [] ''enabled'' (JBool True) in
                  if sbSniffOverrideDestination sbInbound
                  then mapPut sniffing ''destOverride'' (JStrs [''http'', ''tls'']) else sniffing)))
             else RawEmpty)\<rparr>)"

definition logToXray :: "raw \<Rightarrow> raw" where
  "logToXray sbLogRaw =
     (if rawPresent sbLogRaw then
        (case unmarshalMap sbLogRaw of
           Some sbLog \<Rightarrow>
             (let l1 = (case asString (mapGet sbLog ''level'') of
                          Some level \<Rightarrow> mapPut [] ''loglevel'' (JStr level) | None \<Rightarrow> []);
                  l2 = (case asString (mapGet sbLog ''output'') of
                          Some output \<Rightarrow> mapPut l1 ''access'' (JStr output) | None \<Rightarrow> l1);
                  l3 = (case asString (mapGet sbLog ''error'') of
                          Some errorLog \<Rightarrow> mapPut l2 ''error'' (JStr errorLog) | None \<Rightarrow> l2)
              in RawJson (marshal (JObj l3)))
         | None \<Rightarrow> RawEmpty)
      else RawEmpty)"

definition outboundToXray :: "jmap \<Rightarrow> jmap" where
  "outboundToXray outboundMap =
     (let o1 = (case asString (mapGet outboundMap ''domain_strategy'') of
                  Some domainStrategy \<Rightarrow>
                    (let settings = (case asObject (mapGet outboundMap ''settings'') of
                                       Some st \<Rightarrow> st | None \<Rightarrow> [])
                     in mapDel (mapPut outboundMap ''settings''
                                  (JObj (mapPut settings ''domainStrategy'' (JStr domainStrategy))))
                               ''domain_strategy'')
                | None \<Rightarrow> outboundMap)
      in (case asString (mapGet o1 ''type'') of
            Some obType \<Rightarrow> mapDel (mapPut o1 ''protocol'' (JStr obType)) ''type''
          | None \<Rightarrow> o1))"

definition outboundsToXray :: "raw \<Rightarrow> raw" where
  "outboundsToXray sbOutbounds =
     (if rawPresent sbOutbounds then
        (case unmarshalMaps sbOutbounds of
           Some outboundArray \<Rightarrow>
             (if sbOutbounds = RawJson JNull then RawJson JNull
              else RawJson (marshal (JArr (map
                     (\<lambda>(x, outboundMap). reencode x (outboundToXray outboundMap))
                     (zip (rawElems sbOutbounds) outboundArray)))))
         | None \<Rightarrow> sbOutbounds)
      else RawEmpty)"

text \<open>\<^verbatim>\<open>ConvertSingBoxToXray\<close>; its error result is always \<^verbatim>\<open>nil\<close>. The route is copied.\<close>

definition ConvertSingBoxToXray :: "Config \<Rightarrow> XrayConfig" where
  "ConvertSingBoxToXray singboxConfig =
     \<lparr>LogConfig = logToXray (Log singboxConfig),
      DNSConfig = DNS singboxConfig,
      InboundConfigs = map convertSingBoxInboundToXray (Inbounds singboxConfig),
      OutboundConfigs = outboundsToXray (Outbounds singboxConfig),
      RouterConfig = (if rawPresent (Route singboxConfig) then Route singboxConfig else RawEmpty)\<rparr>"

text \<open>A map whose values are all strings: encoding leaves it as it is.\<close>

definition plain :: "jmap \<Rightarrow> bool" where
  "plain m = (\<forall>(k, v) \<in> set m. \<exists>s. v = JStr s)"

text \<open>What a reader of the translated inbound decodes from its \<^verbatim>\<open>users\<close> field.\<close>

definition objectsOf :: "json list \<Rightarrow> jmap list" where
  "objectsOf xs = List.map_filter (\<lambda>x. case x of JObj m \<Rightarrow> Some m | _ \<Rightarrow> None) xs"

definition usersOf :: "InboundConfig \<Rightarrow> jmap list" where
  "usersOf sb = (case unmarshalMaps (sbUsers sb) of Some users \<Rightarrow> users | None \<Rightarrow> [])"

text \<open>Following a path of keys into a decoded document.\<close>

fun jpath :: "json \<Rightarrow> string list \<Rightarrow> json option" where
  "jpath v [] = Some v"
| "jpath (JObj m) (k # ks) = (case mapGet m k of Some v \<Rightarrow> jpath v ks | None \<Rightarrow> None)"
| "jpath _ (k # ks) = None"

text \<open>The rules a reader decodes from a route section.\<close>

definition rulesOf :: "raw \<Rightarrow> json list option" where
  "rulesOf r = (case r of RawJson v \<Rightarrow> asArray (jpath v [''rules'']) | _ \<Rightarrow> None)"

text \<open>The round trip of one inbound and of a whole configuration, Xray to sing-box and back.\<close>

definition roundTripInbound :: "XrayInbound \<Rightarrow> XrayInbound option" where
  "roundTripInbound x = map_option convertSingBoxInboundToXray (convertXrayInboundToSingBox x)"

definition roundTrip :: "XrayConfig \<Rightarrow> XrayConfig" where
  "roundTrip cfg = ConvertSingBoxToXray (ConvertXrayToSingBox cfg)"

text \<open>What a reader decodes from an Xray inbound: its client objects, and a path into its
  stream settings.\<close>

definition clientsOf :: "XrayInbound \<Rightarrow> jmap list" where
  "clientsOf x =
     (case unmarshalMap (xSettings x) of
        Some settings \<Rightarrow>
          (case asArray (mapGet settings ''clients'') of Some cs \<Rightarrow> objectsOf cs | None \<Rightarrow> [])
      | None \<Rightarrow> [])"

definition rawPath :: "raw \<Rightarrow> string list \<Rightarrow> json option" where
  "rawPath r ks = (case r of RawJson v \<Rightarrow> jpath v ks | _ \<Rightarrow> None)"

section \<open>The sing-box process supervisor\<close>

text \<open>
  Results of the operations: \<^verbatim>\<open>nil\<close>, an error with its message, or a panic (a nil
  pointer dereferenced). What an operation asks of the operating system is recorded as
  a list of events, oldest first.
\<close>

datatype outcome = Ok | Err string | Panic

datatype event =
    MkdirLogFolder
  | WriteConfigFile
  | RunCheck
  | SpawnProcess
  | RunVersion
  | SignalTerm nat
  | Kill nat
  | CloseAPI

text \<open>
  \<^verbatim>\<open>exec.Cmd\<close> as the supervisor reads it: \<^verbatim>\<open>Process\<close> is nil until the program has
  started (here its process id), \<^verbatim>\<open>ProcessState\<close> is nil until it has exited.
\<close>

record Cmd =
  cmdProcess :: "nat option"
  cmdProcessState :: "unit option"

record process =
  cmd :: "Cmd option"
  version :: string
  apiPort :: int
  config :: Config
  exitErr :: "string option"

definition IsRunning :: "process \<Rightarrow> bool" where
  "IsRunning p =
     (case cmd p of
        None \<Rightarrow> False
      | Some c \<Rightarrow>
          (case cmdProcess c of
             None \<Rightarrow> False
           | Some pid \<Rightarrow> (if cmdProcessState c = None then True else False)))"

text \<open>
  What the operating system answers during \<^verbatim>\<open>Stop\<close>: the platform, the error of the
  first signal, whether the process exits within the five seconds, the error of the
  forced kill, whether it exits within the further second.
\<close>

record stopEnv =
  isWindows :: bool
  signalErr :: "string option"
  exitsInTime :: bool
  killErr :: "string option"
  exitsAfterKill :: bool

text \<open>An exit observed by \<^verbatim>\<open>cmd.Wait\<close> sets \<^verbatim>\<open>ProcessState\<close>.\<close>

definition exited :: "process \<Rightarrow> process" where
  "exited p = p\<lparr>cmd := map_option (\<lambda>c. c\<lparr>cmdProcessState := Some ()\<rparr>) (cmd p)\<rparr>"

text \<open>\<^verbatim>\<open>process.Stop\<close>. The dereference \<^verbatim>\<open>p.cmd.Process\<close> panics on a nil pointer.\<close>

definition Stop :: "stopEnv \<Rightarrow> process \<Rightarrow> outcome \<times> process \<times> event list" where
  "Stop env p =
     (if \<not> IsRunning p then (Err ''sing-box is not running'', p, [])
      else
        (case cmd p of
           None \<Rightarrow> (Panic, p, [])
         | Some c \<Rightarrow>
             (case cmdProcess c of
                None \<Rightarrow> (Panic, p, [])
              | Some pid \<Rightarrow>
                  (let first = (if isWindows env then Kill pid else SignalTerm pid) in
                   case signalErr env of
                     Some e \<Rightarrow> (Err e, p, [first])
                   | None \<Rightarrow>
                       if exitsInTime env then (Ok, exited p, [first])
                       else
                         (case killErr env of
                            Some e \<Rightarrow> (Err (''failed to kill sing-box process: '' @ e), p, [first, Kill pid])
                          | None \<Rightarrow>
                              if exitsAfterKill env then (Ok, exited p, [first, Kill pid])
                              else (Err ''sing-box process didn't exit after kill'', p,
                                    [first, Kill pid]))))))"

text \<open>
  What the operating system answers during \<^verbatim>\<open>Start\<close>: the result of
  \<^verbatim>\<open>WriteConfigFile\<close>, the path of the binary and whether it exists, the result of the \<^verbatim>\<open>check\<close>
  subcommand, the process id of the started program (none when it could not be started),
  and what \<^verbatim>\<open>refreshVersion\<close> and \<^verbatim>\<open>refreshAPIPort\<close> store.
\<close>

record startEnv =
  writeConfigErr :: "string option"
  binaryPath :: string
  binaryExists :: bool
  checkErr :: "string option"
  spawnedPid :: "nat option"
  newVersion :: string
  newApiPort :: int

text \<open>
  \<^verbatim>\<open>process.Start\<close>. The deferred function stores a returned error in \<^verbatim>\<open>exitErr\<close>; it is
  registered after the test of \<^verbatim>\<open>IsRunning\<close>, so the first return does not pass it.
\<close>

definition failStart :: "string \<Rightarrow> process \<Rightarrow> event list \<Rightarrow> outcome \<times> process \<times> event list" where
  "failStart e p evs = (Err e, p\<lparr>exitErr := Some e\<rparr>, evs)"

definition Start :: "startEnv \<Rightarrow> process \<Rightarrow> outcome \<times> process \<times> event list" where
  "Start env p =
     (if IsRunning p then (Err ''sing-box is already running'', p, [])
      else
        (case writeConfigErr env of
           Some e \<Rightarrow> failStart e p [MkdirLogFolder]
         | None \<Rightarrow>
             if \<not> binaryExists env
             then failStart (''sing-box binary not found at '' @ binaryPath env) p
                    [MkdirLogFolder, WriteConfigFile]
             else
               (case checkErr env of
                  Some e \<Rightarrow>
                    failStart (''sing-box config validation failed: '' @ e) p
                      [MkdirLogFolder, WriteConfigFile, RunCheck]
                | None \<Rightarrow>
                    (Ok,
                     p\<lparr>cmd := Some \<lparr>cmdProcess = spawnedPid env, cmdProcessState = None\<rparr>,
                       version := newVersion env, apiPort := newApiPort env\<rparr>,
                     [MkdirLogFolder, WriteConfigFile, RunCheck, SpawnProcess, RunVersion]))))"

section \<open>The sing-box service and the health check\<close>

text \<open>
  The package-level variables of \<^verbatim>\<open>web/service/singbox.go\<close>: the process pointer, the
  two flags and the pool of API connections (its ports).
\<close>

record service =
  singboxProcess :: "process option"
  isNeedSingBoxRestart :: bool
  isManuallyStoppedSB :: bool
  apiPool :: "int list"

definition IsSingBoxRunning :: "service \<Rightarrow> bool" where
  "IsSingBoxRunning s = (case singboxProcess s of None \<Rightarrow> False | Some p \<Rightarrow> IsRunning p)"

text \<open>\<^verbatim>\<open>StopSingBox\<close>: the flag is stored first; \<^verbatim>\<open>CloseAPIConnections\<close> empties the pool.\<close>

definition StopSingBox :: "stopEnv \<Rightarrow> service \<Rightarrow> outcome \<times> service \<times> event list" where
  "StopSingBox env s =
     (let s1 = s\<lparr>isManuallyStoppedSB := True\<rparr> in
      if IsSingBoxRunning s1 then
        (case singboxProcess s1 of
           None \<Rightarrow> (Panic, s1\<lparr>apiPool := []\<rparr>, [CloseAPI])
         | Some p \<Rightarrow>
             (case Stop env p of
                (r, p', evs) \<Rightarrow> (r, s1\<lparr>apiPool := [], singboxProcess := Some p'\<rparr>, CloseAPI # evs)))
      else (Ok, s1, []))"

text \<open>\<^verbatim>\<open>SingBoxCoreAdapter.Stop\<close>.\<close>

definition adapterStop :: "stopEnv \<Rightarrow> service \<Rightarrow> outcome \<times> service \<times> event list" where
  "adapterStop env s = StopSingBox env s"

text \<open>
  \<^verbatim>\<open>CheckXrayRunningJob.Run\<close>. Its inputs besides the sing-box service: the multi-node
  setting and the adapter \<^verbatim>\<open>GetCoreService\<close> returns (each may fail), and for the Xray
  adapter whether Xray runs and what \<^verbatim>\<open>DidXrayCrash\<close> answers. The result is the new
  \<^verbatim>\<open>checkTime\<close> and whether \<^verbatim>\<open>Restart(false)\<close> was called.
\<close>

datatype coreKind = XrayCore | SingBoxCore

record jobEnv =
  multiNodeMode :: "string + bool"
  coreService :: "string + coreKind"
  xrayRunning :: bool
  didXrayCrash :: bool

definition Run :: "jobEnv \<Rightarrow> service \<Rightarrow> int \<Rightarrow> int \<times> bool" where
  "Run env s checkTime =
     (if multiNodeMode env = Inr True then (checkTime, False)
      else
        (case coreService env of
           Inl e \<Rightarrow> (checkTime, False)
         | Inr kind \<Rightarrow>
             if (case kind of XrayCore \<Rightarrow> xrayRunning env | SingBoxCore \<Rightarrow> IsSingBoxRunning s)
             then (0, False)
             else if kind = XrayCore \<and> \<not> didXrayCrash env then (0, False)
             else if checkTime + 1 > 1 then (0, True)
             else (checkTime + 1, False)))"

section \<open>The settings store\<close>

text \<open>
  The settings table as the service sees it: one value per key. The cache in front of
  it (package \<^verbatim>\<open>web/cache\<close>) is read-through and invalidated on every successful
  write, and is left out. A database call can fail: the store carries the schedule of
  the coming calls, \<^verbatim>\<open>True\<close> for a call that fails; past the end of the schedule calls
  succeed.
\<close>

record store =
  rows :: "(string \<times> string) list"
  faults :: "bool list"

datatype dbRead = Row string | NotFound | ReadErr

definition nextFault :: "store \<Rightarrow> bool \<times> store" where
  "nextFault st = (case faults st of [] \<Rightarrow> (False, st) | f # fs \<Rightarrow> (f, st\<lparr>faults := fs\<rparr>))"

text \<open>\<^verbatim>\<open>db.Where("key = ?", key).First(...)\<close>, and \<^verbatim>\<open>db.Create\<close> / \<^verbatim>\<open>db.Save\<close> of a row.\<close>

definition dbFirst :: "string \<Rightarrow> store \<Rightarrow> dbRead \<times> store" where
  "dbFirst key st =
     (case nextFault st of
        (True, st') \<Rightarrow> (ReadErr, st')
      | (False, st') \<Rightarrow> ((case mapGet (rows st') key of Some v \<Rightarrow> Row v | None \<Rightarrow> NotFound), st'))"

definition dbWrite :: "string \<Rightarrow> string \<Rightarrow> store \<Rightarrow> bool \<times> store" where
  "dbWrite key val st =
     (case nextFault st of
        (True, st') \<Rightarrow> (False, st')
      | (False, st') \<Rightarrow> (True, st'\<lparr>rows := mapPut (rows st') key val\<rparr>))"

definition getSetting :: "string \<Rightarrow> store \<Rightarrow> dbRead \<times> store" where
  "getSetting key st = dbFirst key st"

text \<open>
  \<^verbatim>\<open>saveSetting\<close>; \<^verbatim>\<open>True\<close> is \<^verbatim>\<open>nil\<close>. What follows a successful write of the key
  \<^verbatim>\<open>multiNodeMode\<close> (the clean-up of duplicate inbounds) touches no setting.
\<close>

definition saveSetting :: "string \<Rightarrow> string \<Rightarrow> store \<Rightarrow> bool \<times> store" where
  "saveSetting key val st =
     (case getSetting key st of
        (NotFound, st') \<Rightarrow> dbWrite key val st'
      | (ReadErr, st') \<Rightarrow> (False, st')
      | (Row old, st') \<Rightarrow> dbWrite key val st')"

text \<open>
  What is not in the repository's sources: the two embedded default templates, and the
  JSON decoder and encoder of Go's library on whole documents. They are arguments of
  the model. \<^verbatim>\<open>cleanTemplate\<close> is the clean-up pass of
  \<^verbatim>\<open>EnsureSingBoxTemplateConfigValid\<close> over a template that decodes: the text it saves
  when it changed something, if any.
\<close>

record codec =
  defaultXrayTemplateConfig :: string
  defaultSingBoxTemplateConfig :: string
  unmarshalXrayConfig :: "string \<Rightarrow> XrayConfig option"
  unmarshalSingBoxConfig :: "string \<Rightarrow> Config option"
  unmarshalTemplateMap :: "string \<Rightarrow> jmap option"
  cleanTemplate :: "jmap \<Rightarrow> string option"
  marshalXrayConfig :: "XrayConfig \<Rightarrow> string option"
  marshalSingBoxConfig :: "Config \<Rightarrow> string option"

definition defaultValueMap :: "codec \<Rightarrow> (string \<times> string) list" where
  "defaultValueMap c =
     [(''xrayTemplateConfig'', defaultXrayTemplateConfig c),
      (''singboxTemplateConfig'', defaultSingBoxTemplateConfig c),
      (''ldapSyncCron'', ''@every 1m''),
      (''ldapFlagField'', ''''),
      (''ldapTruthyValues'', ''true,1,yes,on''),
      (''ldapInvertFlag'', ''false''),
      (''ldapInboundTags'', ''''),
      (''ldapAutoCreate'', ''false''),
      (''ldapAutoDelete'', ''false''),
      (''ldapDefaultTotalGB'', ''0''),
      (''ldapDefaultExpiryDays'', ''0''),
      (''ldapDefaultLimitIP'', ''0''),
      (''multiNodeMode'', ''false''),
      (''hwidMode'', ''client_header''),
      (''coreType'', ''xray'')]"

text \<open>\<^verbatim>\<open>getString\<close>: \<^verbatim>\<open>None\<close> is an error.\<close>

definition getString :: "codec \<Rightarrow> string \<Rightarrow> store \<Rightarrow> string option \<times> store" where
  "getString c key st =
     (case getSetting key st of
        (NotFound, st') \<Rightarrow> (mapGet (defaultValueMap c) key, st')
      | (ReadErr, st') \<Rightarrow> (None, st')
      | (Row v, st') \<Rightarrow> (Some v, st'))"

definition GetXrayConfigTemplate :: "codec \<Rightarrow> store \<Rightarrow> string option \<times> store" where
  "GetXrayConfigTemplate c st = getString c ''xrayTemplateConfig'' st"

definition GetSingBoxConfigTemplate :: "codec \<Rightarrow> store \<Rightarrow> string option \<times> store" where
  "GetSingBoxConfigTemplate c st = getString c ''singboxTemplateConfig'' st"

text \<open>
  \<^verbatim>\<open>strings.TrimSpace\<close> on the bytes of a string: the white space of Unicode in UTF-8.
\<close>

definition spaces :: "string list" where
  "spaces =
     [[char_of (9::nat)], [char_of (10::nat)], [char_of (11::nat)], [char_of (12::nat)],
      [char_of (13::nat)], [char_of (32::nat)],
      [char_of (194::nat), char_of (133::nat)], [char_of (194::nat), char_of (160::nat)],
      [char_of (225::nat), char_of (154::nat), char_of (128::nat)],
      [char_of (226::nat), char_of (128::nat), char_of (128::nat)],
      [char_of (226::nat), char_of (128::nat), char_of (129::nat)],
      [char_of (226::nat), char_of (128::nat), char_of (130::nat)],
      [char_of (226::nat), char_of (128::nat), char_of (131::nat)],
      [char_of (226::nat), char_of (128::nat), char_of (132::nat)],
      [char_of (226::nat), char_of (128::nat), char_of (133::nat)],
      [char_of (226::nat), char_of (128::nat), char_of (134::nat)],
      [char_of (226::nat), char_of (128::nat), char_of (135::nat)],
      [char_of (226::nat), char_of (128::nat), char_of (136::nat)],
      [char_of (226::nat), char_of (128::nat), char_of (137::nat)],
      [char_of (226::nat), char_of (128::nat), char_of (138::nat)],
      [char_of (226::nat), char_of (128::nat), char_of (168::nat)],
      [char_of (226::nat), char_of (128::nat), char_of (169::nat)],
      [char_of (226::nat), char_of (128::nat), char_of (175::nat)],
      [char_of (226::nat), char_of (129::nat), char_of (159::nat)],
      [char_of (227::nat), char_of (128::nat), char_of (128::nat)]]"

text \<open>The rest of \<^verbatim>\<open>s\<close> after a leading white-space character, if it starts with one.\<close>

fun afterSpace :: "string list \<Rightarrow> string \<Rightarrow> string option" where
  "afterSpace [] s = None"
| "afterSpace (sp # sps) s =
     (case stripPrefix sp s of Some r \<Rightarrow> Some r | None \<Rightarrow> afterSpace sps s)"

text \<open>Leading white space removed; no more characters can go than the string has bytes.\<close>

fun trimLeft :: "string list \<Rightarrow> nat \<Rightarrow> string \<Rightarrow> string" where
  "trimLeft sps 0 s = s"
| "trimLeft sps (Suc n) s =
     (case afterSpace sps s of Some r \<Rightarrow> trimLeft sps n r | None \<Rightarrow> s)"

definition TrimSpace :: "string \<Rightarrow> string" where
  "TrimSpace s =
     (let l = trimLeft spaces (length s) s
      in rev (trimLeft (map rev spaces) (length l) (rev l)))"

text \<open>
  \<^verbatim>\<open>EnsureXrayTemplateConfigValid\<close>; it reads the row itself, not through
  \<^verbatim>\<open>getSetting\<close>. \<^verbatim>\<open>True\<close> is \<^verbatim>\<open>nil\<close>.
\<close>

definition EnsureXrayTemplateConfigValid :: "codec \<Rightarrow> store \<Rightarrow> bool \<times> store" where
  "EnsureXrayTemplateConfigValid c st =
     (case dbFirst ''xrayTemplateConfig'' st of
        (NotFound, st') \<Rightarrow> saveSetting ''xrayTemplateConfig'' (defaultXrayTemplateConfig c) st'
      | (ReadErr, st') \<Rightarrow> (False, st')
      | (Row current, st') \<Rightarrow>
          (let val = TrimSpace current in
           if val = [] \<or> val = ''{}''
           then saveSetting ''xrayTemplateConfig'' (defaultXrayTemplateConfig c) st'
           else if unmarshalXrayConfig c val = None
           then saveSetting ''xrayTemplateConfig'' (defaultXrayTemplateConfig c) st'
           else (True, st')))"

text \<open>
  \<^verbatim>\<open>EnsureSingBoxTemplateConfigValid\<close>: the same three tests, on a decoding into a map;
  a template that decodes goes through the clean-up pass and is saved when that changed
  it.
\<close>

definition EnsureSingBoxTemplateConfigValid :: "codec \<Rightarrow> store \<Rightarrow> bool \<times> store" where
  "EnsureSingBoxTemplateConfigValid c st =
     (case dbFirst ''singboxTemplateConfig'' st of
        (NotFound, st') \<Rightarrow> saveSetting ''singboxTemplateConfig'' (defaultSingBoxTemplateConfig c) st'
      | (ReadErr, st') \<Rightarrow> (False, st')
      | (Row current, st') \<Rightarrow>
          (let val = TrimSpace current in
           if val = [] \<or> val = ''{}''
           then saveSetting ''singboxTemplateConfig'' (defaultSingBoxTemplateConfig c) st'
           else
             (case unmarshalTemplateMap c val of
                None \<Rightarrow> saveSetting ''singboxTemplateConfig'' (defaultSingBoxTemplateConfig c) st'
              | Some cfg \<Rightarrow>
                  (case cleanTemplate c cfg of
                     Some cleanedJSON \<Rightarrow> saveSetting ''singboxTemplateConfig'' cleanedJSON st'
                   | None \<Rightarrow> (True, st')))))"

text \<open>
  The head of \<^verbatim>\<open>GetSingBoxConfig\<close>, up to the decoded template: the validation (its
  error is only logged), the read of the template and its decoding. The rest of the
  function filters this configuration and adds the inbounds of the database.
\<close>

definition loadSingBoxTemplate :: "codec \<Rightarrow> store \<Rightarrow> Config option \<times> store" where
  "loadSingBoxTemplate c st =
     (case EnsureSingBoxTemplateConfigValid c st of
        (ok, st1) \<Rightarrow>
          (case GetSingBoxConfigTemplate c st1 of
             (None, st2) \<Rightarrow> (None, st2)
           | (Some templateConfig, st2) \<Rightarrow> (unmarshalSingBoxConfig c templateConfig, st2)))"

text \<open>
  A small instance of the arguments for the examples below: two short default
  templates, decoders that accept exactly these two texts, and encoders that write the
  inbound tags.
\<close>

definition sampleCodec :: codec where
  "sampleCodec =
     \<lparr>defaultXrayTemplateConfig = ''{\"inbounds\":[]}'',
      defaultSingBoxTemplateConfig = ''{\"log\":{}}'',
      unmarshalXrayConfig = (\<lambda>s. if s = ''{\"inbounds\":[]}''
         then Some \<lparr>LogConfig = RawEmpty, DNSConfig = RawEmpty, InboundConfigs = [],
                     OutboundConfigs = RawEmpty, RouterConfig = RawEmpty\<rparr> else None),
      unmarshalSingBoxConfig = (\<lambda>s. if s = ''{\"log\":{}}''
         then Some \<lparr>Log = RawJson (JObj []), DNS = RawEmpty, NTP = RawEmpty, Inbounds = [],
                     Outbounds = RawEmpty, Route = RawEmpty, Experimental = RawEmpty\<rparr> else None),
      unmarshalTemplateMap = (\<lambda>s. if s = ''{\"log\":{}}'' then Some [(''log'', JObj [])] else None),
      cleanTemplate = (\<lambda>m. None),
      marshalXrayConfig = (\<lambda>cfg. Some (''xray '' @ concat (map xTag (InboundConfigs cfg)))),
      marshalSingBoxConfig = (\<lambda>cfg. Some (''sing-box '' @ concat (map sbTag (Inbounds cfg))))\<rparr>"

section \<open>The core type and the core switch\<close>

text \<open>\<^verbatim>\<open>SetCoreType\<close> and \<^verbatim>\<open>GetCoreType\<close>; the Boolean is \<^verbatim>\<open>err == nil\<close>.\<close>

definition SetCoreType :: "string \<Rightarrow> store \<Rightarrow> bool \<times> store" where
  "SetCoreType coreType st =
     (if coreType \<noteq> ''xray'' \<and> coreType \<noteq> ''sing-box'' then (False, st)
      else saveSetting ''coreType'' coreType st)"

definition GetCoreType :: "codec \<Rightarrow> store \<Rightarrow> string \<times> bool \<times> store" where
  "GetCoreType c st =
     (case getString c ''coreType'' st of
        (None, st') \<Rightarrow> (''xray'', False, st')
      | (Some coreType, st') \<Rightarrow>
          if coreType \<noteq> ''xray'' \<and> coreType \<noteq> ''sing-box''
          then (case SetCoreType ''xray'' st' of (ok, st'') \<Rightarrow> (''xray'', ok, st''))
          else (coreType, True, st'))"

text \<open>\<^verbatim>\<open>GetCoreService\<close>: the adapter for the stored core type; \<^verbatim>\<open>None\<close> is an error.\<close>

definition GetCoreService :: "codec \<Rightarrow> store \<Rightarrow> coreKind option \<times> store" where
  "GetCoreService c st =
     (case GetCoreType c st of
        (coreType, ok, st') \<Rightarrow>
          (if \<not> ok then None
           else if coreType = ''xray'' then Some XrayCore
           else if coreType = ''sing-box'' then Some SingBoxCore
           else Some XrayCore, st'))"

text \<open>
  \<^verbatim>\<open>strconv.ParseBool\<close> of Go's library, \<^verbatim>\<open>getBool\<close> (an empty value stands for the
  default of the key) and \<^verbatim>\<open>GetMultiNodeMode\<close>; \<^verbatim>\<open>None\<close> is an error.
\<close>

definition ParseBool :: "string \<Rightarrow> bool option" where
  "ParseBool str =
     (if str \<in> set [''1'', ''t'', ''T'', ''TRUE'', ''true'', ''True''] then Some True
      else if str \<in> set [''0'', ''f'', ''F'', ''FALSE'', ''false'', ''False''] then Some False
      else None)"

definition getBool :: "codec \<Rightarrow> string \<Rightarrow> store \<Rightarrow> bool option \<times> store" where
  "getBool c key st =
     (case getString c key st of
        (None, st') \<Rightarrow> (None, st')
      | (Some str, st') \<Rightarrow>
          if str = [] then
            (case mapGet (defaultValueMap c) key of
               None \<Rightarrow> (None, st')
             | Some defaultValue \<Rightarrow> (ParseBool defaultValue, st'))
          else (ParseBool str, st'))"

definition GetMultiNodeMode :: "codec \<Rightarrow> store \<Rightarrow> bool option \<times> store" where
  "GetMultiNodeMode c st = getBool c ''multiNodeMode'' st"

text \<open>
  The errors \<^verbatim>\<open>SwitchCoreWithConversion\<close> returns, by the step that failed.
\<close>

datatype switchError =
    CoreTypeError
  | AssertionPanic
  | GetConfigFailed string
  | UnknownOldType
  | UnsupportedConversion
  | MarshalFailed
  | SaveTemplateFailed
  | SetCoreTypeFailed
  | GetNewCoreFailed
  | RestartFailed string

text \<open>
  What the services outside the settings answer during a switch: the rest of each
  configuration build once the template is decoded (the filters over the template and
  the inbound rows of the database), the start of the process on the built
  configuration, and in multi-node mode the reading of the nodes and inbounds and the
  sending of the configuration to the nodes. None of them reads or writes a setting.
  Stopping the cores and waiting for them touches no setting and never ends the switch;
  it is left out but for the call of \<^verbatim>\<open>GetCoreService\<close> it starts with.
\<close>

record switchEnv =
  xrayBuild :: "XrayConfig \<Rightarrow> string + XrayConfig"
  singboxBuild :: "Config \<Rightarrow> string + Config"
  xrayStart :: "XrayConfig \<Rightarrow> string option"
  singboxStart :: "Config \<Rightarrow> string option"
  nodesError :: "string option"
  applyToNodes :: "Config \<Rightarrow> string option"

text \<open>
  \<^verbatim>\<open>GetSingBoxConfig\<close>: the validation of the stored template, which saves the template
  it repaired or cleaned and whose error is only logged, the read of the template and
  its decoding (\<^verbatim>\<open>loadSingBoxTemplate\<close>), then the rest of the build. \<^verbatim>\<open>Inl\<close> is an
  error.
\<close>

definition GetSingBoxConfig :: "codec \<Rightarrow> switchEnv \<Rightarrow> store \<Rightarrow> (string + Config) \<times> store" where
  "GetSingBoxConfig c env st =
     (case loadSingBoxTemplate c st of
        (None, st') \<Rightarrow> (Inl ''singboxTemplateConfig'', st')
      | (Some singboxConfig, st') \<Rightarrow> (singboxBuild env singboxConfig, st'))"

text \<open>
  \<^verbatim>\<open>restartSingBoxMultiMode\<close>: the nodes and the inbounds are read first, then the
  template is validated, read and decoded, and the configurations are sent.
\<close>

definition restartSingBoxMultiMode :: "codec \<Rightarrow> switchEnv \<Rightarrow> store \<Rightarrow> string option \<times> store" where
  "restartSingBoxMultiMode c env st =
     (case nodesError env of
        Some e \<Rightarrow> (Some e, st)
      | None \<Rightarrow>
          (case loadSingBoxTemplate c st of
             (None, st') \<Rightarrow> (Some ''singboxTemplateConfig'', st')
           | (Some baseConfig, st') \<Rightarrow> (applyToNodes env baseConfig, st')))"

text \<open>
  \<^verbatim>\<open>RestartSingBox\<close>; an error of \<^verbatim>\<open>GetMultiNodeMode\<close> counts as single-node mode.
  \<^verbatim>\<open>None\<close> is \<^verbatim>\<open>nil\<close>.
\<close>

definition RestartSingBox :: "codec \<Rightarrow> switchEnv \<Rightarrow> store \<Rightarrow> string option \<times> store" where
  "RestartSingBox c env st =
     (case GetMultiNodeMode c st of
        (multiMode, st1) \<Rightarrow>
          if multiMode = Some True then restartSingBoxMultiMode c env st1
          else
            (case GetSingBoxConfig c env st1 of
               (Inl e, st2) \<Rightarrow> (Some e, st2)
             | (Inr singboxConfig, st2) \<Rightarrow> (singboxStart env singboxConfig, st2)))"

text \<open>
  Modelled from the spec: \<^verbatim>\<open>XrayService.GetXrayConfig\<close> is not in the sources. The
  build of either core starts with the validation of the stored template, which is
  replaced by the embedded default and saved when it is empty, the placeholder or
  invalid (\<^verbatim>\<open>EnsureXrayTemplateConfigValid\<close> above); this is not fatal. The template
  is then read and decoded.
\<close>

definition loadXrayTemplate :: "codec \<Rightarrow> store \<Rightarrow> XrayConfig option \<times> store" where
  "loadXrayTemplate c st =
     (case EnsureXrayTemplateConfigValid c st of
        (ok, st1) \<Rightarrow>
          (case GetXrayConfigTemplate c st1 of
             (None, st2) \<Rightarrow> (None, st2)
           | (Some templateConfig, st2) \<Rightarrow> (unmarshalXrayConfig c templateConfig, st2)))"

text \<open>
  Modelled from the spec: \<^verbatim>\<open>XrayService.GetXrayConfig\<close> is not in the sources. After
  the template the build merges the enabled inbounds of the database into it.
\<close>

definition GetXrayConfig :: "codec \<Rightarrow> switchEnv \<Rightarrow> store \<Rightarrow> (string + XrayConfig) \<times> store" where
  "GetXrayConfig c env st =
     (case loadXrayTemplate c st of
        (None, st') \<Rightarrow> (Inl ''xrayTemplateConfig'', st')
      | (Some xrayConfig, st') \<Rightarrow> (xrayBuild env xrayConfig, st'))"

text \<open>
  Modelled from the spec: \<^verbatim>\<open>XrayService.RestartXray\<close> is not in the sources. A restart
  builds the configuration afresh and starts the process on it.
\<close>

definition RestartXray :: "codec \<Rightarrow> switchEnv \<Rightarrow> store \<Rightarrow> string option \<times> store" where
  "RestartXray c env st =
     (case GetXrayConfig c env st of
        (Inl e, st') \<Rightarrow> (Some e, st')
      | (Inr xrayConfig, st') \<Rightarrow> (xrayStart env xrayConfig, st'))"

text \<open>\<^verbatim>\<open>Restart\<close> of the adapter \<^verbatim>\<open>GetCoreService\<close> returned.\<close>

definition Restart :: "codec \<Rightarrow> switchEnv \<Rightarrow> coreKind \<Rightarrow> store \<Rightarrow> string option \<times> store" where
  "Restart c env core st =
     (case core of XrayCore \<Rightarrow> RestartXray c env st | SingBoxCore \<Rightarrow> RestartSingBox c env st)"

datatype anyConfig = XC XrayConfig | SC Config

text \<open>Step 2: the configuration of the current core, built by its service.\<close>

definition currentConfig ::
  "codec \<Rightarrow> switchEnv \<Rightarrow> string \<Rightarrow> store \<Rightarrow> (switchError + anyConfig) \<times> store" where
  "currentConfig c env oldType st =
     (if oldType = ''xray'' then
        (case GetXrayConfig c env st of
           (Inl e, st') \<Rightarrow> (Inl (GetConfigFailed e), st')
         | (Inr cfg, st') \<Rightarrow> (Inr (XC cfg), st'))
      else if oldType = ''sing-box'' then
        (case GetSingBoxConfig c env st of
           (Inl e, st') \<Rightarrow> (Inl (GetConfigFailed e), st')
         | (Inr cfg, st') \<Rightarrow> (Inr (SC cfg), st'))
      else (Inl UnknownOldType, st))"

text \<open>Step 5: the translation; the two translators return no error. A configuration of
  the wrong kind would fail the type assertion (a panic); \<^verbatim>\<open>currentConfig\<close> gives none.\<close>

definition translate :: "string \<Rightarrow> string \<Rightarrow> anyConfig \<Rightarrow> switchError + anyConfig" where
  "translate oldType newType current =
     (if oldType = ''xray'' \<and> newType = ''sing-box'' then
        (case current of XC cfg \<Rightarrow> Inr (SC (ConvertXrayToSingBox cfg)) | SC cfg \<Rightarrow> Inl AssertionPanic)
      else if oldType = ''sing-box'' \<and> newType = ''xray'' then
        (case current of SC cfg \<Rightarrow> Inr (XC (ConvertSingBoxToXray cfg)) | XC cfg \<Rightarrow> Inl AssertionPanic)
      else Inl UnsupportedConversion)"

text \<open>The log section cleaned before a sing-box template is saved.\<close>

definition cleanLogSection :: "Config \<Rightarrow> Config" where
  "cleanLogSection singboxConfig =
     (if rawPresent (Log singboxConfig) then
        (case unmarshalMap (Log singboxConfig) of
           Some logSection \<Rightarrow>
             (if mapGet logSection ''error'' \<noteq> None then
                (let l1 = mapDel logSection ''error'';
                     l2 = (if mapGet l1 ''output'' = None
                           then mapPut l1 ''output'' (JStr ''sing-box.log'') else l1)
                 in singboxConfig\<lparr>Log := RawJson (marshal (JObj l2))\<rparr>)
              else singboxConfig)
         | None \<Rightarrow> singboxConfig)
      else singboxConfig)"

text \<open>Step 6: the text to save and its key, and the save.\<close>

definition templateKey :: "string \<Rightarrow> string" where
  "templateKey newType = (if newType = ''xray'' then ''xrayTemplateConfig'' else ''singboxTemplateConfig'')"

definition templateText :: "codec \<Rightarrow> anyConfig \<Rightarrow> string option" where
  "templateText c newConfig =
     (case newConfig of
        XC xrayConfig \<Rightarrow> marshalXrayConfig c xrayConfig
      | SC singboxConfig \<Rightarrow> marshalSingBoxConfig c (cleanLogSection singboxConfig))"

definition persistTemplate :: "codec \<Rightarrow> string \<Rightarrow> anyConfig \<Rightarrow> store \<Rightarrow> switchError option \<times> store" where
  "persistTemplate c newType newConfig st =
     (case templateText c newConfig of
        None \<Rightarrow> (Some MarshalFailed, st)
      | Some configJSON \<Rightarrow>
          (case saveSetting (templateKey newType) configJSON st of
             (False, st') \<Rightarrow> (Some SaveTemplateFailed, st')
           | (True, st') \<Rightarrow> (None, st')))"

text \<open>Steps 7 and 8: the flip, the new adapter and its restart.\<close>

definition finishSwitch :: "codec \<Rightarrow> switchEnv \<Rightarrow> string \<Rightarrow> store \<Rightarrow> switchError option \<times> store" where
  "finishSwitch c env newType st =
     (case SetCoreType newType st of
        (False, st1) \<Rightarrow> (Some SetCoreTypeFailed, st1)
      | (True, st1) \<Rightarrow>
          (case GetCoreService c st1 of
             (None, st2) \<Rightarrow> (Some GetNewCoreFailed, st2)
           | (Some newCore, st2) \<Rightarrow>
               (case Restart c env newCore st2 of
                  (Some e, st3) \<Rightarrow> (Some (RestartFailed e), st3)
                | (None, st3) \<Rightarrow> (None, st3))))"

text \<open>\<^verbatim>\<open>SwitchCoreWithConversion\<close>; \<^verbatim>\<open>None\<close> is \<^verbatim>\<open>nil\<close>.\<close>

definition SwitchCoreWithConversion ::
  "codec \<Rightarrow> switchEnv \<Rightarrow> string \<Rightarrow> store \<Rightarrow> switchError option \<times> store" where
  "SwitchCoreWithConversion c env newType st =
     (case GetCoreType c st of
        (oldType, False, st1) \<Rightarrow> (Some CoreTypeError, st1)
      | (oldType, True, st1) \<Rightarrow>
          if oldType = newType then (None, st1)
          else
            (case currentConfig c env oldType st1 of
               (Inl e, st2) \<Rightarrow> (Some e, st2)
             | (Inr current, st2) \<Rightarrow>
                 (case GetCoreService c st2 of
                    (oldCore, st3) \<Rightarrow>
                      (case translate oldType newType current of
                         Inl e \<Rightarrow> (Some e, st3)
                       | Inr newConfig \<Rightarrow>
                           (case persistTemplate c newType newConfig st3 of
                              (Some e, st4) \<Rightarrow> (Some e, st4)
                            | (None, st4) \<Rightarrow> finishSwitch c env newType st4)))))"

text \<open>The text a switch saves, when every step up to the encoding succeeds.\<close>

definition translatedText :: "codec \<Rightarrow> switchEnv \<Rightarrow> string \<Rightarrow> store \<Rightarrow> string option" where
  "translatedText c env newType st =
     (case GetCoreType c st of
        (oldType, False, st1) \<Rightarrow> None
      | (oldType, True, st1) \<Rightarrow>
          (case currentConfig c env oldType st1 of
             (Inl e, st2) \<Rightarrow> None
           | (Inr current, st2) \<Rightarrow>
               (case translate oldType newType current of
                  Inl e \<Rightarrow> None
                | Inr newConfig \<Rightarrow> templateText c newConfig)))"

text \<open>
  The validation of the template of one core, and what it leaves of the settings and
  of a stored template text when the database answers.
\<close>

definition EnsureTemplate :: "codec \<Rightarrow> string \<Rightarrow> store \<Rightarrow> bool \<times> store" where
  "EnsureTemplate c coreType st =
     (if coreType = ''xray'' then EnsureXrayTemplateConfigValid c st
      else EnsureSingBoxTemplateConfigValid c st)"

definition validated :: "codec \<Rightarrow> string \<Rightarrow> (string \<times> string) list \<Rightarrow> (string \<times> string) list" where
  "validated c coreType rs = rows (snd (EnsureTemplate c coreType \<lparr>rows = rs, faults = []\<rparr>))"

definition validatedText :: "codec \<Rightarrow> string \<Rightarrow> string \<Rightarrow> string option" where
  "validatedText c coreType doc =
     mapGet (validated c coreType [(templateKey coreType, doc)]) (templateKey coreType)"

text \<open>
  Instances for the examples below. The database holds one inbound, on mKCP, which the
  Xray build adds to its template; \<^verbatim>\<open>sampleXray\<close> is the configuration built from the
  default template. The encoder of \<^verbatim>\<open>switchCodec\<close> writes the tags of the inbounds and
  marks a transport, its decoders read these texts back, and its clean-up pass removes
  the transport of type \<^verbatim>\<open>kcp\<close>, which is not in the list of
  \<^verbatim>\<open>EnsureSingBoxTemplateConfigValid\<close>. In \<^verbatim>\<open>sampleEnv\<close> both builds succeed and no
  process starts; in \<^verbatim>\<open>failingBuild\<close> the sing-box build fails on the inbounds of the
  database.
\<close>

definition sampleXray :: XrayConfig where
  "sampleXray =
     \<lparr>LogConfig = RawEmpty, DNSConfig = RawEmpty,
      InboundConfigs = [\<lparr>xListen = RawEmpty, xPort = 443, xProtocol = ''vless'',
         xSettings = RawEmpty,
         xStreamSettings = RawJson (JObj [(''network'', JStr ''kcp'')]),
         xTag = ''inbound-443'', xSniffing = RawEmpty\<rparr>],
      OutboundConfigs = RawEmpty, RouterConfig = RawEmpty\<rparr>"

definition sampleInbounds :: "bool \<Rightarrow> jmap" where
  "sampleInbounds withTransport =
     [(''inbounds'', JArr [JObj ([(''type'', JStr ''vless''), (''tag'', JStr ''inbound-443'')]
         @ (if withTransport then [(''transport'', JObj [(''type'', JStr ''kcp'')])] else []))])]"

definition switchCodec :: codec where
  "switchCodec =
     sampleCodec
       \<lparr>unmarshalSingBoxConfig := (\<lambda>s.
            if s = ''sing-box inbound-443+transport'' then Some (ConvertXrayToSingBox sampleXray)
            else if s = ''sing-box inbound-443''
            then Some ((ConvertXrayToSingBox sampleXray)
                   \<lparr>Inbounds := map (\<lambda>ib. ib\<lparr>sbTransport := RawEmpty\<rparr>)
                                  (Inbounds (ConvertXrayToSingBox sampleXray))\<rparr>)
            else unmarshalSingBoxConfig sampleCodec s),
        unmarshalTemplateMap := (\<lambda>s.
            if s = ''sing-box inbound-443+transport'' then Some (sampleInbounds True)
            else if s = ''sing-box inbound-443'' then Some (sampleInbounds False)
            else unmarshalTemplateMap sampleCodec s),
        cleanTemplate := (\<lambda>cfg.
            if cfg = sampleInbounds True then Some ''sing-box inbound-443'' else None),
        marshalSingBoxConfig := (\<lambda>cfg. Some (''sing-box '' @ concat (map
            (\<lambda>ib. sbTag ib @ (if rawPresent (sbTransport ib) then ''+transport'' else []))
            (Inbounds cfg))))\<rparr>"

definition sampleEnv :: switchEnv where
  "sampleEnv =
     \<lparr>xrayBuild = (\<lambda>cfg. Inr (cfg\<lparr>InboundConfigs := InboundConfigs cfg @ InboundConfigs sampleXray\<rparr>)),
      singboxBuild = (\<lambda>cfg. Inr cfg),
      xrayStart = (\<lambda>cfg. Some ''xray failed to start''),
      singboxStart = (\<lambda>cfg. Some ''sing-box config validation failed''),
      nodesError = None,
      applyToNodes = (\<lambda>cfg. Some ''failed to apply config to all nodes'')\<rparr>"

definition failingBuild :: switchEnv where
  "failingBuild = sampleEnv\<lparr>singboxBuild := (\<lambda>cfg. Inl ''failed to get inbounds'')\<rparr>"

text \<open>The errors of the steps before the flip: reading the core type and the
  configuration, translating, encoding and saving the template.\<close>

fun earlyError :: "switchError \<Rightarrow> bool" where
  "earlyError SetCoreTypeFailed = False"
| "earlyError GetNewCoreFailed = False"
| "earlyError (RestartFailed e) = False"
| "earlyError _ = True"

text \<open>What one step leaves of the settings: they are as before, or as the validation of
  the template of one core leaves them.\<close>

definition touched :: "codec \<Rightarrow> string \<Rightarrow> (string \<times> string) list \<Rightarrow> (string \<times> string) list \<Rightarrow> bool" where
  "touched c t rs rs' = (rs' = rs \<or> rs' = validated c t rs)"

fun coreTypeOf :: "coreKind \<Rightarrow> string" where
  "coreTypeOf XrayCore = ''xray''"
| "coreTypeOf SingBoxCore = ''sing-box''"

section \<open>Proofs: traffic statistics\<close>

lemma mapGet_mapPut_same: "mapGet (mapPut m k v) k = Some v"
  by (induction m) auto

lemma mapGet_mapPut_other: "k' \<noteq> k \<Longrightarrow> mapGet (mapPut m k v) k' = mapGet m k'"
  by (induction m) auto

lemma stripPrefix_append: "stripPrefix p (p @ s) = Some s"
  by (induction p) auto

lemma takeWhile_notGt:
  "CHR ''>'' \<notin> set a \<Longrightarrow> takeWhile notGt (a @ CHR ''>'' # r) = a"
  by (induction a) (auto simp: notGt_def)

lemma dropWhile_notGt:
  "CHR ''>'' \<notin> set a \<Longrightarrow> dropWhile notGt (a @ CHR ''>'' # r) = CHR ''>'' # r"
  by (induction a) (auto simp: notGt_def)

lemma matchTail_key:
  assumes "ident \<noteq> []" "CHR ''>'' \<notin> set ident" "dir = ''downlink'' \<or> dir = ''uplink''"
  shows "matchTail (''>>>'' @ ident @ ''>>>traffic>>>'' @ dir) = Some (ident, dir)"
  using assms(3)
  by (auto simp: matchTail_def Let_def takeWhile_notGt [OF assms(2)] dropWhile_notGt [OF assms(2)]
      assms(1))

lemma trafficMatchAt_key:
  assumes "ident \<noteq> []" "CHR ''>'' \<notin> set ident" "dir = ''downlink'' \<or> dir = ''uplink''"
    and "kind = ''inbound'' \<or> kind = ''outbound''"
  shows "trafficMatchAt (statKey kind ident dir) = Some (kind, ident, dir)"
proof -
  from assms(4) show ?thesis
  proof
    assume k: "kind = ''inbound''"
    have "stripPrefix ''inbound'' (''inbound'' @ (''>>>'' @ ident @ ''>>>traffic>>>'' @ dir))
          = Some (''>>>'' @ ident @ ''>>>traffic>>>'' @ dir)" by (rule stripPrefix_append)
    then show ?thesis unfolding trafficMatchAt_def statKey_def k
      using matchTail_key [OF assms(1,2,3)] by simp
  next
    assume k: "kind = ''outbound''"
    have "stripPrefix ''outbound'' (''outbound'' @ (''>>>'' @ ident @ ''>>>traffic>>>'' @ dir))
          = Some (''>>>'' @ ident @ ''>>>traffic>>>'' @ dir)" by (rule stripPrefix_append)
    moreover have "stripPrefix ''inbound'' (''outbound'' @ s) = None" for s by simp
    ultimately show ?thesis unfolding trafficMatchAt_def statKey_def k
      using matchTail_key [OF assms(1,2,3)] by simp
  qed
qed

lemma trafficRegex_at: "trafficMatchAt s = Some m \<Longrightarrow> trafficRegex s = Some m"
  by (cases s) auto

lemma clientRegex_at: "clientMatchAt s = Some m \<Longrightarrow> clientTrafficRegex s = Some m"
  by (cases s) auto

lemma clientMatchAt_key:
  assumes "ident \<noteq> []" "CHR ''>'' \<notin> set ident" "dir = ''downlink'' \<or> dir = ''uplink''"
  shows "clientMatchAt (statKey ''user'' ident dir) = Some (ident, dir)"
proof -
  have "stripPrefix ''user'' (''user'' @ (''>>>'' @ ident @ ''>>>traffic>>>'' @ dir))
        = Some (''>>>'' @ ident @ ''>>>traffic>>>'' @ dir)" by (rule stripPrefix_append)
  then show ?thesis unfolding clientMatchAt_def statKey_def
    using matchTail_key [OF assms] by simp
qed

lemma trafficMatchAt_other_letter:
  "c \<noteq> CHR ''i'' \<Longrightarrow> c \<noteq> CHR ''o'' \<Longrightarrow> trafficMatchAt (c # s) = None"
  by (auto simp: trafficMatchAt_def)

lemma stripPrefix_into:
  "CHR ''>'' \<notin> set p \<Longrightarrow> CHR ''>'' \<notin> set x \<Longrightarrow> stripPrefix p (x @ CHR ''>'' # r) = Some q
     \<Longrightarrow> \<exists>x'. x = p @ x' \<and> q = x' @ CHR ''>'' # r"
proof (induction p arbitrary: x)
  case Nil
  then show ?case by simp
next
  case (Cons a p)
  show ?case
  proof (cases x)
    case Nil
    with Cons.prems show ?thesis by (auto split: if_splits)
  next
    case (Cons b x')
    with Cons.prems Cons.IH [of x'] show ?thesis by (auto split: if_splits)
  qed
qed

lemma matchTail_after_kind:
  assumes "CHR ''>'' \<notin> set x" "dir = ''downlink'' \<or> dir = ''uplink''"
  shows "matchTail (x @ ''>>>traffic>>>'' @ dir) = None"
proof (cases x)
  case Nil
  from assms(2) show ?thesis unfolding Nil
    by (auto simp: matchTail_def notGt_def Let_def)
next
  case (Cons b x')
  with assms(1) have "b \<noteq> CHR ''>''" by auto
  then show ?thesis unfolding Cons by (simp add: matchTail_def)
qed

lemma trafficMatchAt_inside:
  assumes "CHR ''>'' \<notin> set x" "dir = ''downlink'' \<or> dir = ''uplink''"
  shows "trafficMatchAt (x @ ''>>>traffic>>>'' @ dir) = None"
proof -
  define S where "S = x @ ''>>>traffic>>>'' @ dir"
  have a: "matchTail q = None" if "stripPrefix p S = Some q" "CHR ''>'' \<notin> set p" for p q
  proof -
    from stripPrefix_into [OF that(2) assms(1), of "''>>traffic>>>'' @ dir" q] that(1)
    obtain x' where x': "x = p @ x'" "q = x' @ ''>>>traffic>>>'' @ dir" by (auto simp: S_def)
    with assms(1) have "CHR ''>'' \<notin> set x'" by auto
    from matchTail_after_kind [OF this assms(2)] x'(2) show ?thesis by simp
  qed
  have i: "matchTail q = None" if "stripPrefix ''inbound'' S = Some q" for q
    using a [OF that] by simp
  have o: "matchTail q = None" if "stripPrefix ''outbound'' S = Some q" for q
    using a [OF that] by simp
  have "trafficMatchAt S = None"
    unfolding trafficMatchAt_def using i o
    by (cases "stripPrefix ''inbound'' S"; cases "stripPrefix ''outbound'' S") auto
  then show ?thesis by (simp only: S_def)
qed

lemma trafficRegex_inside:
  assumes "dir = ''downlink'' \<or> dir = ''uplink''"
  shows "CHR ''>'' \<notin> set x \<Longrightarrow> trafficRegex (x @ ''>>>traffic>>>'' @ dir) = None"
proof (induction x)
  case Nil
  from assms show ?case
    by (auto simp: trafficMatchAt_def matchTail_def notGt_def Let_def)
next
  case (Cons c x)
  from Cons.prems have "trafficMatchAt ((c # x) @ ''>>>traffic>>>'' @ dir) = None"
    by (intro trafficMatchAt_inside assms)
  with Cons show ?case by simp
qed

lemma trafficRegex_user_key:
  assumes "CHR ''>'' \<notin> set ident" "dir = ''downlink'' \<or> dir = ''uplink''"
  shows "trafficRegex (statKey ''user'' ident dir) = None"
  using trafficRegex_inside [OF assms(2) assms(1)]
  by (simp add: statKey_def trafficMatchAt_other_letter)

lemma splitSep_plain: "CHR ''>'' \<notin> set a \<Longrightarrow> splitSep a = [a]"
  by (induction a) auto

lemma splitSep_cut:
  "CHR ''>'' \<notin> set a \<Longrightarrow> splitSep (a @ ''>>>'' @ r) = a # splitSep r"
  by (induction a) auto

lemma splitSep_key:
  assumes "CHR ''>'' \<notin> set kind" "CHR ''>'' \<notin> set ident" "CHR ''>'' \<notin> set dir"
  shows "splitSep (statKey kind ident dir) = [kind, ident, ''traffic'', dir]"
proof -
  have "splitSep (''traffic'' @ ''>>>'' @ dir) = [''traffic'', dir]"
    using splitSep_cut [of "''traffic''" dir] splitSep_plain [OF assms(3)] by simp
  then have "splitSep (ident @ ''>>>'' @ ''traffic>>>'' @ dir) = [ident, ''traffic'', dir]"
    using splitSep_cut [OF assms(2), of "''traffic>>>'' @ dir"] by simp
  then show ?thesis
    using splitSep_cut [OF assms(1), of "ident @ ''>>>traffic>>>'' @ dir"]
    by (simp add: statKey_def)
qed

lemma xrayStat_tag_key:
  assumes "ident \<noteq> []" "CHR ''>'' \<notin> set ident" "dir = ''downlink'' \<or> dir = ''uplink''"
    and "kind = ''inbound'' \<or> kind = ''outbound''"
  shows "xrayStat (statKey kind ident dir, v) maps =
         (processTraffic (kind, ident, dir) v (fst maps), snd maps)"
  using trafficRegex_at [OF trafficMatchAt_key [OF assms]]
  by (simp add: xrayStat_def)

lemma xrayStat_user_key:
  assumes "ident \<noteq> []" "CHR ''>'' \<notin> set ident" "dir = ''downlink'' \<or> dir = ''uplink''"
  shows "xrayStat (statKey ''user'' ident dir, v) maps =
         (fst maps, processClientTraffic (ident, dir) v (snd maps))"
  using clientRegex_at [OF clientMatchAt_key [OF assms]] trafficRegex_user_key [OF assms(2,3)]
  by (simp add: xrayStat_def)

lemma parseTrafficKey_key:
  assumes "CHR ''>'' \<notin> set ident" "dir = ''downlink'' \<or> dir = ''uplink''"
    and "kind = ''inbound'' \<or> kind = ''outbound'' \<or> kind = ''user''"
  shows "parseTrafficKey (statKey kind ident dir) =
         Some \<lparr>ktype = kind,
               ktag = (if kind = ''user'' then None else Some ident),
               kemail = (if kind = ''user'' then Some ident else None),
               kdirection = Some dir\<rparr>"
proof -
  have "CHR ''>'' \<notin> set kind" "CHR ''>'' \<notin> set dir" using assms(2,3) by auto
  from splitSep_key [OF this(1) assms(1) this(2)] assms(3)
  show ?thesis by (auto simp: parseTrafficKey_def)
qed

lemma processTraffic_down:
  "tag \<noteq> ''api'' \<Longrightarrow>
   tagUpDown (processTraffic (kind, tag, ''downlink'') v m) tag = Some (upBefore (tagUpDown m tag), v)"
  by (auto simp: processTraffic_def tagUpDown_def upBefore_def mapGet_mapPut_same Let_def
      split: option.splits)

lemma processTraffic_up:
  "tag \<noteq> ''api'' \<Longrightarrow>
   tagUpDown (processTraffic (kind, tag, ''uplink'') v m) tag = Some (v, downBefore (tagUpDown m tag))"
  by (auto simp: processTraffic_def tagUpDown_def downBefore_def mapGet_mapPut_same Let_def
      split: option.splits)

lemma processClientTraffic_down:
  "clientUpDown (processClientTraffic (email, ''downlink'') v m) email
     = Some (upBefore (clientUpDown m email), v)"
  by (auto simp: processClientTraffic_def clientUpDown_def upBefore_def mapGet_mapPut_same Let_def
      split: option.splits)

lemma processClientTraffic_up:
  "clientUpDown (processClientTraffic (email, ''uplink'') v m) email
     = Some (v, downBefore (clientUpDown m email))"
  by (auto simp: processClientTraffic_def clientUpDown_def downBefore_def mapGet_mapPut_same Let_def
      split: option.splits)

lemma singboxStat_tag_down:
  assumes "CHR ''>'' \<notin> set ident" "kind = ''inbound'' \<or> kind = ''outbound''"
  shows "tagUpDown (fst (singboxStat (statKey kind ident ''downlink'', v) maps)) ident
         = Some (upBefore (tagUpDown (fst maps) ident), v)"
proof -
  have "parseTrafficKey (statKey kind ident ''downlink'') =
        Some \<lparr>ktype = kind, ktag = Some ident, kemail = None, kdirection = Some ''downlink''\<rparr>"
    using parseTrafficKey_key [OF assms(1), of "''downlink''" kind] assms(2) by auto
  then show ?thesis using assms(2)
    by (auto simp: singboxStat_def tagUpDown_def upBefore_def orEmpty_def mapGet_mapPut_same Let_def
        split: option.splits)
qed

lemma singboxStat_tag_up:
  assumes "CHR ''>'' \<notin> set ident" "kind = ''inbound'' \<or> kind = ''outbound''"
  shows "tagUpDown (fst (singboxStat (statKey kind ident ''uplink'', v) maps)) ident
         = Some (v, downBefore (tagUpDown (fst maps) ident))"
proof -
  have "parseTrafficKey (statKey kind ident ''uplink'') =
        Some \<lparr>ktype = kind, ktag = Some ident, kemail = None, kdirection = Some ''uplink''\<rparr>"
    using parseTrafficKey_key [OF assms(1), of "''uplink''" kind] assms(2) by auto
  then show ?thesis using assms(2)
    by (auto simp: singboxStat_def tagUpDown_def downBefore_def orEmpty_def mapGet_mapPut_same Let_def
        split: option.splits)
qed

lemma singboxStat_user:
  assumes "CHR ''>'' \<notin> set ident" "dir = ''downlink'' \<or> dir = ''uplink''"
  shows "singboxStat (statKey ''user'' ident dir, v) maps =
         (fst maps, processClientTraffic (ident, dir) v (snd maps))"
proof -
  have "parseTrafficKey (statKey ''user'' ident dir) =
        Some \<lparr>ktype = ''user'', ktag = None, kemail = Some ident, kdirection = Some dir\<rparr>"
    using parseTrafficKey_key [OF assms, of "''user''"] by simp
  then show ?thesis
    by (simp add: singboxStat_def processClientTraffic_def orEmpty_def Let_def)
qed


lemma xray_tag_direction:
  assumes "ident \<noteq> []" and "CHR ''>'' \<notin> set ident"
    and "kind = ''inbound'' \<or> kind = ''outbound''" and "ident \<noteq> ''api''"
  shows "tagUpDown (fst (xrayStat (statKey kind ident ''downlink'', v) (tm, em))) ident
           = Some (upBefore (tagUpDown tm ident), v)"
    and "tagUpDown (fst (xrayStat (statKey kind ident ''uplink'', v) (tm, em))) ident
           = Some (v, downBefore (tagUpDown tm ident))"
  using xrayStat_tag_key [OF assms(1,2) _ assms(3)] processTraffic_down [OF assms(4)]
    processTraffic_up [OF assms(4)] by simp_all

lemma xray_user_direction:
  assumes "ident \<noteq> []" and "CHR ''>'' \<notin> set ident"
  shows "clientUpDown (snd (xrayStat (statKey ''user'' ident ''downlink'', v) (tm, em))) ident
           = Some (upBefore (clientUpDown em ident), v)"
    and "clientUpDown (snd (xrayStat (statKey ''user'' ident ''uplink'', v) (tm, em))) ident
           = Some (v, downBefore (clientUpDown em ident))"
  using xrayStat_user_key [OF assms] processClientTraffic_down processClientTraffic_up by simp_all

lemma singbox_user_direction:
  assumes "CHR ''>'' \<notin> set ident"
  shows "clientUpDown (snd (singboxStat (statKey ''user'' ident ''downlink'', v) (tm, em))) ident
           = Some (upBefore (clientUpDown em ident), v)"
    and "clientUpDown (snd (singboxStat (statKey ''user'' ident ''uplink'', v) (tm, em))) ident
           = Some (v, downBefore (clientUpDown em ident))"
  using singboxStat_user [OF assms] processClientTraffic_down processClientTraffic_up by simp_all

lemma single_user_key:
  assumes "ident \<noteq> []" and "CHR ''>'' \<notin> set ident"
  shows "xrayGetTraffic [(statKey ''user'' ident ''downlink'', v)]
           = ([], [\<lparr>Email = ident, CUp = 0, CDown = v\<rparr>])"
    and "singboxGetTraffic [(statKey ''user'' ident ''downlink'', v)]
           = ([], [\<lparr>Email = ident, CUp = 0, CDown = v\<rparr>])"
  using xrayStat_user_key [OF assms, of "''downlink''"] singboxStat_user [OF assms(2), of "''downlink''"]
  by (simp_all add: xrayGetTraffic_def singboxGetTraffic_def mapToSlice_def processClientTraffic_def)

lemma set_mapPut: "set (mapPut m k v) \<subseteq> insert (k, v) (set m)"
  by (induction m) (auto split: if_splits)

lemma mapGet_in_set: "mapGet m k = Some v \<Longrightarrow> (k, v) \<in> set m"
  by (induction m) (auto split: if_splits)

lemma mapGet_some_iff_key: "(mapGet m k \<noteq> None) = (k \<in> fst ` set m)"
  by (induction m) auto

lemma mapPut_keeps_keys: "mapGet m k' \<noteq> None \<Longrightarrow> mapGet (mapPut m k v) k' \<noteq> None"
  by (cases "k' = k") (simp_all add: mapGet_mapPut_same mapGet_mapPut_other)

lemma processTraffic_noApi: "noApi m \<Longrightarrow> noApi (processTraffic ms v m)"
proof -
  assume a: "noApi m"
  obtain kind tag dir where ms: "ms = (kind, tag, dir)" by (cases ms) auto
  show ?thesis
  proof (cases "tag = ''api''")
    case True
    with a show ?thesis by (simp add: ms processTraffic_def)
  next
    case False
    define t0 where "t0 = (case mapGet m tag of Some t \<Rightarrow> t
       | None \<Rightarrow> \<lparr>IsInbound = (kind = ''inbound''), IsOutbound = \<not> (kind = ''inbound''),
                   Tag = tag, Up = 0, Down = 0\<rparr>)"
    have t0: "Tag t0 = tag"
      using a mapGet_in_set [of m tag] by (auto simp: t0_def noApi_def split: option.splits)
    define t1 where "t1 = (if dir = ''downlink'' then t0\<lparr>Down := v\<rparr> else t0\<lparr>Up := v\<rparr>)"
    have t1: "Tag t1 = tag" using t0 by (simp add: t1_def)
    have p: "processTraffic ms v m = mapPut m tag t1"
      using False by (simp add: ms processTraffic_def Let_def t0_def t1_def)
    show ?thesis unfolding p noApi_def
      using set_mapPut [of m tag t1] a t1 False by (auto simp: noApi_def)
  qed
qed

lemma xrayStat_noApi: "noApi (fst maps) \<Longrightarrow> noApi (fst (xrayStat stat maps))"
  by (auto simp: xrayStat_def processTraffic_noApi split: option.splits)

lemma xray_fold_noApi:
  "noApi (fst maps) \<Longrightarrow> noApi (fst (foldl (\<lambda>m stat. xrayStat stat m) maps stats))"
  by (induction stats arbitrary: maps) (simp_all add: xrayStat_noApi)

lemma xray_no_api_record: "''api'' \<notin> Tag ` set (fst (xrayGetTraffic stats))"
proof -
  have "noApi (fst (foldl (\<lambda>m stat. xrayStat stat m) ([], []) stats))"
    by (rule xray_fold_noApi) (simp add: noApi_def)
  then show ?thesis
    by (fastforce simp: xrayGetTraffic_def mapToSlice_def noApi_def Let_def)
qed

lemma singboxStat_tagsOk: "tagsOk (fst maps) \<Longrightarrow> tagsOk (fst (singboxStat stat maps))"
proof -
  assume a: "tagsOk (fst maps)"
  have put: "tagsOk (mapPut (fst maps) tag t)" if "Tag t = tag" for tag t
    using set_mapPut [of "fst maps" tag t] a that by (auto simp: tagsOk_def)
  have got: "Tag t = tag" if "mapGet (fst maps) tag = Some t" for tag t
    using mapGet_in_set [OF that] a by (auto simp: tagsOk_def)
  show ?thesis
    using a by (auto simp: singboxStat_def Let_def intro!: put dest: got split: option.splits)
qed

lemma singboxStat_shape:
  "fst (singboxStat stat maps) = fst maps
   \<or> (\<exists>tag t. fst (singboxStat stat maps) = mapPut (fst maps) tag t)"
  by (auto simp: singboxStat_def Let_def split: option.splits)

lemma singboxStat_keeps:
  assumes "mapGet (fst maps) k \<noteq> None"
  shows "mapGet (fst (singboxStat stat maps)) k \<noteq> None"
  using singboxStat_shape [of stat maps] mapPut_keeps_keys [OF assms] assms
  by (elim disjE exE) (simp_all only:, blast+)

lemma singbox_fold_inv:
  "tagsOk (fst maps) \<Longrightarrow> tagsOk (fst (foldl (\<lambda>m stat. singboxStat stat m) maps stats))"
  by (induction stats arbitrary: maps) (simp_all add: singboxStat_tagsOk)

lemma singbox_fold_keeps:
  "mapGet (fst maps) k \<noteq> None \<Longrightarrow>
   mapGet (fst (foldl (\<lambda>m stat. singboxStat stat m) maps stats)) k \<noteq> None"
proof (induction stats arbitrary: maps)
  case Nil
  then show ?case by simp
next
  case (Cons s stats)
  from Cons.IH [OF singboxStat_keeps [OF Cons.prems, of s]] show ?case by simp
qed

lemma singboxStat_adds:
  assumes "CHR ''>'' \<notin> set tag" "dir = ''downlink'' \<or> dir = ''uplink''"
    "kind = ''inbound'' \<or> kind = ''outbound''"
  shows "mapGet (fst (singboxStat (statKey kind tag dir, v) maps)) tag \<noteq> None"
  using assms(2) singboxStat_tag_down [OF assms(1,3), of v maps]
    singboxStat_tag_up [OF assms(1,3), of v maps]
  by (auto simp: tagUpDown_def)

lemma singbox_fold_adds:
  assumes "CHR ''>'' \<notin> set tag" "dir = ''downlink'' \<or> dir = ''uplink''"
    "kind = ''inbound'' \<or> kind = ''outbound''"
  shows "(statKey kind tag dir, v) \<in> set stats \<Longrightarrow>
     mapGet (fst (foldl (\<lambda>m stat. singboxStat stat m) maps stats)) tag \<noteq> None"
proof (induction stats arbitrary: maps)
  case Nil
  then show ?case by simp
next
  case (Cons s stats)
  show ?case
  proof (cases "s = (statKey kind tag dir, v)")
    case True
    have "mapGet (fst (singboxStat s maps)) tag \<noteq> None"
      unfolding True by (rule singboxStat_adds [OF assms])
    from singbox_fold_keeps [OF this] show ?thesis by simp
  next
    case False
    with Cons.prems have "(statKey kind tag dir, v) \<in> set stats" by simp
    from Cons.IH [OF this] show ?thesis by simp
  qed
qed

lemma singbox_api_record:
  assumes "dir = ''downlink'' \<or> dir = ''uplink''" "kind = ''inbound'' \<or> kind = ''outbound''"
    and "(statKey kind ''api'' dir, v) \<in> set stats"
  shows "''api'' \<in> Tag ` set (fst (singboxGetTraffic stats))"
proof -
  let ?m = "fst (foldl (\<lambda>m stat. singboxStat stat m) ([], []) stats)"
  have "mapGet ?m ''api'' \<noteq> None"
    by (rule singbox_fold_adds [OF _ assms]) simp
  then obtain t where t: "mapGet ?m ''api'' = Some t" by auto
  have "tagsOk ?m" by (rule singbox_fold_inv) (simp add: tagsOk_def)
  with mapGet_in_set [OF t] have "Tag t = ''api''" "t \<in> snd ` set ?m"
    by (force simp: tagsOk_def)+
  then show ?thesis
    by (force simp: singboxGetTraffic_def mapToSlice_def Let_def)
qed

text \<open>
  Claim C9, as stated, fails for the sing-box client: its loop has no test of the tag,
  and the one key \<^verbatim>\<open>inbound>>>api>>>traffic>>>uplink\<close> gives a record tagged
  \<^verbatim>\<open>api\<close>.
\<close>

theorem singbox_api_tag_counterexample:
  "fst (singboxGetTraffic [(''inbound>>>api>>>traffic>>>uplink'', 5)])
     = [\<lparr>IsInbound = True, IsOutbound = False, Tag = ''api'', Up = 5, Down = 0\<rparr>]"
  by (simp add: singboxGetTraffic_def singboxStat_def parseTrafficKey_def mapToSlice_def
      orEmpty_def Let_def)

text \<open>
  Claim C9, amended. The Xray client returns no Traffic record tagged \<^verbatim>\<open>api\<close>,
  whatever keys and values the core reports. The sing-box client does not exclude the
  tag: whenever the reported keys hold an inbound or outbound traffic key of the tag
  \<^verbatim>\<open>api\<close>, the returned slice holds a record with that tag.
\<close>

theorem api_tag_exclusion:
  "''api'' \<notin> Tag ` set (fst (xrayGetTraffic stats))
   \<and> ((dir = ''downlink'' \<or> dir = ''uplink'') \<and> (kind = ''inbound'' \<or> kind = ''outbound'')
        \<and> (statKey kind ''api'' dir, v) \<in> set stats
      \<longrightarrow> ''api'' \<in> Tag ` set (fst (singboxGetTraffic stats)))"
  using xray_no_api_record [of stats] singbox_api_record [of dir kind v stats] by blast

theorem api_tag_exclusion_witness:
  "''api'' \<notin> Tag ` set (fst (xrayGetTraffic
      [(''inbound>>>api>>>traffic>>>uplink'', 5), (''inbound>>>in-443>>>traffic>>>uplink'', 6)]))
   \<and> ''api'' \<in> Tag ` set (fst (singboxGetTraffic
      [(''inbound>>>api>>>traffic>>>uplink'', 5), (''inbound>>>in-443>>>traffic>>>uplink'', 6)]))"
  using api_tag_exclusion [of "[(''inbound>>>api>>>traffic>>>uplink'', 5),
      (''inbound>>>in-443>>>traffic>>>uplink'', 6)]" "''uplink''" "''inbound''" 5]
  by (simp add: statKey_def)

lemma find_tagsOk: "tagsOk m \<Longrightarrow> find (\<lambda>t. Tag t = tag) (map snd m) = mapGet m tag"
  by (induction m) (auto simp: tagsOk_def)

lemma find_emailsOk: "emailsOk m \<Longrightarrow> find (\<lambda>t. Email t = e) (map snd m) = mapGet m e"
  by (induction m) (auto simp: emailsOk_def)

lemma trafficOf_slice: "tagsOk m \<Longrightarrow> trafficOf (mapToSlice m) tag = tagUpDown m tag"
  by (simp add: trafficOf_def tagUpDown_def mapToSlice_def find_tagsOk)

lemma clientTrafficOf_slice: "emailsOk m \<Longrightarrow> clientTrafficOf (mapToSlice m) e = clientUpDown m e"
  by (simp add: clientTrafficOf_def clientUpDown_def mapToSlice_def find_emailsOk)

lemma noApi_tagsOk: "noApi m \<Longrightarrow> tagsOk m"
  by (auto simp: noApi_def tagsOk_def)

lemma emailsOk_mapPut: "emailsOk m \<Longrightarrow> Email t = e \<Longrightarrow> emailsOk (mapPut m e t)"
  using set_mapPut [of m e t] by (auto simp: emailsOk_def)

lemma emailsOk_mapGet: "emailsOk m \<Longrightarrow> mapGet m e = Some t \<Longrightarrow> Email t = e"
  using mapGet_in_set [of m e t] by (auto simp: emailsOk_def)

lemma processClientTraffic_emailsOk:
  "emailsOk m \<Longrightarrow> emailsOk (processClientTraffic ms v m)"
  by (cases ms)
    (auto simp: processClientTraffic_def Let_def intro!: emailsOk_mapPut dest: emailsOk_mapGet
      split: option.splits)

lemma xrayStat_emailsOk: "emailsOk (snd maps) \<Longrightarrow> emailsOk (snd (xrayStat stat maps))"
  by (auto simp: xrayStat_def processClientTraffic_emailsOk split: option.splits)

lemma singboxStat_emailsOk: "emailsOk (snd maps) \<Longrightarrow> emailsOk (snd (singboxStat stat maps))"
  by (auto simp: singboxStat_def Let_def intro!: emailsOk_mapPut dest: emailsOk_mapGet
      split: option.splits)

lemma xray_fold_emailsOk:
  "emailsOk (snd maps) \<Longrightarrow> emailsOk (snd (foldl (\<lambda>m stat. xrayStat stat m) maps stats))"
  by (induction stats arbitrary: maps) (simp_all add: xrayStat_emailsOk)

lemma singbox_fold_emailsOk:
  "emailsOk (snd maps) \<Longrightarrow> emailsOk (snd (foldl (\<lambda>m stat. singboxStat stat m) maps stats))"
  by (induction stats arbitrary: maps) (simp_all add: singboxStat_emailsOk)

lemma distinct_mapPut: "distinct (map fst m) \<Longrightarrow> distinct (map fst (mapPut m k v))"
proof (induction m)
  case Nil
  then show ?case by simp
next
  case (Cons p m)
  obtain k' v' where p: "p = (k', v')" by (cases p)
  have "fst ` set (mapPut m k v) \<subseteq> insert k (fst ` set m)"
    using set_mapPut [of m k v] by force
  with Cons show ?case by (auto simp: p)
qed

lemma tags_of_slice: "tagsOk m \<Longrightarrow> map Tag (mapToSlice m) = map fst m"
  by (induction m) (auto simp: tagsOk_def mapToSlice_def)

lemma emails_of_slice: "emailsOk m \<Longrightarrow> map Email (mapToSlice m) = map fst m"
  by (induction m) (auto simp: emailsOk_def mapToSlice_def)


lemma xrayStat_distinct:
  "distinct (map fst (fst maps)) \<Longrightarrow> distinct (map fst (snd maps)) \<Longrightarrow>
   distinct (map fst (fst (xrayStat stat maps))) \<and> distinct (map fst (snd (xrayStat stat maps)))"
  by (auto simp: xrayStat_def processTraffic_def processClientTraffic_def Let_def distinct_mapPut
      split: option.splits prod.splits)

lemma singboxStat_distinct:
  "distinct (map fst (fst maps)) \<Longrightarrow> distinct (map fst (snd maps)) \<Longrightarrow>
   distinct (map fst (fst (singboxStat stat maps))) \<and> distinct (map fst (snd (singboxStat stat maps)))"
  by (auto simp: singboxStat_def Let_def distinct_mapPut split: option.splits)

lemma xray_fold_distinct:
  "distinct (map fst (fst maps)) \<Longrightarrow> distinct (map fst (snd maps)) \<Longrightarrow>
   distinct (map fst (fst (foldl (\<lambda>m stat. xrayStat stat m) maps stats)))
   \<and> distinct (map fst (snd (foldl (\<lambda>m stat. xrayStat stat m) maps stats)))"
proof (induction stats arbitrary: maps)
  case Nil
  then show ?case by simp
next
  case (Cons s stats)
  from xrayStat_distinct [OF Cons.prems, of s] Cons.IH [of "xrayStat s maps"]
  show ?case by simp
qed

lemma singbox_fold_distinct:
  "distinct (map fst (fst maps)) \<Longrightarrow> distinct (map fst (snd maps)) \<Longrightarrow>
   distinct (map fst (fst (foldl (\<lambda>m stat. singboxStat stat m) maps stats)))
   \<and> distinct (map fst (snd (foldl (\<lambda>m stat. singboxStat stat m) maps stats)))"
proof (induction stats arbitrary: maps)
  case Nil
  then show ?case by simp
next
  case (Cons s stats)
  from singboxStat_distinct [OF Cons.prems, of s] Cons.IH [of "singboxStat s maps"]
  show ?case by simp
qed

text \<open>The maps both loops have built after a list of stats, and their invariants.\<close>

lemma xray_maps:
  fixes stats
  defines "maps \<equiv> foldl (\<lambda>m stat. xrayStat stat m) ([], []) stats"
  shows "tagsOk (fst maps)" and "emailsOk (snd maps)"
    and "distinct (map fst (fst maps))" and "distinct (map fst (snd maps))"
    and "xrayGetTraffic stats = (mapToSlice (fst maps), mapToSlice (snd maps))"
    and "xrayGetTraffic (stats @ [s]) =
           (mapToSlice (fst (xrayStat s maps)), mapToSlice (snd (xrayStat s maps)))"
    and "tagsOk (fst (xrayStat s maps))" and "emailsOk (snd (xrayStat s maps))"
proof -
  have n: "noApi (fst maps)" unfolding maps_def by (rule xray_fold_noApi) (simp add: noApi_def)
  then show "tagsOk (fst maps)" by (rule noApi_tagsOk)
  show e: "emailsOk (snd maps)" unfolding maps_def
    by (rule xray_fold_emailsOk) (simp add: emailsOk_def)
  show "distinct (map fst (fst maps))" "distinct (map fst (snd maps))"
    unfolding maps_def using xray_fold_distinct [of "([], [])" stats] by simp_all
  show "xrayGetTraffic stats = (mapToSlice (fst maps), mapToSlice (snd maps))"
    by (simp add: xrayGetTraffic_def maps_def Let_def)
  show "xrayGetTraffic (stats @ [s]) =
           (mapToSlice (fst (xrayStat s maps)), mapToSlice (snd (xrayStat s maps)))"
    by (simp add: xrayGetTraffic_def maps_def Let_def)
  show "tagsOk (fst (xrayStat s maps))" by (rule noApi_tagsOk [OF xrayStat_noApi [OF n]])
  show "emailsOk (snd (xrayStat s maps))" by (rule xrayStat_emailsOk [OF e])
qed

lemma singbox_maps:
  fixes stats
  defines "maps \<equiv> foldl (\<lambda>m stat. singboxStat stat m) ([], []) stats"
  shows "tagsOk (fst maps)" and "emailsOk (snd maps)"
    and "distinct (map fst (fst maps))" and "distinct (map fst (snd maps))"
    and "singboxGetTraffic stats = (mapToSlice (fst maps), mapToSlice (snd maps))"
    and "singboxGetTraffic (stats @ [s]) =
           (mapToSlice (fst (singboxStat s maps)), mapToSlice (snd (singboxStat s maps)))"
    and "tagsOk (fst (singboxStat s maps))" and "emailsOk (snd (singboxStat s maps))"
proof -
  show n: "tagsOk (fst maps)" unfolding maps_def by (rule singbox_fold_inv) (simp add: tagsOk_def)
  show e: "emailsOk (snd maps)" unfolding maps_def
    by (rule singbox_fold_emailsOk) (simp add: emailsOk_def)
  show "distinct (map fst (fst maps))" "distinct (map fst (snd maps))"
    unfolding maps_def using singbox_fold_distinct [of "([], [])" stats] by simp_all
  show "singboxGetTraffic stats = (mapToSlice (fst maps), mapToSlice (snd maps))"
    by (simp add: singboxGetTraffic_def maps_def Let_def)
  show "singboxGetTraffic (stats @ [s]) =
           (mapToSlice (fst (singboxStat s maps)), mapToSlice (snd (singboxStat s maps)))"
    by (simp add: singboxGetTraffic_def maps_def Let_def)
  show "tagsOk (fst (singboxStat s maps))" by (rule singboxStat_tagsOk [OF n])
  show "emailsOk (snd (singboxStat s maps))" by (rule singboxStat_emailsOk [OF e])
qed

lemma one_record_per_key:
  "distinct (map Tag (fst (xrayGetTraffic stats)))"
  "distinct (map Email (snd (xrayGetTraffic stats)))"
  "distinct (map Tag (fst (singboxGetTraffic stats)))"
  "distinct (map Email (snd (singboxGetTraffic stats)))"
  by (simp_all add: xray_maps(5) singbox_maps(5) tags_of_slice emails_of_slice
      xray_maps(1-4) singbox_maps(1-4))

text \<open>What one more tag key does to the records of the other tags and to the client
  records, and one more user key to the other emails and to the tag records.\<close>

lemma processTraffic_other:
  "tag' \<noteq> tag \<Longrightarrow> tagUpDown (processTraffic (kind, tag, dir) v m) tag' = tagUpDown m tag'"
  by (simp add: processTraffic_def tagUpDown_def Let_def mapGet_mapPut_other)

lemma processClientTraffic_other:
  "e' \<noteq> e \<Longrightarrow> clientUpDown (processClientTraffic (e, dir) v m) e' = clientUpDown m e'"
  by (simp add: processClientTraffic_def clientUpDown_def Let_def mapGet_mapPut_other)

lemma singboxStat_tag_key:
  assumes "CHR ''>'' \<notin> set ident" "dir = ''downlink'' \<or> dir = ''uplink''"
    and "kind = ''inbound'' \<or> kind = ''outbound''"
  shows "snd (singboxStat (statKey kind ident dir, v) maps) = snd maps"
    and "tag' \<noteq> ident \<Longrightarrow>
         tagUpDown (fst (singboxStat (statKey kind ident dir, v) maps)) tag' = tagUpDown (fst maps) tag'"
proof -
  have p: "parseTrafficKey (statKey kind ident dir) =
        Some \<lparr>ktype = kind, ktag = Some ident, kemail = None, kdirection = Some dir\<rparr>"
    using parseTrafficKey_key [OF assms(1,2), of kind] assms(3) by auto
  show "snd (singboxStat (statKey kind ident dir, v) maps) = snd maps"
    using p assms(3) by (auto simp: singboxStat_def Let_def)
  show "tagUpDown (fst (singboxStat (statKey kind ident dir, v) maps)) tag' = tagUpDown (fst maps) tag'"
    if "tag' \<noteq> ident"
    using p assms(3) that
    by (auto simp: singboxStat_def Let_def orEmpty_def tagUpDown_def mapGet_mapPut_other)
qed


lemma xray_get_tag:
  assumes "ident \<noteq> []" and "CHR ''>'' \<notin> set ident"
    and "kind = ''inbound'' \<or> kind = ''outbound''" and "ident \<noteq> ''api''"
  shows "trafficOf (fst (xrayGetTraffic (stats @ [(statKey kind ident ''downlink'', v)]))) ident
           = Some (upBefore (trafficOf (fst (xrayGetTraffic stats)) ident), v)"
    and "trafficOf (fst (xrayGetTraffic (stats @ [(statKey kind ident ''uplink'', v)]))) ident
           = Some (v, downBefore (trafficOf (fst (xrayGetTraffic stats)) ident))"
    and "dir = ''downlink'' \<or> dir = ''uplink'' \<Longrightarrow> tag' \<noteq> ident \<Longrightarrow>
         trafficOf (fst (xrayGetTraffic (stats @ [(statKey kind ident dir, v)]))) tag'
           = trafficOf (fst (xrayGetTraffic stats)) tag'"
    and "dir = ''downlink'' \<or> dir = ''uplink'' \<Longrightarrow>
         snd (xrayGetTraffic (stats @ [(statKey kind ident dir, v)])) = snd (xrayGetTraffic stats)"
proof -
  define maps where "maps = foldl (\<lambda>m stat. xrayStat stat m) ([], []) stats"
  note m = xray_maps [where stats = stats, folded maps_def]
  have before: "trafficOf (fst (xrayGetTraffic stats)) t = tagUpDown (fst maps) t" for t
    by (simp add: m(5) trafficOf_slice [OF m(1)])
  have after: "trafficOf (fst (xrayGetTraffic (stats @ [s]))) t = tagUpDown (fst (xrayStat s maps)) t"
    for s t
    by (simp add: m(6) trafficOf_slice [OF m(7)])
  show "trafficOf (fst (xrayGetTraffic (stats @ [(statKey kind ident ''downlink'', v)]))) ident
           = Some (upBefore (trafficOf (fst (xrayGetTraffic stats)) ident), v)"
    unfolding before after
    using xray_tag_direction(1) [OF assms, of v "fst maps" "snd maps"] by simp
  show "trafficOf (fst (xrayGetTraffic (stats @ [(statKey kind ident ''uplink'', v)]))) ident
           = Some (v, downBefore (trafficOf (fst (xrayGetTraffic stats)) ident))"
    unfolding before after
    using xray_tag_direction(2) [OF assms, of v "fst maps" "snd maps"] by simp
  show "trafficOf (fst (xrayGetTraffic (stats @ [(statKey kind ident dir, v)]))) tag'
           = trafficOf (fst (xrayGetTraffic stats)) tag'"
    if "dir = ''downlink'' \<or> dir = ''uplink''" "tag' \<noteq> ident"
    unfolding before after
    by (simp add: xrayStat_tag_key [OF assms(1,2) that(1) assms(3)] processTraffic_other [OF that(2)])
  show "snd (xrayGetTraffic (stats @ [(statKey kind ident dir, v)])) = snd (xrayGetTraffic stats)"
    if "dir = ''downlink'' \<or> dir = ''uplink''"
    by (simp add: m(5,6) xrayStat_tag_key [OF assms(1,2) that assms(3)])
qed

lemma singbox_get_tag:
  assumes "CHR ''>'' \<notin> set ident" and "kind = ''inbound'' \<or> kind = ''outbound''"
  shows "trafficOf (fst (singboxGetTraffic (stats @ [(statKey kind ident ''downlink'', v)]))) ident
           = Some (upBefore (trafficOf (fst (singboxGetTraffic stats)) ident), v)"
    and "trafficOf (fst (singboxGetTraffic (stats @ [(statKey kind ident ''uplink'', v)]))) ident
           = Some (v, downBefore (trafficOf (fst (singboxGetTraffic stats)) ident))"
    and "dir = ''downlink'' \<or> dir = ''uplink'' \<Longrightarrow> tag' \<noteq> ident \<Longrightarrow>
         trafficOf (fst (singboxGetTraffic (stats @ [(statKey kind ident dir, v)]))) tag'
           = trafficOf (fst (singboxGetTraffic stats)) tag'"
    and "dir = ''downlink'' \<or> dir = ''uplink'' \<Longrightarrow>
         snd (singboxGetTraffic (stats @ [(statKey kind ident dir, v)])) = snd (singboxGetTraffic stats)"
proof -
  define maps where "maps = foldl (\<lambda>m stat. singboxStat stat m) ([], []) stats"
  note m = singbox_maps [where stats = stats, folded maps_def]
  have before: "trafficOf (fst (singboxGetTraffic stats)) t = tagUpDown (fst maps) t" for t
    by (simp add: m(5) trafficOf_slice [OF m(1)])
  have after: "trafficOf (fst (singboxGetTraffic (stats @ [s]))) t
      = tagUpDown (fst (singboxStat s maps)) t" for s t
    by (simp add: m(6) trafficOf_slice [OF m(7)])
  show "trafficOf (fst (singboxGetTraffic (stats @ [(statKey kind ident ''downlink'', v)]))) ident
           = Some (upBefore (trafficOf (fst (singboxGetTraffic stats)) ident), v)"
    unfolding before after by (rule singboxStat_tag_down [OF assms])
  show "trafficOf (fst (singboxGetTraffic (stats @ [(statKey kind ident ''uplink'', v)]))) ident
           = Some (v, downBefore (trafficOf (fst (singboxGetTraffic stats)) ident))"
    unfolding before after by (rule singboxStat_tag_up [OF assms])
  show "trafficOf (fst (singboxGetTraffic (stats @ [(statKey kind ident dir, v)]))) tag'
           = trafficOf (fst (singboxGetTraffic stats)) tag'"
    if "dir = ''downlink'' \<or> dir = ''uplink''" "tag' \<noteq> ident"
    unfolding before after by (rule singboxStat_tag_key(2) [OF assms(1) that(1) assms(2) that(2)])
  show "snd (singboxGetTraffic (stats @ [(statKey kind ident dir, v)])) = snd (singboxGetTraffic stats)"
    if "dir = ''downlink'' \<or> dir = ''uplink''"
    by (simp add: m(5,6) singboxStat_tag_key(1) [OF assms(1) that assms(2)])
qed

lemma xray_get_user:
  assumes "ident \<noteq> []" and "CHR ''>'' \<notin> set ident"
  shows "clientTrafficOf (snd (xrayGetTraffic (stats @ [(statKey ''user'' ident ''downlink'', v)]))) ident
           = Some (upBefore (clientTrafficOf (snd (xrayGetTraffic stats)) ident), v)"
    and "clientTrafficOf (snd (xrayGetTraffic (stats @ [(statKey ''user'' ident ''uplink'', v)]))) ident
           = Some (v, downBefore (clientTrafficOf (snd (xrayGetTraffic stats)) ident))"
    and "dir = ''downlink'' \<or> dir = ''uplink'' \<Longrightarrow> e' \<noteq> ident \<Longrightarrow>
         clientTrafficOf (snd (xrayGetTraffic (stats @ [(statKey ''user'' ident dir, v)]))) e'
           = clientTrafficOf (snd (xrayGetTraffic stats)) e'"
    and "dir = ''downlink'' \<or> dir = ''uplink'' \<Longrightarrow>
         fst (xrayGetTraffic (stats @ [(statKey ''user'' ident dir, v)])) = fst (xrayGetTraffic stats)"
proof -
  define maps where "maps = foldl (\<lambda>m stat. xrayStat stat m) ([], []) stats"
  note m = xray_maps [where stats = stats, folded maps_def]
  have before: "clientTrafficOf (snd (xrayGetTraffic stats)) t = clientUpDown (snd maps) t" for t
    by (simp add: m(5) clientTrafficOf_slice [OF m(2)])
  have after: "clientTrafficOf (snd (xrayGetTraffic (stats @ [s]))) t
      = clientUpDown (snd (xrayStat s maps)) t" for s t
    by (simp add: m(6) clientTrafficOf_slice [OF m(8)])
  show "clientTrafficOf (snd (xrayGetTraffic (stats @ [(statKey ''user'' ident ''downlink'', v)]))) ident
           = Some (upBefore (clientTrafficOf (snd (xrayGetTraffic stats)) ident), v)"
    unfolding before after
    using xray_user_direction(1) [OF assms, of v "fst maps" "snd maps"] by simp
  show "clientTrafficOf (snd (xrayGetTraffic (stats @ [(statKey ''user'' ident ''uplink'', v)]))) ident
           = Some (v, downBefore (clientTrafficOf (snd (xrayGetTraffic stats)) ident))"
    unfolding before after
    using xray_user_direction(2) [OF assms, of v "fst maps" "snd maps"] by simp
  show "clientTrafficOf (snd (xrayGetTraffic (stats @ [(statKey ''user'' ident dir, v)]))) e'
           = clientTrafficOf (snd (xrayGetTraffic stats)) e'"
    if "dir = ''downlink'' \<or> dir = ''uplink''" "e' \<noteq> ident"
    unfolding before after
    by (simp add: xrayStat_user_key [OF assms that(1)] processClientTraffic_other [OF that(2)])
  show "fst (xrayGetTraffic (stats @ [(statKey ''user'' ident dir, v)])) = fst (xrayGetTraffic stats)"
    if "dir = ''downlink'' \<or> dir = ''uplink''"
    by (simp add: m(5,6) xrayStat_user_key [OF assms that])
qed

lemma singbox_get_user:
  assumes "CHR ''>'' \<notin> set ident"
  shows "clientTrafficOf (snd (singboxGetTraffic (stats @ [(statKey ''user'' ident ''downlink'', v)]))) ident
           = Some (upBefore (clientTrafficOf (snd (singboxGetTraffic stats)) ident), v)"
    and "clientTrafficOf (snd (singboxGetTraffic (stats @ [(statKey ''user'' ident ''uplink'', v)]))) ident
           = Some (v, downBefore (clientTrafficOf (snd (singboxGetTraffic stats)) ident))"
    and "dir = ''downlink'' \<or> dir = ''uplink'' \<Longrightarrow> e' \<noteq> ident \<Longrightarrow>
         clientTrafficOf (snd (singboxGetTraffic (stats @ [(statKey ''user'' ident dir, v)]))) e'
           = clientTrafficOf (snd (singboxGetTraffic stats)) e'"
    and "dir = ''downlink'' \<or> dir = ''uplink'' \<Longrightarrow>
         fst (singboxGetTraffic (stats @ [(statKey ''user'' ident dir, v)])) = fst (singboxGetTraffic stats)"
proof -
  define maps where "maps = foldl (\<lambda>m stat. singboxStat stat m) ([], []) stats"
  note m = singbox_maps [where stats = stats, folded maps_def]
  have before: "clientTrafficOf (snd (singboxGetTraffic stats)) t = clientUpDown (snd maps) t" for t
    by (simp add: m(5) clientTrafficOf_slice [OF m(2)])
  have after: "clientTrafficOf (snd (singboxGetTraffic (stats @ [s]))) t
      = clientUpDown (snd (singboxStat s maps)) t" for s t
    by (simp add: m(6) clientTrafficOf_slice [OF m(8)])
  show "clientTrafficOf (snd (singboxGetTraffic (stats @ [(statKey ''user'' ident ''downlink'', v)]))) ident
           = Some (upBefore (clientTrafficOf (snd (singboxGetTraffic stats)) ident), v)"
    unfolding before after
    using singbox_user_direction(1) [OF assms, of v "fst maps" "snd maps"] by simp
  show "clientTrafficOf (snd (singboxGetTraffic (stats @ [(statKey ''user'' ident ''uplink'', v)]))) ident
           = Some (v, downBefore (clientTrafficOf (snd (singboxGetTraffic stats)) ident))"
    unfolding before after
    using singbox_user_direction(2) [OF assms, of v "fst maps" "snd maps"] by simp
  show "clientTrafficOf (snd (singboxGetTraffic (stats @ [(statKey ''user'' ident dir, v)]))) e'
           = clientTrafficOf (snd (singboxGetTraffic stats)) e'"
    if "dir = ''downlink'' \<or> dir = ''uplink''" "e' \<noteq> ident"
    unfolding before after
    by (simp add: singboxStat_user [OF assms that(1)] processClientTraffic_other [OF that(2)])
  show "fst (singboxGetTraffic (stats @ [(statKey ''user'' ident dir, v)])) = fst (singboxGetTraffic stats)"
    if "dir = ''downlink'' \<or> dir = ''uplink''"
    by (simp add: m(5,6) singboxStat_user [OF assms that])
qed

text \<open>
  Claim C1. In both clients a key of the shared format whose direction is
  \<^verbatim>\<open>downlink\<close> stores its value in the \<^verbatim>\<open>Down\<close> field of the record of its tag or
  email and leaves \<^verbatim>\<open>Up\<close> as it was (0 for a new record), and a key whose direction is
  \<^verbatim>\<open>uplink\<close> stores it in \<^verbatim>\<open>Up\<close> and leaves \<^verbatim>\<open>Down\<close>; this holds for the
  \<^verbatim>\<open>inbound\<close> and \<^verbatim>\<open>outbound\<close> keys (in Xray for every tag but \<^verbatim>\<open>api\<close>, which is
  skipped) and for the \<^verbatim>\<open>user\<close> keys. It holds of the loop bodies, whatever the maps
  held before, and of the slices \<^verbatim>\<open>GetTraffic\<close> returns: after any list of stats, one
  more key gives the returned record of its tag or email the value in the field of its
  direction and, in the other field, what \<^verbatim>\<open>GetTraffic\<close> returned there without the key;
  the records of the other tags or emails and the other slice are as without the key.
  Every tag and every email has one record in the slices. The single key
  \<^verbatim>\<open>user>>>E>>>traffic>>>downlink\<close> with value \<^verbatim>\<open>v\<close> gives no tag record and the one
  client record \<^verbatim>\<open>{Email: E, Up: 0, Down: v}\<close>. The identifier is not empty and has no
  \<^verbatim>\<open>>\<close>, as the Xray expression \<^verbatim>\<open>[^>]+\<close> requires of a key it parses.
\<close>

theorem traffic_direction:
  assumes "ident \<noteq> []" and "CHR ''>'' \<notin> set ident"
  shows "((kind = ''inbound'' \<or> kind = ''outbound'') \<and> ident \<noteq> ''api'' \<longrightarrow>
           tagUpDown (fst (xrayStat (statKey kind ident ''downlink'', v) (tm, em))) ident
             = Some (upBefore (tagUpDown tm ident), v)
         \<and> tagUpDown (fst (xrayStat (statKey kind ident ''uplink'', v) (tm, em))) ident
             = Some (v, downBefore (tagUpDown tm ident)))
       \<and> (kind = ''inbound'' \<or> kind = ''outbound'' \<longrightarrow>
           tagUpDown (fst (singboxStat (statKey kind ident ''downlink'', v) (tm, em))) ident
             = Some (upBefore (tagUpDown tm ident), v)
         \<and> tagUpDown (fst (singboxStat (statKey kind ident ''uplink'', v) (tm, em))) ident
             = Some (v, downBefore (tagUpDown tm ident)))
       \<and> clientUpDown (snd (xrayStat (statKey ''user'' ident ''downlink'', v) (tm, em))) ident
             = Some (upBefore (clientUpDown em ident), v)
       \<and> clientUpDown (snd (xrayStat (statKey ''user'' ident ''uplink'', v) (tm, em))) ident
             = Some (v, downBefore (clientUpDown em ident))
       \<and> clientUpDown (snd (singboxStat (statKey ''user'' ident ''downlink'', v) (tm, em))) ident
             = Some (upBefore (clientUpDown em ident), v)
       \<and> clientUpDown (snd (singboxStat (statKey ''user'' ident ''uplink'', v) (tm, em))) ident
             = Some (v, downBefore (clientUpDown em ident))
       \<and> ((kind = ''inbound'' \<or> kind = ''outbound'') \<and> ident \<noteq> ''api'' \<longrightarrow>
           trafficOf (fst (xrayGetTraffic (stats @ [(statKey kind ident ''downlink'', v)]))) ident
             = Some (upBefore (trafficOf (fst (xrayGetTraffic stats)) ident), v)
         \<and> trafficOf (fst (xrayGetTraffic (stats @ [(statKey kind ident ''uplink'', v)]))) ident
             = Some (v, downBefore (trafficOf (fst (xrayGetTraffic stats)) ident))
         \<and> (dir = ''downlink'' \<or> dir = ''uplink'' \<longrightarrow>
              (other \<noteq> ident \<longrightarrow>
                 trafficOf (fst (xrayGetTraffic (stats @ [(statKey kind ident dir, v)]))) other
                   = trafficOf (fst (xrayGetTraffic stats)) other)
            \<and> snd (xrayGetTraffic (stats @ [(statKey kind ident dir, v)]))
                 = snd (xrayGetTraffic stats)))
       \<and> (kind = ''inbound'' \<or> kind = ''outbound'' \<longrightarrow>
           trafficOf (fst (singboxGetTraffic (stats @ [(statKey kind ident ''downlink'', v)]))) ident
             = Some (upBefore (trafficOf (fst (singboxGetTraffic stats)) ident), v)
         \<and> trafficOf (fst (singboxGetTraffic (stats @ [(statKey kind ident ''uplink'', v)]))) ident
             = Some (v, downBefore (trafficOf (fst (singboxGetTraffic stats)) ident))
         \<and> (dir = ''downlink'' \<or> dir = ''uplink'' \<longrightarrow>
              (other \<noteq> ident \<longrightarrow>
                 trafficOf (fst (singboxGetTraffic (stats @ [(statKey kind ident dir, v)]))) other
                   = trafficOf (fst (singboxGetTraffic stats)) other)
            \<and> snd (singboxGetTraffic (stats @ [(statKey kind ident dir, v)]))
                 = snd (singboxGetTraffic stats)))
       \<and> clientTrafficOf (snd (xrayGetTraffic (stats @ [(statKey ''user'' ident ''downlink'', v)]))) ident
             = Some (upBefore (clientTrafficOf (snd (xrayGetTraffic stats)) ident), v)
       \<and> clientTrafficOf (snd (xrayGetTraffic (stats @ [(statKey ''user'' ident ''uplink'', v)]))) ident
             = Some (v, downBefore (clientTrafficOf (snd (xrayGetTraffic stats)) ident))
       \<and> (dir = ''downlink'' \<or> dir = ''uplink'' \<longrightarrow>
            (other \<noteq> ident \<longrightarrow>
               clientTrafficOf (snd (xrayGetTraffic (stats @ [(statKey ''user'' ident dir, v)]))) other
                 = clientTrafficOf (snd (xrayGetTraffic stats)) other)
          \<and> fst (xrayGetTraffic (stats @ [(statKey ''user'' ident dir, v)]))
               = fst (xrayGetTraffic stats))
       \<and> clientTrafficOf (snd (singboxGetTraffic (stats @ [(statKey ''user'' ident ''downlink'', v)]))) ident
             = Some (upBefore (clientTrafficOf (snd (singboxGetTraffic stats)) ident), v)
       \<and> clientTrafficOf (snd (singboxGetTraffic (stats @ [(statKey ''user'' ident ''uplink'', v)]))) ident
             = Some (v, downBefore (clientTrafficOf (snd (singboxGetTraffic stats)) ident))
       \<and> (dir = ''downlink'' \<or> dir = ''uplink'' \<longrightarrow>
            (other \<noteq> ident \<longrightarrow>
               clientTrafficOf (snd (singboxGetTraffic (stats @ [(statKey ''user'' ident dir, v)]))) other
                 = clientTrafficOf (snd (singboxGetTraffic stats)) other)
          \<and> fst (singboxGetTraffic (stats @ [(statKey ''user'' ident dir, v)]))
               = fst (singboxGetTraffic stats))
       \<and> distinct (map Tag (fst (xrayGetTraffic stats)))
       \<and> distinct (map Email (snd (xrayGetTraffic stats)))
       \<and> distinct (map Tag (fst (singboxGetTraffic stats)))
       \<and> distinct (map Email (snd (singboxGetTraffic stats)))
       \<and> xrayGetTraffic [(statKey ''user'' ident ''downlink'', v)]
             = ([], [\<lparr>Email = ident, CUp = 0, CDown = v\<rparr>])
       \<and> singboxGetTraffic [(statKey ''user'' ident ''downlink'', v)]
             = ([], [\<lparr>Email = ident, CUp = 0, CDown = v\<rparr>])"
proof -
  have sd: "tagUpDown (fst (singboxStat (statKey kind ident ''downlink'', v) (tm, em))) ident
             = Some (upBefore (tagUpDown tm ident), v)"
    and su: "tagUpDown (fst (singboxStat (statKey kind ident ''uplink'', v) (tm, em))) ident
             = Some (v, downBefore (tagUpDown tm ident))"
    if "kind = ''inbound'' \<or> kind = ''outbound''"
    using singboxStat_tag_down [OF assms(2) that, of v "(tm, em)"]
      singboxStat_tag_up [OF assms(2) that, of v "(tm, em)"] by simp_all
  note fs = xray_tag_direction [OF assms] sd su xray_user_direction [OF assms]
    singbox_user_direction [OF assms(2)]
    xray_get_tag [OF assms] singbox_get_tag [OF assms(2)]
    xray_get_user [OF assms] singbox_get_user [OF assms(2)]
    one_record_per_key single_user_key [OF assms]
  show ?thesis
    by (intro conjI impI; (elim conjE)?; (rule fs; assumption))
qed

theorem traffic_direction_witness:
  "xrayGetTraffic [(''user>>>alice@example.com>>>traffic>>>downlink'', 1000)]
     = ([], [\<lparr>Email = ''alice@example.com'', CUp = 0, CDown = 1000\<rparr>])
   \<and> singboxGetTraffic [(''user>>>alice@example.com>>>traffic>>>downlink'', 1000)]
     = ([], [\<lparr>Email = ''alice@example.com'', CUp = 0, CDown = 1000\<rparr>])
   \<and> tagUpDown (fst (xrayStat (''inbound>>>alice@example.com>>>traffic>>>downlink'', 7)
        ([(''alice@example.com'',
           \<lparr>IsInbound = True, IsOutbound = False, Tag = ''alice@example.com'', Up = 3, Down = 4\<rparr>)], [])))
        ''alice@example.com'' = Some (3, 7)
   \<and> tagUpDown (fst (singboxStat (''inbound>>>alice@example.com>>>traffic>>>uplink'', 7)
        ([(''alice@example.com'',
           \<lparr>IsInbound = True, IsOutbound = False, Tag = ''alice@example.com'', Up = 3, Down = 4\<rparr>)], [])))
        ''alice@example.com'' = Some (7, 4)
   \<and> trafficOf (fst (xrayGetTraffic [(''inbound>>>in-443>>>traffic>>>uplink'', 5),
          (''inbound>>>in-443>>>traffic>>>downlink'', 7)])) ''in-443'' = Some (5, 7)
   \<and> trafficOf (fst (singboxGetTraffic [(''inbound>>>in-443>>>traffic>>>uplink'', 5),
          (''inbound>>>in-443>>>traffic>>>downlink'', 7)])) ''in-443'' = Some (5, 7)"
proof -
  have h: "''alice@example.com'' \<noteq> []" "CHR ''>'' \<notin> set ''alice@example.com''"
    "''in-443'' \<noteq> []" "CHR ''>'' \<notin> set ''in-443''" by simp_all
  have x: "trafficOf (fst (xrayGetTraffic [(''inbound>>>in-443>>>traffic>>>uplink'', 5)])) ''in-443''
      = Some (5, 0)" by code_simp
  have s: "trafficOf (fst (singboxGetTraffic [(''inbound>>>in-443>>>traffic>>>uplink'', 5)])) ''in-443''
      = Some (5, 0)" by code_simp
  note a = traffic_direction [OF h(1,2), of "''inbound''" 7
      "[(''alice@example.com'',
           \<lparr>IsInbound = True, IsOutbound = False, Tag = ''alice@example.com'', Up = 3, Down = 4\<rparr>)]"
      "[]"]
  note b = traffic_direction [OF h(1,2), of "''inbound''" 1000 "[]" "[]"]
  note c = traffic_direction [OF h(3,4), of "''inbound''" 7 _ _
      "[(''inbound>>>in-443>>>traffic>>>uplink'', 5)]"]
  show ?thesis
    using a b c x s
    by (simp add: statKey_def tagUpDown_def upBefore_def downBefore_def)
qed

section \<open>Proofs: configuration translation\<close>

lemma mapGet_mapPut: "mapGet (mapPut m k v) k' = (if k' = k then Some v else mapGet m k')"
  by (simp add: mapGet_mapPut_same mapGet_mapPut_other)

lemma mapGet_mapDel: "mapGet (mapDel m k) k' = (if k' = k then None else mapGet m k')"
  by (induction m) (auto simp: mapDel_def)

lemma mapGet_marshal:
  "mapGet (map (map_prod id marshal) kvs) k = map_option marshal (mapGet kvs k)"
  by (induction kvs) auto

text \<open>What the translated client holds under each key.\<close>

lemma convertClient_keys:
  "mapGet (convertClient p c) ''uuid'' = map_option JStr (asString (mapGet c ''id''))"
  "mapGet (convertClient p c) ''name'' =
     (if p = ''vless'' then map_option JStr (asNonEmptyString (mapGet c ''email'')) else None)"
  "mapGet (convertClient p c) ''flow'' = map_option JStr (asNonEmptyString (mapGet c ''flow''))"
  "mapGet (convertClient p c) ''email'' = None"
  by (auto simp: convertClient_def Let_def mapGet_mapPut asNonEmptyString_def split: option.splits)

lemma plain_mapPut: "plain m \<Longrightarrow> plain (mapPut m k (JStr s))"
  using set_mapPut [of m k "JStr s"] by (auto simp: plain_def)

lemma plain_marshal: "plain m \<Longrightarrow> map (map_prod id marshal) m = m"
  by (induction m) (auto simp: plain_def)

lemma convertClient_plain: "plain (convertClient p c)"
  by (auto simp: convertClient_def Let_def plain_def intro!: plain_mapPut [unfolded plain_def, rule_format] split: option.splits)

lemma convertClients_objects: "convertClients p clients = map (convertClient p) (objectsOf clients)"
  by (induction p clients rule: convertClients.induct) (simp_all add: objectsOf_def map_filter_simps)

lemma marshal_users:
  "map (marshal \<circ> JObj) (convertClients p clients) = map JObj (convertClients p clients)"
  by (simp add: convertClients_objects plain_marshal [OF convertClient_plain] comp_def)

lemma unmarshalMaps_objects: "unmarshalMaps (RawJson (JArr (map JObj ms))) = Some ms"
  by (induction ms) (auto simp: unmarshalMaps_def elemMap_def list_all_iff comp_def)

lemma sbUsers_convertStream [simp]: "sbUsers (convertStream s sb) = sbUsers sb"
  by (simp add: convertStream_def Let_def split: option.splits)

lemma sbUsers_convertSniffing [simp]: "sbUsers (convertSniffing s sb) = sbUsers sb"
  by (simp add: convertSniffing_def Let_def split: option.splits)

lemma sbType_convertStream [simp]: "sbType (convertStream s sb) = sbType sb"
  by (simp add: convertStream_def Let_def split: option.splits)

lemma sbType_convertSniffing [simp]: "sbType (convertSniffing s sb) = sbType sb"
  by (simp add: convertSniffing_def Let_def split: option.splits)

lemma sbType_convertSettings [simp]: "sbType (convertSettings p st sb) = sbType sb"
  by (simp add: convertSettings_def Let_def split: option.splits list.splits)

lemma users_of_translation:
  assumes "xProtocol x = ''vless'' \<or> xProtocol x = ''vmess''"
    and "unmarshalMap (xSettings x) = Some settings"
    and "asArray (mapGet settings ''clients'') = Some clients"
  shows "map_option usersOf (convertXrayInboundToSingBox x)
           = Some (map (convertClient (xProtocol x)) (objectsOf clients))"
proof -
  have sup: "xProtocol x \<in> set supportedProtocols"
    using assms(1) by (auto simp: supportedProtocols_def)
  let ?users = "convertClients (xProtocol x) clients"
  show ?thesis
  proof (cases "?users = []")
    case True
    with sup assms show ?thesis
      by (auto simp: convertXrayInboundToSingBox_def Let_def convertSettings_def usersOf_def
          unmarshalMaps_def convertClients_objects)
  next
    case False
    with sup assms show ?thesis
      by (auto simp: convertXrayInboundToSingBox_def Let_def convertSettings_def usersOf_def
          marshal_users unmarshalMaps_objects convertClients_objects [symmetric])
  qed
qed

lemma scenario_A_client:
  "convertClient ''vless'' [(''id'', JStr u), (''email'', JStr (e # es)), (''flow'', JStr (f # fs))]
     = [(''uuid'', JStr u), (''name'', JStr (e # es)), (''flow'', JStr (f # fs))]"
  by (simp add: convertClient_def asString_def Let_def)

text \<open>
  Claim C3. For a VLESS or VMESS inbound whose settings decode to an object with a
  \<^verbatim>\<open>clients\<close> array, the users of the translated inbound are the translations of the
  client objects, in order. A translated entry never has an \<^verbatim>\<open>email\<close> key; its
  \<^verbatim>\<open>uuid\<close> is the client's \<^verbatim>\<open>id\<close>, its \<^verbatim>\<open>flow\<close> the client's \<^verbatim>\<open>flow\<close>; for VLESS its
  \<^verbatim>\<open>name\<close> is the client's \<^verbatim>\<open>email\<close>, for VMESS it has no \<^verbatim>\<open>name\<close> either (a string
  field is copied when it is a string, and \<^verbatim>\<open>email\<close> and \<^verbatim>\<open>flow\<close> only when not empty).
  The client of scenario A gives exactly \<^verbatim>\<open>{uuid, name, flow}\<close>.
\<close>

theorem client_identity_translation:
  assumes "xProtocol x = ''vless'' \<or> xProtocol x = ''vmess''"
    and "unmarshalMap (xSettings x) = Some settings"
    and "asArray (mapGet settings ''clients'') = Some clients"
  shows "map_option usersOf (convertXrayInboundToSingBox x)
           = Some (map (convertClient (xProtocol x)) (objectsOf clients))
       \<and> mapGet (convertClient (xProtocol x) c) ''email'' = None
       \<and> mapGet (convertClient (xProtocol x) c) ''uuid'' = map_option JStr (asString (mapGet c ''id''))
       \<and> mapGet (convertClient (xProtocol x) c) ''flow''
            = map_option JStr (asNonEmptyString (mapGet c ''flow''))
       \<and> (xProtocol x = ''vless'' \<longrightarrow>
            mapGet (convertClient (xProtocol x) c) ''name''
              = map_option JStr (asNonEmptyString (mapGet c ''email'')))
       \<and> (xProtocol x = ''vmess'' \<longrightarrow> mapGet (convertClient (xProtocol x) c) ''name'' = None)
       \<and> convertClient ''vless'' [(''id'', JStr u), (''email'', JStr (e # es)), (''flow'', JStr (f # fs))]
            = [(''uuid'', JStr u), (''name'', JStr (e # es)), (''flow'', JStr (f # fs))]"
  using users_of_translation [OF assms] convertClient_keys [of "xProtocol x" c]
    scenario_A_client [of u e es f fs]
  by auto

theorem client_identity_translation_witness:
  "map_option usersOf (convertXrayInboundToSingBox
      \<lparr>xListen = RawEmpty, xPort = 443, xProtocol = ''vless'',
       xSettings = RawJson (JObj [(''clients'', JArr [JObj [(''id'', JStr ''04b2592e''),
          (''email'', JStr ''kpichugin@icloud.com''), (''flow'', JStr ''xtls-rprx-vision'')]])]),
       xStreamSettings = RawEmpty, xTag = ''inbound-443'', xSniffing = RawEmpty\<rparr>)
     = Some [[(''uuid'', JStr ''04b2592e''), (''name'', JStr ''kpichugin@icloud.com''),
              (''flow'', JStr ''xtls-rprx-vision'')]]
   \<and> map_option usersOf (convertXrayInboundToSingBox
      \<lparr>xListen = RawEmpty, xPort = 443, xProtocol = ''vmess'',
       xSettings = RawJson (JObj [(''clients'', JArr [JObj [(''id'', JStr ''04b2592e''),
          (''email'', JStr ''kpichugin@icloud.com''), (''flow'', JStr ''xtls-rprx-vision'')]])]),
       xStreamSettings = RawEmpty, xTag = ''inbound-443'', xSniffing = RawEmpty\<rparr>)
     = Some [[(''uuid'', JStr ''04b2592e''), (''flow'', JStr ''xtls-rprx-vision'')]]"
  using client_identity_translation [of
      "\<lparr>xListen = RawEmpty, xPort = 443, xProtocol = ''vless'',
       xSettings = RawJson (JObj [(''clients'', JArr [JObj [(''id'', JStr ''04b2592e''),
          (''email'', JStr ''kpichugin@icloud.com''), (''flow'', JStr ''xtls-rprx-vision'')]])]),
       xStreamSettings = RawEmpty, xTag = ''inbound-443'', xSniffing = RawEmpty\<rparr>"
      "[(''clients'', JArr [JObj [(''id'', JStr ''04b2592e''),
          (''email'', JStr ''kpichugin@icloud.com''), (''flow'', JStr ''xtls-rprx-vision'')]])]"
      "[JObj [(''id'', JStr ''04b2592e''),
          (''email'', JStr ''kpichugin@icloud.com''), (''flow'', JStr ''xtls-rprx-vision'')]]"]
    client_identity_translation [of
      "\<lparr>xListen = RawEmpty, xPort = 443, xProtocol = ''vmess'',
       xSettings = RawJson (JObj [(''clients'', JArr [JObj [(''id'', JStr ''04b2592e''),
          (''email'', JStr ''kpichugin@icloud.com''), (''flow'', JStr ''xtls-rprx-vision'')]])]),
       xStreamSettings = RawEmpty, xTag = ''inbound-443'', xSniffing = RawEmpty\<rparr>"
      "[(''clients'', JArr [JObj [(''id'', JStr ''04b2592e''),
          (''email'', JStr ''kpichugin@icloud.com''), (''flow'', JStr ''xtls-rprx-vision'')]])]"
      "[JObj [(''id'', JStr ''04b2592e''),
          (''email'', JStr ''kpichugin@icloud.com''), (''flow'', JStr ''xtls-rprx-vision'')]]"]
  by (simp add: unmarshalMap_def asArray_def objectsOf_def map_filter_simps convertClient_def asString_def)

lemma sbTLS_convertSniffing [simp]: "sbTLS (convertSniffing s sb) = sbTLS sb"
  by (simp add: convertSniffing_def Let_def split: option.splits)

lemma stringsOf_strings [simp]: "stringsOf (map JStr ss) = ss"
  by (induction ss) simp_all

lemma tls_of_reality_inbound:
  assumes "xProtocol x \<in> set supportedProtocols"
    and "unmarshalMap (xStreamSettings x) = Some stream"
    and "asString (mapGet stream ''security'') = Some ''reality''"
    and "asObject (mapGet stream ''realitySettings'') = Some rs"
  shows "map_option sbTLS (convertXrayInboundToSingBox x)
           = Some (RawJson (marshal (JObj (convertReality rs))))"
proof -
  have p: "rawPresent (xStreamSettings x)"
    using assms(2) by (auto simp: rawPresent_def unmarshalMap_def)
  have s: "convertSecurity stream = Some (RawJson (marshal (JObj (convertReality rs))))"
    using assms(3,4) by (simp add: convertSecurity_def)
  have "sbTLS (convertStream (xStreamSettings x) sb) = RawJson (marshal (JObj (convertReality rs)))" for sb
    unfolding convertStream_def using p assms(2) s by (simp add: Let_def)
  then show ?thesis using assms(1)
    by (simp add: convertXrayInboundToSingBox_def Let_def)
qed

lemma reality_tls_fields:
  "jpath (marshal (JObj (convertReality rs))) [''enabled''] = Some (JBool True)"
  "jpath (marshal (JObj (convertReality rs))) [''server_name''] = map_option JStr (realityServer rs)"
  "jpath (marshal (JObj (convertReality rs))) [''reality'', ''enabled''] = Some (JBool True)"
  "jpath (marshal (JObj (convertReality rs))) [''reality'', ''server_name''] = None"
  "jpath (marshal (JObj (convertReality rs))) [''reality'', ''handshake'']
     = map_option (\<lambda>name. JObj [(''server'', JStr name)]) (realityServer rs)"
  "jpath (marshal (JObj (convertReality rs))) [''reality'', ''private_key'']
     = map_option JStr (asString (mapGet rs ''privateKey''))"
  by (auto simp: convertReality_def realityObject_def Let_def mapGet_marshal mapGet_mapPut
      split: option.splits)

lemma reality_short_id:
  assumes "asArray (mapGet rs ''shortIds'') = Some ids" "stringsOf ids \<noteq> []"
  shows "jpath (marshal (JObj (convertReality rs))) [''reality'', ''short_id'']
     = Some (JArr (map JStr (stringsOf ids)))"
proof -
  from assms(2) have "ids \<noteq> []" by auto
  with assms show ?thesis
    by (auto simp: convertReality_def realityObject_def Let_def mapGet_marshal mapGet_mapPut
      split: option.splits)
qed

lemma realityServer_cases:
  "asString (mapGet rs ''dest'') = Some d \<Longrightarrow> realityServer rs = Some d"
  "asString (mapGet rs ''dest'') = None \<Longrightarrow> asArray (mapGet rs ''serverNames'') = Some (JStr n # others)
     \<Longrightarrow> realityServer rs = Some n"
  by (simp_all add: realityServer_def asString_def)

lemma scenario_B_tls:
  "marshal (JObj (convertReality
      [(''dest'', JStr d), (''shortIds'', JArr [JStr a, JStr b]), (''privateKey'', JStr k)]))
   = JObj [(''enabled'', JBool True), (''server_name'', JStr d),
           (''reality'', JObj [(''enabled'', JBool True), (''handshake'', JObj [(''server'', JStr d)]),
                               (''private_key'', JStr k), (''short_id'', JArr [JStr a, JStr b])])]"
  by (simp add: convertReality_def realityObject_def realityServer_def asString_def asArray_def
      Let_def)

text \<open>
  Claim C4. For an inbound of a supported protocol whose stream settings decode to an
  object with \<^verbatim>\<open>security\<close> equal to \<^verbatim>\<open>reality\<close> and an object \<^verbatim>\<open>realitySettings\<close>,
  the TLS field of the translated inbound has \<^verbatim>\<open>enabled: true\<close>; its \<^verbatim>\<open>server_name\<close>,
  at the TLS level and not under \<^verbatim>\<open>reality\<close>, is \<^verbatim>\<open>dest\<close>, or the first element of
  \<^verbatim>\<open>serverNames\<close> when \<^verbatim>\<open>dest\<close> is no string; its \<^verbatim>\<open>reality\<close> object has
  \<^verbatim>\<open>enabled: true\<close>, the handshake \<^verbatim>\<open>{server: <server_name>}\<close>, the private key, and
  \<^verbatim>\<open>short_id\<close> as the array of the strings of \<^verbatim>\<open>shortIds\<close> (all of them when they are
  all strings). The input of scenario B gives exactly the TLS section of the spec.
\<close>

theorem reality_tls_translation:
  assumes "xProtocol x \<in> set supportedProtocols"
    and "unmarshalMap (xStreamSettings x) = Some stream"
    and "asString (mapGet stream ''security'') = Some ''reality''"
    and "asObject (mapGet stream ''realitySettings'') = Some rs"
  shows "map_option sbTLS (convertXrayInboundToSingBox x)
           = Some (RawJson (marshal (JObj (convertReality rs))))
       \<and> jpath (marshal (JObj (convertReality rs))) [''enabled''] = Some (JBool True)
       \<and> jpath (marshal (JObj (convertReality rs))) [''server_name'']
            = map_option JStr (realityServer rs)
       \<and> (asString (mapGet rs ''dest'') = Some d \<longrightarrow> realityServer rs = Some d)
       \<and> (asString (mapGet rs ''dest'') = None
            \<and> asArray (mapGet rs ''serverNames'') = Some (JStr n # others)
            \<longrightarrow> realityServer rs = Some n)
       \<and> jpath (marshal (JObj (convertReality rs))) [''reality'', ''enabled''] = Some (JBool True)
       \<and> jpath (marshal (JObj (convertReality rs))) [''reality'', ''server_name''] = None
       \<and> jpath (marshal (JObj (convertReality rs))) [''reality'', ''handshake'']
            = map_option (\<lambda>name. JObj [(''server'', JStr name)]) (realityServer rs)
       \<and> jpath (marshal (JObj (convertReality rs))) [''reality'', ''private_key'']
            = map_option JStr (asString (mapGet rs ''privateKey''))
       \<and> (asArray (mapGet rs ''shortIds'') = Some ids \<and> stringsOf ids \<noteq> [] \<longrightarrow>
            jpath (marshal (JObj (convertReality rs))) [''reality'', ''short_id'']
              = Some (JArr (map JStr (stringsOf ids))))
       \<and> stringsOf (map JStr ss) = ss
       \<and> marshal (JObj (convertReality
             [(''dest'', JStr dest), (''shortIds'', JArr [JStr a, JStr b]), (''privateKey'', JStr k)]))
           = JObj [(''enabled'', JBool True), (''server_name'', JStr dest),
                   (''reality'', JObj [(''enabled'', JBool True),
                                       (''handshake'', JObj [(''server'', JStr dest)]),
                                       (''private_key'', JStr k),
                                       (''short_id'', JArr [JStr a, JStr b])])]"
  using tls_of_reality_inbound [OF assms] reality_tls_fields [of rs]
    realityServer_cases [of rs d] realityServer_cases(2) [of rs n others]
    reality_short_id [of rs ids] stringsOf_strings [of ss] scenario_B_tls [of dest a b k]
  by blast

theorem reality_tls_translation_witness:
  "map_option sbTLS (convertXrayInboundToSingBox
      \<lparr>xListen = RawEmpty, xPort = 443, xProtocol = ''vless'', xSettings = RawEmpty,
       xStreamSettings = RawJson (JObj [(''network'', JStr ''tcp''), (''security'', JStr ''reality''),
         (''realitySettings'', JObj [(''dest'', JStr ''aws.amazon.com:443''),
            (''shortIds'', JArr [JStr ''837fc8948286'', JStr ''01'']),
            (''privateKey'', JStr ''EOx_0GUMZDiA'')])]),
       xTag = ''inbound-443'', xSniffing = RawEmpty\<rparr>)
   = Some (RawJson (JObj [(''enabled'', JBool True), (''server_name'', JStr ''aws.amazon.com:443''),
        (''reality'', JObj [(''enabled'', JBool True),
                            (''handshake'', JObj [(''server'', JStr ''aws.amazon.com:443'')]),
                            (''private_key'', JStr ''EOx_0GUMZDiA''),
                            (''short_id'', JArr [JStr ''837fc8948286'', JStr ''01''])])]))"
proof -
  let ?rs = "[(''dest'', JStr ''aws.amazon.com:443''),
              (''shortIds'', JArr [JStr ''837fc8948286'', JStr ''01'']),
              (''privateKey'', JStr ''EOx_0GUMZDiA'')]"
  let ?stream = "[(''network'', JStr ''tcp''), (''security'', JStr ''reality''),
                  (''realitySettings'', JObj ?rs)]"
  let ?x = "\<lparr>xListen = RawEmpty, xPort = 443, xProtocol = ''vless'', xSettings = RawEmpty,
             xStreamSettings = RawJson (JObj ?stream), xTag = ''inbound-443'',
             xSniffing = RawEmpty\<rparr>"
  have h1: "xProtocol ?x \<in> set supportedProtocols" by (simp add: supportedProtocols_def)
  have h2: "unmarshalMap (xStreamSettings ?x) = Some ?stream" by (simp add: unmarshalMap_def)
  have h3: "asString (mapGet ?stream ''security'') = Some ''reality''" by (simp add: asString_def)
  have h4: "asObject (mapGet ?stream ''realitySettings'') = Some ?rs" by (simp add: asObject_def)
  note t = reality_tls_translation [OF h1 h2 h3 h4, of "''aws.amazon.com:443''" "''none''" "[]"
      "[JStr ''837fc8948286'', JStr ''01'']" "[]" "''aws.amazon.com:443''" "''837fc8948286''"
      "''01''" "''EOx_0GUMZDiA''"]
  from t have a: "map_option sbTLS (convertXrayInboundToSingBox ?x)
      = Some (RawJson (marshal (JObj (convertReality ?rs))))" by (rule conjunct1)
  from t have b: "marshal (JObj (convertReality ?rs))
      = JObj [(''enabled'', JBool True), (''server_name'', JStr ''aws.amazon.com:443''),
        (''reality'', JObj [(''enabled'', JBool True),
                            (''handshake'', JObj [(''server'', JStr ''aws.amazon.com:443'')]),
                            (''private_key'', JStr ''EOx_0GUMZDiA''),
                            (''short_id'', JArr [JStr ''837fc8948286'', JStr ''01''])])]"
    by (elim conjE)
  show ?thesis by (simp only: a b)
qed

lemma geoipList_member:
  "JStr s \<in> set ip \<Longrightarrow> stripPrefix ''geoip:'' s = Some g \<Longrightarrow> geoipList ip \<noteq> []"
  by (induction ip rule: geoipList.induct) (auto split: option.splits)

lemma convertRules_kept:
  "convertRules h rules = map snd (filter fst (map (convertRule h) rules))"
proof -
  let ?res = "map (convertRule h) rules"
  show ?thesis
  proof (cases "length (filter fst ?res) = length rules")
    case True
    have "\<not> (\<exists>x\<in>set ?res. \<not> fst x)"
      using length_filter_less [of _ ?res fst] True by fastforce
    then have "filter fst ?res = ?res" by (simp add: filter_id_conv)
    with True show ?thesis by (simp add: convertRules_def Let_def)
  next
    case False
    then show ?thesis by (simp add: convertRules_def Let_def)
  qed
qed

lemma mapGet_renameRuleFields:
  "k \<notin> {''type'', ''outbound'', ''outboundTag'', ''inbound'', ''inboundTag''} \<Longrightarrow>
   mapGet (renameRuleFields ruleMap) k = mapGet ruleMap k"
  by (simp add: renameRuleFields_def Let_def mapGet_mapDel mapGet_mapPut split: option.splits)

lemma rule_prelude_ip:
  assumes "asArray (mapGet ruleMap ''ip'') = Some ip"
  shows "convertRule h (JObj ruleMap) =
     (if geoipList ip \<noteq> [] \<and> \<not> h then (False, JObj (renameRuleFields ruleMap))
      else
        (let r4 = (if geoipList ip \<noteq> []
                   then mapDel (mapPut (renameRuleFields ruleMap) ''geoip'' (JStrs (geoipList ip))) ''ip''
                   else renameRuleFields ruleMap);
             r5 = (if regularIPs ip \<noteq> [] then mapPut r4 ''ip'' (JArr (regularIPs ip))
                   else if geoipList ip = [] then mapDel r4 ''ip'' else r4)
         in geoipCheck h r5))"
  using assms by (simp add: convertRule_def convertRuleIp_def mapGet_renameRuleFields)

lemma geoip_rule_dropped:
  assumes "asArray (mapGet ruleMap ''ip'') = Some ip" "geoipList ip \<noteq> []"
  shows "fst (convertRule False (JObj ruleMap)) = False"
  using assms(2) by (simp add: rule_prelude_ip [OF assms(1)] Let_def)

lemma geoip_rule_rewritten:
  assumes "asArray (mapGet ruleMap ''ip'') = Some ip" "geoipList ip \<noteq> []"
  shows "fst (convertRule True (JObj ruleMap)) = True"
    and "jpath (marshal (snd (convertRule True (JObj ruleMap)))) [''geoip'']
           = Some (JArr (map JStr (geoipList ip)))"
    and "jpath (marshal (snd (convertRule True (JObj ruleMap)))) [''ip'']
           = (if regularIPs ip \<noteq> [] then Some (marshal (JArr (regularIPs ip))) else None)"
  using assms(2)
  by (auto simp: rule_prelude_ip [OF assms(1)] Let_def geoipCheck_def asArray_def asString_def
      mapGet_mapPut mapGet_mapDel mapGet_marshal)

lemma mapGet_dropDomainStrategy:
  "k \<noteq> ''domainStrategy'' \<Longrightarrow> k \<noteq> ''domain_strategy'' \<Longrightarrow>
   mapGet (dropDomainStrategy route0) k = mapGet route0 k"
  by (simp add: dropDomainStrategy_def Let_def mapGet_mapDel)

lemma route_rules_translated:
  assumes "unmarshalMap routerConfig = Some route0"
    and "asArray (mapGet route0 ''rules'') = Some rules"
  shows "rulesOf (convertRoute routerConfig)
     = Some (map (marshal \<circ> snd)
              (filter fst (map (convertRule (asObject (mapGet route0 ''geoip'') \<noteq> None)) rules)))"
proof -
  have p: "rawPresent routerConfig"
    using assms(1) by (auto simp: rawPresent_def unmarshalMap_def)
  have "convertRoute routerConfig = RawJson (marshal (JObj
      (mapPut (dropDomainStrategy route0) ''rules''
         (JArr (convertRules (asObject (mapGet route0 ''geoip'') \<noteq> None) rules)))))"
    using p assms
    by (auto simp: convertRoute_def Let_def mapGet_dropDomainStrategy reencode_def unmarshalMap_def
        asArray_def split: raw.splits json.splits)
  then show ?thesis
    by (simp add: rulesOf_def mapGet_marshal mapGet_mapPut asArray_def convertRules_kept)
qed

lemma scenario_C_route:
  "convertRoute (RawJson (JObj [(''rules'', JArr
      [JObj [(''type'', JStr ''field''), (''outboundTag'', JStr ''direct''),
             (''ip'', JArr [JStr ''geoip:private''])]])]))
   = RawJson (JObj [(''rules'', JArr [])])"
  by (simp add: convertRoute_def rawPresent_def unmarshalMap_def asObject_def asArray_def
      dropDomainStrategy_def convertRules_def convertRule_def convertRuleIp_def renameRuleFields_def asString_def mapDel_def
      reencode_def Let_def)

text \<open>
  Claim C6. The translated rule list of a route is the list of the rules the loop
  keeps, in order. A rule object whose \<^verbatim>\<open>ip\<close> array holds a string with the prefix
  \<^verbatim>\<open>geoip:\<close> is not kept when the route has no \<^verbatim>\<open>geoip\<close> object; when it has one, the
  rule is kept with the values after the prefix in its \<^verbatim>\<open>geoip\<close> array and the
  other addresses, if any, in \<^verbatim>\<open>ip\<close>. The route of scenario C translates to an empty
  rule list.
\<close>

theorem geoip_rule_translation:
  assumes "unmarshalMap routerConfig = Some route0"
    and "asArray (mapGet route0 ''rules'') = Some rules"
    and "asArray (mapGet ruleMap ''ip'') = Some ip"
    and "JStr s \<in> set ip" and "stripPrefix ''geoip:'' s = Some g"
  shows "rulesOf (convertRoute routerConfig)
           = Some (map (marshal \<circ> snd)
               (filter fst (map (convertRule (asObject (mapGet route0 ''geoip'') \<noteq> None)) rules)))
       \<and> fst (convertRule False (JObj ruleMap)) = False
       \<and> fst (convertRule True (JObj ruleMap)) = True
       \<and> jpath (marshal (snd (convertRule True (JObj ruleMap)))) [''geoip'']
            = Some (JArr (map JStr (geoipList ip)))
       \<and> g \<in> set (geoipList ip)
       \<and> jpath (marshal (snd (convertRule True (JObj ruleMap)))) [''ip'']
            = (if regularIPs ip \<noteq> [] then Some (marshal (JArr (regularIPs ip))) else None)
       \<and> convertRoute (RawJson (JObj [(''rules'', JArr
            [JObj [(''type'', JStr ''field''), (''outboundTag'', JStr ''direct''),
                   (''ip'', JArr [JStr ''geoip:private''])]])]))
          = RawJson (JObj [(''rules'', JArr [])])"
proof -
  have n: "geoipList ip \<noteq> []" by (rule geoipList_member [OF assms(4,5)])
  have m: "g \<in> set (geoipList ip)"
    using assms(4,5) by (induction ip rule: geoipList.induct) (auto split: option.splits)
  show ?thesis
    using route_rules_translated [OF assms(1,2)] geoip_rule_dropped [OF assms(3) n]
      geoip_rule_rewritten [OF assms(3) n] m scenario_C_route
    by simp
qed

theorem geoip_rule_translation_witness:
  "rulesOf (convertRoute (RawJson (JObj [(''geoip'', JObj [(''path'', JStr ''geoip.db'')]),
      (''rules'', JArr [JObj [(''type'', JStr ''field''), (''outboundTag'', JStr ''direct''),
                              (''ip'', JArr [JStr ''geoip:private''])]])])))
     = Some [JObj [(''outbound'', JStr ''direct''), (''geoip'', JArr [JStr ''private''])]]
   \<and> fst (convertRule False (JObj [(''type'', JStr ''field''), (''outboundTag'', JStr ''direct''),
                                    (''ip'', JArr [JStr ''geoip:private''])])) = False"
proof -
  let ?rule = "[(''type'', JStr ''field''), (''outboundTag'', JStr ''direct''),
                (''ip'', JArr [JStr ''geoip:private''])]"
  let ?route = "[(''geoip'', JObj [(''path'', JStr ''geoip.db'')]), (''rules'', JArr [JObj ?rule])]"
  have h1: "unmarshalMap (RawJson (JObj ?route)) = Some ?route" by (simp add: unmarshalMap_def)
  have h2: "asArray (mapGet ?route ''rules'') = Some [JObj ?rule]" by (simp add: asArray_def)
  have h3: "asArray (mapGet ?rule ''ip'') = Some [JStr ''geoip:private'']" by (simp add: asArray_def)
  have h4: "JStr ''geoip:private'' \<in> set [JStr ''geoip:private'']" by simp
  have h5: "stripPrefix ''geoip:'' ''geoip:private'' = Some ''private''" by simp
  note t = geoip_rule_translation [OF h1 h2 h3 h4 h5]
  from t have a: "rulesOf (convertRoute (RawJson (JObj ?route)))
      = Some (map (marshal \<circ> snd)
          (filter fst (map (convertRule (asObject (mapGet ?route ''geoip'') \<noteq> None)) [JObj ?rule])))"
    by (rule conjunct1)
  from t have b: "fst (convertRule False (JObj ?rule)) = False" by (elim conjE)
  have c: "map (marshal \<circ> snd)
          (filter fst (map (convertRule (asObject (mapGet ?route ''geoip'') \<noteq> None)) [JObj ?rule]))
      = [JObj [(''outbound'', JStr ''direct''), (''geoip'', JArr [JStr ''private''])]]"
    by (simp add: convertRule_def convertRuleIp_def renameRuleFields_def geoipCheck_def asObject_def
        asArray_def asString_def mapDel_def Let_def)
  show ?thesis using a b c by simp
qed

lemma objectsOf_objects [simp]: "objectsOf (map JObj ms) = ms"
  by (induction ms) (simp_all add: objectsOf_def map_filter_simps)

lemma objectsOf_map: "objectsOf (map (\<lambda>u. JObj (f u)) xs) = map f xs"
  by (induction xs) (simp_all add: objectsOf_def map_filter_simps)

lemma convertUser_plain: "plain (convertUser u)"
  by (auto simp: convertUser_def Let_def plain_def
      intro!: plain_mapPut [unfolded plain_def, rule_format] split: option.splits)

lemma marshal_clients:
  "map (marshal \<circ> (\<lambda>u. JObj (convertUser u))) us = map (\<lambda>u. JObj (convertUser u)) us"
  by (simp add: plain_marshal [OF convertUser_plain] comp_def)

lemma sbUsers_of_translation:
  assumes "xProtocol x = ''vless'' \<or> xProtocol x = ''vmess''"
    and "unmarshalMap (xSettings x) = Some settings"
    and "asArray (mapGet settings ''clients'') = Some clients"
    and "convertXrayInboundToSingBox x = Some sb"
  shows "sbType sb = xProtocol x"
    and "sbUsers sb = (if objectsOf clients = [] then RawEmpty
                       else RawJson (JArr (map JObj (map (convertClient (xProtocol x)) (objectsOf clients)))))"
proof -
  have sup: "xProtocol x \<in> set supportedProtocols"
    using assms(1) by (auto simp: supportedProtocols_def)
  from sup assms(4) show "sbType sb = xProtocol x"
    by (auto simp: convertXrayInboundToSingBox_def Let_def split: option.splits)
  from sup assms show "sbUsers sb = (if objectsOf clients = [] then RawEmpty
                       else RawJson (JArr (map JObj (map (convertClient (xProtocol x)) (objectsOf clients)))))"
    by (auto simp: convertXrayInboundToSingBox_def Let_def convertSettings_def
        convertClients_objects plain_marshal [OF convertClient_plain])
qed

lemma clients_after_round_trip:
  assumes "xProtocol x = ''vless'' \<or> xProtocol x = ''vmess''"
    and "unmarshalMap (xSettings x) = Some settings"
    and "asArray (mapGet settings ''clients'') = Some clients"
  shows "map_option clientsOf (roundTripInbound x)
     = Some (map (\<lambda>c. convertUser (convertClient (xProtocol x) c)) (objectsOf clients))"
proof -
  have sup: "xProtocol x \<in> set supportedProtocols"
    using assms(1) by (auto simp: supportedProtocols_def)
  then obtain sb where sb: "convertXrayInboundToSingBox x = Some sb"
    by (auto simp: convertXrayInboundToSingBox_def Let_def)
  note u = sbUsers_of_translation [OF assms sb]
  have "clientsOf (convertSingBoxInboundToXray sb)
      = map (\<lambda>c. convertUser (convertClient (xProtocol x) c)) (objectsOf clients)"
  proof (cases "objectsOf clients = []")
    case True
    with u assms(1) show ?thesis
      by (auto simp: clientsOf_def convertSingBoxInboundToXray_def settingsToXray_def Let_def
          unmarshalMap_def rawPresent_def asArray_def)
  next
    case False
    let ?us = "map (convertClient (xProtocol x)) (objectsOf clients)"
    have st: "settingsToXray sb = [(''clients'', JArr (map (\<lambda>u. JObj (convertUser u)) ?us))]"
      using u False assms(1) unmarshalMaps_objects [of ?us]
      by (auto simp: settingsToXray_def rawPresent_def)
    have m: "map (map_prod id marshal) (settingsToXray sb) = settingsToXray sb"
      unfolding st using marshal_clients [of ?us] by simp
    have "clientsOf (convertSingBoxInboundToXray sb) = map convertUser ?us"
      unfolding clientsOf_def convertSingBoxInboundToXray_def Let_def
      by (simp add: m unmarshalMap_def) (simp add: st asArray_def objectsOf_map comp_def)
    then show ?thesis by (simp add: comp_def)
  qed
  with sb show ?thesis by (simp add: roundTripInbound_def)
qed

lemma email_after_round_trip:
  "mapGet (convertUser (convertClient ''vless'' c)) ''email''
     = map_option JStr (asNonEmptyString (mapGet c ''email''))"
  "mapGet (convertUser (convertClient ''vmess'' c)) ''email'' = None"
  by (auto simp: convertUser_def Let_def convertClient_keys mapGet_mapPut asNonEmptyString_def
      asString_def split: option.splits)

lemma mapPut_not_empty [simp]: "mapPut m k v \<noteq> []"
  by (cases m) (auto split: if_splits)

lemma reality_after_translation_back:
  assumes "sbTLS sb = RawJson (JObj tlsConfig)"
    and "asObject (mapGet tlsConfig ''reality'') = Some reality"
  shows "rawPath (xStreamSettings (convertSingBoxInboundToXray sb)) [''security'']
           = Some (JStr ''reality'')"
    and "rawPath (xStreamSettings (convertSingBoxInboundToXray sb)) (''realitySettings'' # ks)
           = jpath (marshal (JObj (realityToXray tlsConfig reality))) ks"
proof -
  define st where "st = transportToXray (sbTransport sb) []"
  have s: "securityToXray (sbTLS sb) st
      = mapPut (mapPut st ''security'' (JStr ''reality''))
          ''realitySettings'' (JObj (realityToXray tlsConfig reality))"
    using assms by (simp add: securityToXray_def rawPresent_def unmarshalMap_def)
  have n: "securityToXray (sbTLS sb) st \<noteq> []"
    unfolding s by simp
  have x: "xStreamSettings (convertSingBoxInboundToXray sb)
      = RawJson (marshal (JObj (securityToXray (sbTLS sb) st)))"
    using n by (simp add: convertSingBoxInboundToXray_def Let_def st_def)
  show "rawPath (xStreamSettings (convertSingBoxInboundToXray sb)) [''security'']
           = Some (JStr ''reality'')"
    unfolding x s by (simp add: rawPath_def mapGet_marshal mapGet_mapPut)
  show "rawPath (xStreamSettings (convertSingBoxInboundToXray sb)) (''realitySettings'' # ks)
           = jpath (marshal (JObj (realityToXray tlsConfig reality))) ks"
    unfolding x s by (simp add: rawPath_def mapGet_marshal mapGet_mapPut)
qed

lemma marshalled_reality:
  "mapGet (map (map_prod id marshal) (convertReality rs)) ''server_name''
     = map_option JStr (realityServer rs)"
  "asObject (mapGet (map (map_prod id marshal) (convertReality rs)) ''reality'')
     = Some (map (map_prod id marshal) (realityObject rs))"
  by (auto simp: convertReality_def Let_def mapGet_marshal mapGet_mapPut asObject_def
      split: option.splits)

lemma marshalled_short_id:
  assumes "asArray (mapGet rs ''shortIds'') = Some ids" "stringsOf ids \<noteq> []"
  shows "mapGet (map (map_prod id marshal) (realityObject rs)) ''short_id''
           = Some (JArr (map JStr (stringsOf ids)))"
proof -
  from assms(2) have "ids \<noteq> []" by auto
  with assms show ?thesis
    by (auto simp: realityObject_def Let_def mapGet_marshal mapGet_mapPut split: option.splits)
qed

lemma realityToXray_dest:
  "mapGet tlsConfig ''server_name'' = map_option JStr name \<Longrightarrow>
   jpath (marshal (JObj (realityToXray tlsConfig reality))) [''dest''] = map_option JStr name"
  "mapGet tlsConfig ''server_name'' = map_option JStr name \<Longrightarrow>
   jpath (marshal (JObj (realityToXray tlsConfig reality))) [''serverNames'']
     = map_option (\<lambda>n. JArr [JStr n]) name"
  by (cases name; auto simp: realityToXray_def Let_def mapGet_marshal mapGet_mapPut asString_def
      split: option.splits list.splits)+

lemma realityToXray_shortIds:
  assumes "mapGet reality ''short_id'' = Some (JArr (map JStr ss))" "ss \<noteq> []"
  shows "jpath (marshal (JObj (realityToXray tlsConfig reality))) [''shortIds'']
           = Some (JArr (map JStr ss))"
proof -
  obtain a as where ss: "ss = a # as" using assms(2) by (cases ss) auto
  have "stringsOf (JStr a # map JStr as) = a # as"
    using stringsOf_strings [of "a # as"] by simp
  then show ?thesis
    using assms(1) unfolding ss
    by (auto simp: realityToXray_def Let_def mapGet_marshal mapGet_mapPut asArray_def
        split: option.splits)
qed

lemma reality_after_round_trip:
  assumes "xProtocol x \<in> set supportedProtocols"
    and "unmarshalMap (xStreamSettings x) = Some stream"
    and "asString (mapGet stream ''security'') = Some ''reality''"
    and "asObject (mapGet stream ''realitySettings'') = Some rs"
  shows "map_option (\<lambda>x'. rawPath (xStreamSettings x') [''security'']) (roundTripInbound x)
           = Some (Some (JStr ''reality''))"
    and "map_option (\<lambda>x'. rawPath (xStreamSettings x') [''realitySettings'', ''dest''])
           (roundTripInbound x) = Some (map_option JStr (realityServer rs))"
    and "asArray (mapGet rs ''shortIds'') = Some ids \<Longrightarrow> stringsOf ids \<noteq> [] \<Longrightarrow>
         map_option (\<lambda>x'. rawPath (xStreamSettings x') [''realitySettings'', ''shortIds''])
           (roundTripInbound x) = Some (Some (JArr (map JStr (stringsOf ids))))"
proof -
  obtain sb where sb: "convertXrayInboundToSingBox x = Some sb"
    using assms(1) by (auto simp: convertXrayInboundToSingBox_def Let_def)
  have tls: "sbTLS sb = RawJson (JObj (map (map_prod id marshal) (convertReality rs)))"
    using tls_of_reality_inbound [OF assms] sb by simp
  note rt = reality_after_translation_back [OF tls marshalled_reality(2)]
  show "map_option (\<lambda>x'. rawPath (xStreamSettings x') [''security'']) (roundTripInbound x)
           = Some (Some (JStr ''reality''))"
    using rt(1) sb by (simp add: roundTripInbound_def)
  show "map_option (\<lambda>x'. rawPath (xStreamSettings x') [''realitySettings'', ''dest''])
           (roundTripInbound x) = Some (map_option JStr (realityServer rs))"
    using rt(2) [of "[''dest'']"] realityToXray_dest(1) [OF marshalled_reality(1)] sb
    by (simp add: roundTripInbound_def)
  show "map_option (\<lambda>x'. rawPath (xStreamSettings x') [''realitySettings'', ''shortIds''])
           (roundTripInbound x) = Some (Some (JArr (map JStr (stringsOf ids))))"
    if "asArray (mapGet rs ''shortIds'') = Some ids" "stringsOf ids \<noteq> []"
    using rt(2) [of "[''shortIds'']"]
      realityToXray_shortIds [OF marshalled_short_id [OF that] that(2)] sb
    by (simp add: roundTripInbound_def)
qed

lemma geoipCheck_snd [simp]: "snd (geoipCheck h m) = JObj m"
  by (simp add: geoipCheck_def split: option.splits list.splits)

lemma type_renameRuleFields: "mapGet (renameRuleFields ruleMap) ''type'' = None"
  by (auto simp: renameRuleFields_def Let_def mapGet_mapDel mapGet_mapPut split: option.splits)

lemma rule_type_marker_dropped:
  "jpath (marshal (snd (convertRule h rule))) [''type''] = None"
proof (cases rule)
  case (JObj ruleMap)
  show ?thesis
    unfolding JObj using type_renameRuleFields [of ruleMap]
    by (auto simp: convertRule_def convertRuleIp_def Let_def mapGet_marshal mapGet_mapDel
        mapGet_mapPut split: option.splits)
qed (simp_all add: convertRule_def)

lemma route_after_round_trip: "RouterConfig (roundTrip cfg) = convertRoute (RouterConfig cfg)"
  by (auto simp: roundTrip_def ConvertSingBoxToXray_def ConvertXrayToSingBox_def rawPresent_def)

lemma rules_after_round_trip:
  assumes "unmarshalMap (RouterConfig cfg) = Some route0"
    and "asArray (mapGet route0 ''rules'') = Some rules"
  shows "rulesOf (RouterConfig (roundTrip cfg))
     = Some (map (marshal \<circ> snd)
              (filter fst (map (convertRule (asObject (mapGet route0 ''geoip'') \<noteq> None)) rules)))"
  unfolding route_after_round_trip by (rule route_rules_translated [OF assms])

lemma no_type_marker_after_round_trip:
  assumes "unmarshalMap (RouterConfig cfg) = Some route0"
    and "asArray (mapGet route0 ''rules'') = Some rules"
    and "rulesOf (RouterConfig (roundTrip cfg)) = Some rules'"
  shows "\<forall>r \<in> set rules'. jpath r [''type''] = None"
proof
  fix r assume "r \<in> set rules'"
  with rules_after_round_trip [OF assms(1,2)] assms(3)
  obtain h x where "r = marshal (snd (convertRule h x))" by auto
  then show "jpath r [''type''] = None" by (simp only: rule_type_marker_dropped)
qed

lemma inbounds_after_round_trip:
  "InboundConfigs (roundTrip cfg) = List.map_filter roundTripInbound (InboundConfigs cfg)"
proof -
  have "map f (List.map_filter g xs) = List.map_filter (\<lambda>x. map_option f (g x)) xs"
    for f :: "InboundConfig \<Rightarrow> XrayInbound" and g and xs :: "XrayInbound list"
    by (induction xs) (auto simp: map_filter_simps split: option.splits)
  then show ?thesis
    by (simp add: roundTrip_def ConvertSingBoxToXray_def ConvertXrayToSingBox_def
        roundTripInbound_def [abs_def])
qed

lemma round_trip_changes_example:
  "roundTrip \<lparr>LogConfig = RawJson (JObj [(''loglevel'', JStr ''warning'')]), DNSConfig = RawEmpty,
      InboundConfigs = [], OutboundConfigs = RawEmpty,
      RouterConfig = RawJson (JObj [(''rules'', JArr
         [JObj [(''type'', JStr ''field''), (''outboundTag'', JStr ''direct'')]])])\<rparr>
   = \<lparr>LogConfig = RawJson (JObj [(''loglevel'', JStr ''warning'')]), DNSConfig = RawEmpty,
      InboundConfigs = [], OutboundConfigs = RawEmpty,
      RouterConfig = RawJson (JObj [(''rules'', JArr [JObj [(''outbound'', JStr ''direct'')]])])\<rparr>"
  by (simp add: roundTrip_def ConvertSingBoxToXray_def ConvertXrayToSingBox_def convertLog_def
      logToXray_def convertOutbounds_def outboundsToXray_def convertRoute_def rawPresent_def
      unmarshalMap_def asString_def asNonEmptyString_def asObject_def asArray_def
      dropDomainStrategy_def convertRules_def convertRule_def convertRuleIp_def
      renameRuleFields_def geoipCheck_def mapDel_def map_filter_simps reencode_def rawElems_def
      Let_def)

text \<open>
  Claim C5. Translating Xray to sing-box and back is not the identity: a route rule
  comes back without its \<^verbatim>\<open>type\<close> marker. What comes back: the inbounds are the round
  trips of the translated inbounds; for a VLESS inbound the clients are the round trips
  of its client objects and each keeps its email (a non-empty string); for a Reality
  inbound the security is \<^verbatim>\<open>reality\<close>, \<^verbatim>\<open>dest\<close> is the server name the translation
  chose, and \<^verbatim>\<open>shortIds\<close> are the strings of the original \<^verbatim>\<open>shortIds\<close>. What is lost:
  no VMESS client has an \<^verbatim>\<open>email\<close> after the round trip; no rule has a \<^verbatim>\<open>type\<close> key;
  and without a \<^verbatim>\<open>geoip\<close> object in the route, the rules that come back are those the
  loop kept under \<^verbatim>\<open>hasGeoipConfig = false\<close>, which keeps no rule whose \<^verbatim>\<open>ip\<close> array
  holds a \<^verbatim>\<open>geoip:\<close> string.
\<close>

theorem round_trip_survivors:
  "roundTrip \<lparr>LogConfig = RawJson (JObj [(''loglevel'', JStr ''warning'')]), DNSConfig = RawEmpty,
      InboundConfigs = [], OutboundConfigs = RawEmpty,
      RouterConfig = RawJson (JObj [(''rules'', JArr
         [JObj [(''type'', JStr ''field''), (''outboundTag'', JStr ''direct'')]])])\<rparr>
   \<noteq> \<lparr>LogConfig = RawJson (JObj [(''loglevel'', JStr ''warning'')]), DNSConfig = RawEmpty,
      InboundConfigs = [], OutboundConfigs = RawEmpty,
      RouterConfig = RawJson (JObj [(''rules'', JArr
         [JObj [(''type'', JStr ''field''), (''outboundTag'', JStr ''direct'')]])])\<rparr>
   \<and> InboundConfigs (roundTrip cfg) = List.map_filter roundTripInbound (InboundConfigs cfg)
   \<and> ((xProtocol x = ''vless'' \<or> xProtocol x = ''vmess'')
        \<and> unmarshalMap (xSettings x) = Some settings
        \<and> asArray (mapGet settings ''clients'') = Some clients
       \<longrightarrow> map_option clientsOf (roundTripInbound x)
             = Some (map (\<lambda>c. convertUser (convertClient (xProtocol x) c)) (objectsOf clients)))
   \<and> mapGet (convertUser (convertClient ''vless'' c)) ''email''
        = map_option JStr (asNonEmptyString (mapGet c ''email''))
   \<and> mapGet (convertUser (convertClient ''vmess'' c)) ''email'' = None
   \<and> (xProtocol x \<in> set supportedProtocols
        \<and> unmarshalMap (xStreamSettings x) = Some stream
        \<and> asString (mapGet stream ''security'') = Some ''reality''
        \<and> asObject (mapGet stream ''realitySettings'') = Some rs
       \<longrightarrow> map_option (\<lambda>x'. rawPath (xStreamSettings x') [''security'']) (roundTripInbound x)
             = Some (Some (JStr ''reality''))
         \<and> map_option (\<lambda>x'. rawPath (xStreamSettings x') [''realitySettings'', ''dest''])
               (roundTripInbound x) = Some (map_option JStr (realityServer rs))
         \<and> (asArray (mapGet rs ''shortIds'') = Some ids \<and> stringsOf ids \<noteq> [] \<longrightarrow>
              map_option (\<lambda>x'. rawPath (xStreamSettings x') [''realitySettings'', ''shortIds''])
                (roundTripInbound x) = Some (Some (JArr (map JStr (stringsOf ids))))))
   \<and> (unmarshalMap (RouterConfig cfg) = Some route0
        \<and> asArray (mapGet route0 ''rules'') = Some rules
       \<longrightarrow> rulesOf (RouterConfig (roundTrip cfg))
             = Some (map (marshal \<circ> snd)
                 (filter fst (map (convertRule (asObject (mapGet route0 ''geoip'') \<noteq> None)) rules)))
         \<and> (\<forall>rules'. rulesOf (RouterConfig (roundTrip cfg)) = Some rules'
               \<longrightarrow> (\<forall>r \<in> set rules'. jpath r [''type''] = None)))
   \<and> (asArray (mapGet ruleMap ''ip'') = Some ip \<and> JStr s \<in> set ip
        \<and> stripPrefix ''geoip:'' s = Some g
       \<longrightarrow> fst (convertRule False (JObj ruleMap)) = False)"
  apply (intro conjI impI allI ballI; (elim conjE)?)
  subgoal using round_trip_changes_example by simp
  subgoal by (rule inbounds_after_round_trip)
  subgoal by (rule clients_after_round_trip)
  subgoal by (rule email_after_round_trip)
  subgoal by (rule email_after_round_trip)
  subgoal by (rule reality_after_round_trip)
  subgoal by (rule reality_after_round_trip)
  subgoal by (rule reality_after_round_trip)
  subgoal by (rule rules_after_round_trip)
  subgoal using no_type_marker_after_round_trip by blast
  subgoal by (rule geoip_rule_dropped [OF _ geoipList_member])
  done

theorem round_trip_survivors_witness:
  "map_option clientsOf (roundTripInbound
      \<lparr>xListen = RawEmpty, xPort = 443, xProtocol = ''vless'',
       xSettings = RawJson (JObj [(''clients'', JArr [JObj [(''id'', JStr ''04b2592e''),
          (''email'', JStr ''kpichugin@icloud.com''), (''flow'', JStr ''xtls-rprx-vision'')]])]),
       xStreamSettings = RawJson (JObj [(''security'', JStr ''reality''),
          (''realitySettings'', JObj [(''dest'', JStr ''aws.amazon.com:443''),
             (''shortIds'', JArr [JStr ''837fc8948286'', JStr ''01''])])]),
       xTag = ''inbound-443'', xSniffing = RawEmpty\<rparr>)
     = Some [[(''id'', JStr ''04b2592e''), (''email'', JStr ''kpichugin@icloud.com''),
              (''flow'', JStr ''xtls-rprx-vision'')]]
   \<and> map_option (\<lambda>x'. rawPath (xStreamSettings x') [''realitySettings'', ''dest''])
       (roundTripInbound
      \<lparr>xListen = RawEmpty, xPort = 443, xProtocol = ''vless'',
       xSettings = RawJson (JObj [(''clients'', JArr [JObj [(''id'', JStr ''04b2592e''),
          (''email'', JStr ''kpichugin@icloud.com''), (''flow'', JStr ''xtls-rprx-vision'')]])]),
       xStreamSettings = RawJson (JObj [(''security'', JStr ''reality''),
          (''realitySettings'', JObj [(''dest'', JStr ''aws.amazon.com:443''),
             (''shortIds'', JArr [JStr ''837fc8948286'', JStr ''01''])])]),
       xTag = ''inbound-443'', xSniffing = RawEmpty\<rparr>)
     = Some (Some (JStr ''aws.amazon.com:443''))
   \<and> map_option (\<lambda>x'. rawPath (xStreamSettings x') [''realitySettings'', ''shortIds''])
       (roundTripInbound
      \<lparr>xListen = RawEmpty, xPort = 443, xProtocol = ''vless'',
       xSettings = RawJson (JObj [(''clients'', JArr [JObj [(''id'', JStr ''04b2592e''),
          (''email'', JStr ''kpichugin@icloud.com''), (''flow'', JStr ''xtls-rprx-vision'')]])]),
       xStreamSettings = RawJson (JObj [(''security'', JStr ''reality''),
          (''realitySettings'', JObj [(''dest'', JStr ''aws.amazon.com:443''),
             (''shortIds'', JArr [JStr ''837fc8948286'', JStr ''01''])])]),
       xTag = ''inbound-443'', xSniffing = RawEmpty\<rparr>)
     = Some (Some (JArr [JStr ''837fc8948286'', JStr ''01'']))
   \<and> rulesOf (RouterConfig (roundTrip
      \<lparr>LogConfig = RawEmpty, DNSConfig = RawEmpty, InboundConfigs = [], OutboundConfigs = RawEmpty,
       RouterConfig = RawJson (JObj [(''rules'', JArr
         [JObj [(''type'', JStr ''field''), (''outboundTag'', JStr ''direct''),
                (''ip'', JArr [JStr ''geoip:private''])],
          JObj [(''type'', JStr ''field''), (''outboundTag'', JStr ''blocked'')]])])\<rparr>))
     = Some [JObj [(''outbound'', JStr ''blocked'')]]"
proof -
  let ?c = "[(''id'', JStr ''04b2592e''), (''email'', JStr ''kpichugin@icloud.com''),
             (''flow'', JStr ''xtls-rprx-vision'')]"
  let ?settings = "[(''clients'', JArr [JObj ?c])]"
  let ?rs = "[(''dest'', JStr ''aws.amazon.com:443''),
              (''shortIds'', JArr [JStr ''837fc8948286'', JStr ''01''])]"
  let ?stream = "[(''security'', JStr ''reality''), (''realitySettings'', JObj ?rs)]"
  let ?x = "\<lparr>xListen = RawEmpty, xPort = 443, xProtocol = ''vless'',
       xSettings = RawJson (JObj ?settings), xStreamSettings = RawJson (JObj ?stream),
       xTag = ''inbound-443'', xSniffing = RawEmpty\<rparr>"
  let ?geo = "[(''type'', JStr ''field''), (''outboundTag'', JStr ''direct''),
               (''ip'', JArr [JStr ''geoip:private''])]"
  let ?rules = "[JObj ?geo, JObj [(''type'', JStr ''field''), (''outboundTag'', JStr ''blocked'')]]"
  let ?route = "[(''rules'', JArr ?rules)]"
  let ?cfg = "\<lparr>LogConfig = RawEmpty, DNSConfig = RawEmpty, InboundConfigs = [],
               OutboundConfigs = RawEmpty, RouterConfig = RawJson (JObj ?route)\<rparr>"
  note t = round_trip_survivors [of ?cfg ?x ?settings "[JObj ?c]" ?c ?stream ?rs
      "[JStr ''837fc8948286'', JStr ''01'']" ?route ?rules ?geo "[JStr ''geoip:private'']"
      "''geoip:private''" "''private''"]
  have h1: "(xProtocol ?x = ''vless'' \<or> xProtocol ?x = ''vmess'')
        \<and> unmarshalMap (xSettings ?x) = Some ?settings
        \<and> asArray (mapGet ?settings ''clients'') = Some [JObj ?c]"
    by (simp add: unmarshalMap_def asArray_def)
  have h2: "xProtocol ?x \<in> set supportedProtocols
        \<and> unmarshalMap (xStreamSettings ?x) = Some ?stream
        \<and> asString (mapGet ?stream ''security'') = Some ''reality''
        \<and> asObject (mapGet ?stream ''realitySettings'') = Some ?rs"
    by (simp add: supportedProtocols_def unmarshalMap_def asString_def asObject_def)
  have h3: "asArray (mapGet ?rs ''shortIds'') = Some [JStr ''837fc8948286'', JStr ''01'']
        \<and> stringsOf [JStr ''837fc8948286'', JStr ''01''] \<noteq> []"
    by (simp add: asArray_def)
  have h4: "unmarshalMap (RouterConfig ?cfg) = Some ?route
        \<and> asArray (mapGet ?route ''rules'') = Some ?rules"
    by (simp add: unmarshalMap_def asArray_def)
  from t h1 have a: "map_option clientsOf (roundTripInbound ?x)
      = Some (map (\<lambda>c. convertUser (convertClient (xProtocol ?x) c)) (objectsOf [JObj ?c]))"
    by blast
  from t h2 have b: "map_option (\<lambda>x'. rawPath (xStreamSettings x') [''realitySettings'', ''dest''])
      (roundTripInbound ?x) = Some (map_option JStr (realityServer ?rs))"
    by blast
  from t h2 h3 have c: "map_option (\<lambda>x'. rawPath (xStreamSettings x') [''realitySettings'', ''shortIds''])
      (roundTripInbound ?x) = Some (Some (JArr (map JStr (stringsOf [JStr ''837fc8948286'', JStr ''01'']))))"
    by blast
  from t h4 have d: "rulesOf (RouterConfig (roundTrip ?cfg))
      = Some (map (marshal \<circ> snd)
          (filter fst (map (convertRule (asObject (mapGet ?route ''geoip'') \<noteq> None)) ?rules)))"
    by blast
  have a': "map (\<lambda>c. convertUser (convertClient (xProtocol ?x) c)) (objectsOf [JObj ?c]) = [?c]"
    by (simp add: objectsOf_def map_filter_simps convertUser_def convertClient_def asString_def
        asNonEmptyString_def Let_def)
  have b': "realityServer ?rs = Some ''aws.amazon.com:443''"
    by (simp add: realityServer_def asString_def)
  have d': "map (marshal \<circ> snd)
          (filter fst (map (convertRule (asObject (mapGet ?route ''geoip'') \<noteq> None)) ?rules))
      = [JObj [(''outbound'', JStr ''blocked'')]]"
    by (simp add: convertRule_def convertRuleIp_def renameRuleFields_def geoipCheck_def asObject_def
        asArray_def asString_def mapDel_def Let_def)
  show ?thesis
    unfolding a b c d a' b' d' by simp
qed

section \<open>Proofs: supervisor and service\<close>

lemma Stop_not_running:
  "\<not> IsRunning p \<Longrightarrow> Stop env p = (Err ''sing-box is not running'', p, [])"
  by (simp add: Stop_def)

lemma Start_running:
  "IsRunning p \<Longrightarrow> Start env p = (Err ''sing-box is already running'', p, [])"
  by (simp add: Start_def)

lemma Stop_no_panic: "fst (Stop env p) \<noteq> Panic"
  by (auto simp: Stop_def IsRunning_def Let_def split: option.splits)

text \<open>
  Claim C8. \<^verbatim>\<open>Stop\<close> on a process that is not running returns the error
  \<^verbatim>\<open>sing-box is not running\<close>, leaves the process record as it was and asks nothing of
  the operating system (no signal, no kill); in no state does \<^verbatim>\<open>Stop\<close> panic.
  \<^verbatim>\<open>Start\<close> on a running process returns the error \<^verbatim>\<open>sing-box is already running\<close>,
  leaves the record as it was and asks nothing of the operating system (no config file
  written, no process started).
\<close>

theorem supervisor_guards:
  "(\<not> IsRunning p \<longrightarrow> Stop senv p = (Err ''sing-box is not running'', p, []))
   \<and> fst (Stop senv p) \<noteq> Panic
   \<and> (IsRunning p \<longrightarrow> Start env p = (Err ''sing-box is already running'', p, []))"
  using Stop_not_running [of p senv] Start_running [of p env] Stop_no_panic [of senv p]
  by blast

theorem supervisor_guards_witness:
  "Stop \<lparr>isWindows = False, signalErr = None, exitsInTime = True, killErr = None,
          exitsAfterKill = True\<rparr>
     \<lparr>cmd = None, version = ''Unknown'', apiPort = 0,
      config = \<lparr>Log = RawEmpty, DNS = RawEmpty, NTP = RawEmpty, Inbounds = [],
                 Outbounds = RawEmpty, Route = RawEmpty, Experimental = RawEmpty\<rparr>,
      exitErr = None\<rparr>
   = (Err ''sing-box is not running'',
      \<lparr>cmd = None, version = ''Unknown'', apiPort = 0,
       config = \<lparr>Log = RawEmpty, DNS = RawEmpty, NTP = RawEmpty, Inbounds = [],
                  Outbounds = RawEmpty, Route = RawEmpty, Experimental = RawEmpty\<rparr>,
       exitErr = None\<rparr>, [])
   \<and> Start \<lparr>writeConfigErr = None, binaryPath = ''bin/sing-box'', binaryExists = True,
             checkErr = None, spawnedPid = Some 7, newVersion = ''1.12.17'', newApiPort = 9090\<rparr>
     \<lparr>cmd = Some \<lparr>cmdProcess = Some 5, cmdProcessState = None\<rparr>, version = ''1.12.17'',
      apiPort = 9090,
      config = \<lparr>Log = RawEmpty, DNS = RawEmpty, NTP = RawEmpty, Inbounds = [],
                 Outbounds = RawEmpty, Route = RawEmpty, Experimental = RawEmpty\<rparr>,
      exitErr = None\<rparr>
   = (Err ''sing-box is already running'',
      \<lparr>cmd = Some \<lparr>cmdProcess = Some 5, cmdProcessState = None\<rparr>, version = ''1.12.17'',
       apiPort = 9090,
       config = \<lparr>Log = RawEmpty, DNS = RawEmpty, NTP = RawEmpty, Inbounds = [],
                  Outbounds = RawEmpty, Route = RawEmpty, Experimental = RawEmpty\<rparr>,
       exitErr = None\<rparr>, [])"
proof -
  let ?cfg = "\<lparr>Log = RawEmpty, DNS = RawEmpty, NTP = RawEmpty, Inbounds = [],
                 Outbounds = RawEmpty, Route = RawEmpty, Experimental = RawEmpty\<rparr>"
  let ?p0 = "\<lparr>cmd = None, version = ''Unknown'', apiPort = 0, config = ?cfg, exitErr = None\<rparr>"
  let ?p1 = "\<lparr>cmd = Some \<lparr>cmdProcess = Some 5, cmdProcessState = None\<rparr>, version = ''1.12.17'',
      apiPort = 9090, config = ?cfg, exitErr = None\<rparr>"
  have h0: "\<not> IsRunning ?p0" by (simp add: IsRunning_def)
  have h1: "IsRunning ?p1" by (simp add: IsRunning_def)
  show ?thesis
    using supervisor_guards [of ?p0] supervisor_guards [of ?p1] h0 h1 by blast
qed

lemma StopSingBox_not_running:
  "\<not> IsSingBoxRunning s \<Longrightarrow> StopSingBox env s = (Ok, s\<lparr>isManuallyStoppedSB := True\<rparr>, [])"
  by (simp add: StopSingBox_def IsSingBoxRunning_def Let_def)

lemma StopSingBox_sets_flag: "isManuallyStoppedSB (fst (snd (StopSingBox env s)))"
  by (auto simp: StopSingBox_def Let_def split: option.splits prod.splits)

lemma process_Stop_errors:
  "\<not> IsSingBoxRunning s \<Longrightarrow> singboxProcess s = Some p \<Longrightarrow>
   fst (Stop env p) = Err ''sing-box is not running''"
  by (simp add: IsSingBoxRunning_def Stop_not_running)

lemma IsSingBoxRunning_flag:
  "IsSingBoxRunning (s\<lparr>isManuallyStoppedSB := b\<rparr>) = IsSingBoxRunning s"
  by (simp add: IsSingBoxRunning_def)

lemma Run_ignores_flag: "Run jenv (s\<lparr>isManuallyStoppedSB := b\<rparr>) t = Run jenv s t"
  by (simp only: Run_def IsSingBoxRunning_flag)

lemma Run_singbox_down:
  assumes "coreService jenv = Inr SingBoxCore" "multiNodeMode jenv \<noteq> Inr True"
    "\<not> IsSingBoxRunning s"
  shows "Run jenv s t = (if t + 1 > 1 then (0, True) else (t + 1, False))"
  using assms by (simp add: Run_def)

text \<open>
  Claim C10, as stated, fails in its last part. After \<^verbatim>\<open>StopSingBox\<close> on a service with
  no process the flag is set, and the health check, run twice with sing-box as the
  active core in single-node mode, counts the core as down and calls
  \<^verbatim>\<open>Restart(false)\<close> on the second run: it does not see a manual stop.
\<close>

theorem manual_stop_counterexample:
  "StopSingBox \<lparr>isWindows = False, signalErr = None, exitsInTime = True, killErr = None,
                 exitsAfterKill = True\<rparr>
     \<lparr>singboxProcess = None, isNeedSingBoxRestart = False, isManuallyStoppedSB = False,
      apiPool = []\<rparr>
   = (Ok, \<lparr>singboxProcess = None, isNeedSingBoxRestart = False, isManuallyStoppedSB = True,
            apiPool = []\<rparr>, [])
   \<and> Run \<lparr>multiNodeMode = Inr False, coreService = Inr SingBoxCore, xrayRunning = False,
           didXrayCrash = False\<rparr>
       \<lparr>singboxProcess = None, isNeedSingBoxRestart = False, isManuallyStoppedSB = True,
        apiPool = []\<rparr> 0 = (1, False)
   \<and> Run \<lparr>multiNodeMode = Inr False, coreService = Inr SingBoxCore, xrayRunning = False,
           didXrayCrash = False\<rparr>
       \<lparr>singboxProcess = None, isNeedSingBoxRestart = False, isManuallyStoppedSB = True,
        apiPool = []\<rparr> 1 = (0, True)"
  by (simp add: StopSingBox_def IsSingBoxRunning_def Run_def)

text \<open>
  Claim C10, amended. \<^verbatim>\<open>StopSingBox\<close>, which the adapter's \<^verbatim>\<open>Stop\<close> calls, returns
  \<^verbatim>\<open>nil\<close> when the process is not running, changes nothing but the manually-stopped
  flag and asks nothing of the operating system, where the process-level \<^verbatim>\<open>Stop\<close> of
  the same process returns an error; after any \<^verbatim>\<open>StopSingBox\<close> the flag is set. The
  health check does not read the flag: with sing-box as the active core, not running,
  in single-node mode, it counts the core as down whatever the flag says, and calls
  \<^verbatim>\<open>Restart(false)\<close> on the second such observation in a row.
\<close>

theorem service_stop_semantics:
  "(\<not> IsSingBoxRunning s \<longrightarrow>
       StopSingBox env s = (Ok, s\<lparr>isManuallyStoppedSB := True\<rparr>, []))
   \<and> (\<not> IsSingBoxRunning s \<and> singboxProcess s = Some p \<longrightarrow>
       fst (Stop env p) = Err ''sing-box is not running'')
   \<and> isManuallyStoppedSB (fst (snd (StopSingBox env s)))
   \<and> adapterStop env s = StopSingBox env s
   \<and> Run jenv (s\<lparr>isManuallyStoppedSB := b\<rparr>) t = Run jenv s t
   \<and> (coreService jenv = Inr SingBoxCore \<and> multiNodeMode jenv \<noteq> Inr True
        \<and> \<not> IsSingBoxRunning s \<longrightarrow>
       Run jenv s t = (if t + 1 > 1 then (0, True) else (t + 1, False)))"
  using StopSingBox_not_running [where s = s and env = env]
    process_Stop_errors [where s = s and p = p and env = env]
    StopSingBox_sets_flag [where s = s and env = env]
    Run_ignores_flag [where jenv = jenv and s = s and b = b and t = t]
    Run_singbox_down [where jenv = jenv and s = s and t = t]
  by (simp add: adapterStop_def)

theorem service_stop_semantics_witness:
  "StopSingBox \<lparr>isWindows = False, signalErr = None, exitsInTime = True, killErr = None,
                 exitsAfterKill = True\<rparr>
     \<lparr>singboxProcess = Some \<lparr>cmd = None, version = ''Unknown'', apiPort = 0,
         config = \<lparr>Log = RawEmpty, DNS = RawEmpty, NTP = RawEmpty, Inbounds = [],
                    Outbounds = RawEmpty, Route = RawEmpty, Experimental = RawEmpty\<rparr>,
         exitErr = None\<rparr>,
      isNeedSingBoxRestart = False, isManuallyStoppedSB = False, apiPool = []\<rparr>
   = (Ok, \<lparr>singboxProcess = Some \<lparr>cmd = None, version = ''Unknown'', apiPort = 0,
         config = \<lparr>Log = RawEmpty, DNS = RawEmpty, NTP = RawEmpty, Inbounds = [],
                    Outbounds = RawEmpty, Route = RawEmpty, Experimental = RawEmpty\<rparr>,
         exitErr = None\<rparr>,
      isNeedSingBoxRestart = False, isManuallyStoppedSB = True, apiPool = []\<rparr>, [])
   \<and> fst (Stop \<lparr>isWindows = False, signalErr = None, exitsInTime = True, killErr = None,
                 exitsAfterKill = True\<rparr>
        \<lparr>cmd = None, version = ''Unknown'', apiPort = 0,
         config = \<lparr>Log = RawEmpty, DNS = RawEmpty, NTP = RawEmpty, Inbounds = [],
                    Outbounds = RawEmpty, Route = RawEmpty, Experimental = RawEmpty\<rparr>,
         exitErr = None\<rparr>) = Err ''sing-box is not running''
   \<and> Run \<lparr>multiNodeMode = Inr False, coreService = Inr SingBoxCore, xrayRunning = False,
           didXrayCrash = False\<rparr>
       \<lparr>singboxProcess = Some \<lparr>cmd = None, version = ''Unknown'', apiPort = 0,
         config = \<lparr>Log = RawEmpty, DNS = RawEmpty, NTP = RawEmpty, Inbounds = [],
                    Outbounds = RawEmpty, Route = RawEmpty, Experimental = RawEmpty\<rparr>,
         exitErr = None\<rparr>,
        isNeedSingBoxRestart = False, isManuallyStoppedSB = False, apiPool = []\<rparr> 1 = (0, True)"
proof -
  let ?cfg = "\<lparr>Log = RawEmpty, DNS = RawEmpty, NTP = RawEmpty, Inbounds = [],
                 Outbounds = RawEmpty, Route = RawEmpty, Experimental = RawEmpty\<rparr>"
  let ?p = "\<lparr>cmd = None, version = ''Unknown'', apiPort = 0, config = ?cfg, exitErr = None\<rparr>"
  let ?s = "\<lparr>singboxProcess = Some ?p, isNeedSingBoxRestart = False,
             isManuallyStoppedSB = False, apiPool = []\<rparr>"
  let ?jenv = "\<lparr>multiNodeMode = Inr False, coreService = Inr SingBoxCore, xrayRunning = False,
           didXrayCrash = False\<rparr>"
  have h: "\<not> IsSingBoxRunning ?s" by (simp add: IsSingBoxRunning_def IsRunning_def)
  have j: "coreService ?jenv = Inr SingBoxCore \<and> multiNodeMode ?jenv \<noteq> Inr True" by simp
  show ?thesis
    using service_stop_semantics [where s = ?s and p = ?p and jenv = ?jenv and b = False and t = 1] h j
    by simp
qed

section \<open>Proofs: settings\<close>

lemma no_faults:
  assumes "faults st = []"
  shows "dbFirst key st = ((case mapGet (rows st) key of Some v \<Rightarrow> Row v | None \<Rightarrow> NotFound), st)"
    and "dbWrite key val st = (True, st\<lparr>rows := mapPut (rows st) key val\<rparr>)"
  using assms by (simp_all add: dbFirst_def dbWrite_def nextFault_def)

lemma saveSetting_no_faults:
  assumes "faults st = []"
  shows "saveSetting key val st = (True, st\<lparr>rows := mapPut (rows st) key val\<rparr>)"
  using assms
  by (cases "mapGet (rows st) key") (simp_all add: saveSetting_def getSetting_def no_faults)

lemma getString_after_save:
  assumes "faults st = []"
  shows "getString c key (st\<lparr>rows := mapPut (rows st) key val\<rparr>)
           = (Some val, st\<lparr>rows := mapPut (rows st) key val\<rparr>)"
  using assms by (simp add: getString_def getSetting_def no_faults(1) mapGet_mapPut_same)

lemma xray_template_reset:
  assumes "faults st = []"
    and "mapGet (rows st) ''xrayTemplateConfig'' = Some v"
    and "TrimSpace v = [] \<or> TrimSpace v = ''{}'' \<or> unmarshalXrayConfig c (TrimSpace v) = None"
  shows "EnsureXrayTemplateConfigValid c st
           = (True, st\<lparr>rows := mapPut (rows st) ''xrayTemplateConfig'' (defaultXrayTemplateConfig c)\<rparr>)"
  using assms
  by (auto simp: EnsureXrayTemplateConfigValid_def no_faults(1) saveSetting_no_faults Let_def)

lemma singbox_template_reset:
  assumes "faults st = []"
    and "mapGet (rows st) ''singboxTemplateConfig'' = Some v"
    and "TrimSpace v = [] \<or> TrimSpace v = ''{}'' \<or> unmarshalTemplateMap c (TrimSpace v) = None"
  shows "EnsureSingBoxTemplateConfigValid c st
           = (True, st\<lparr>rows := mapPut (rows st) ''singboxTemplateConfig''
                                   (defaultSingBoxTemplateConfig c)\<rparr>)"
  using assms
  by (auto simp: EnsureSingBoxTemplateConfigValid_def no_faults(1) saveSetting_no_faults Let_def)

text \<open>
  Claim C7. While the database answers, a stored Xray or sing-box template that is
  empty or the placeholder \<^verbatim>\<open>{}\<close> after trimming, or that does not decode, is replaced
  by the embedded default: the validation returns \<^verbatim>\<open>nil\<close>, the row holds the default,
  and a read of the setting after it returns the default. For sing-box the head of the
  configuration build then goes on with the decoded default template.
\<close>

theorem template_self_healing:
  assumes "faults st = []"
  shows "(mapGet (rows st) ''xrayTemplateConfig'' = Some v
          \<and> (TrimSpace v = [] \<or> TrimSpace v = ''{}'' \<or> unmarshalXrayConfig c (TrimSpace v) = None)
         \<longrightarrow> fst (EnsureXrayTemplateConfigValid c st) = True
           \<and> mapGet (rows (snd (EnsureXrayTemplateConfigValid c st))) ''xrayTemplateConfig''
               = Some (defaultXrayTemplateConfig c)
           \<and> fst (GetXrayConfigTemplate c (snd (EnsureXrayTemplateConfigValid c st)))
               = Some (defaultXrayTemplateConfig c))
       \<and> (mapGet (rows st) ''singboxTemplateConfig'' = Some v
          \<and> (TrimSpace v = [] \<or> TrimSpace v = ''{}'' \<or> unmarshalTemplateMap c (TrimSpace v) = None)
         \<longrightarrow> fst (EnsureSingBoxTemplateConfigValid c st) = True
           \<and> mapGet (rows (snd (EnsureSingBoxTemplateConfigValid c st))) ''singboxTemplateConfig''
               = Some (defaultSingBoxTemplateConfig c)
           \<and> fst (GetSingBoxConfigTemplate c (snd (EnsureSingBoxTemplateConfigValid c st)))
               = Some (defaultSingBoxTemplateConfig c)
           \<and> fst (loadSingBoxTemplate c st)
               = unmarshalSingBoxConfig c (defaultSingBoxTemplateConfig c))"
proof (intro conjI impI; elim conjE)
  assume a: "mapGet (rows st) ''xrayTemplateConfig'' = Some v"
    "TrimSpace v = [] \<or> TrimSpace v = ''{}'' \<or> unmarshalXrayConfig c (TrimSpace v) = None"
  note r = xray_template_reset [OF assms a]
  show "fst (EnsureXrayTemplateConfigValid c st) = True" by (simp add: r)
  show "mapGet (rows (snd (EnsureXrayTemplateConfigValid c st))) ''xrayTemplateConfig''
               = Some (defaultXrayTemplateConfig c)" by (simp add: r mapGet_mapPut_same)
  show "fst (GetXrayConfigTemplate c (snd (EnsureXrayTemplateConfigValid c st)))
               = Some (defaultXrayTemplateConfig c)"
    by (simp add: r GetXrayConfigTemplate_def getString_after_save [OF assms])
next
  assume a: "mapGet (rows st) ''singboxTemplateConfig'' = Some v"
    "TrimSpace v = [] \<or> TrimSpace v = ''{}'' \<or> unmarshalTemplateMap c (TrimSpace v) = None"
  note r = singbox_template_reset [OF assms a]
  show "fst (EnsureSingBoxTemplateConfigValid c st) = True" by (simp add: r)
  show "mapGet (rows (snd (EnsureSingBoxTemplateConfigValid c st))) ''singboxTemplateConfig''
               = Some (defaultSingBoxTemplateConfig c)" by (simp add: r mapGet_mapPut_same)
  show "fst (GetSingBoxConfigTemplate c (snd (EnsureSingBoxTemplateConfigValid c st)))
               = Some (defaultSingBoxTemplateConfig c)"
    by (simp add: r GetSingBoxConfigTemplate_def getString_after_save [OF assms])
  show "fst (loadSingBoxTemplate c st) = unmarshalSingBoxConfig c (defaultSingBoxTemplateConfig c)"
    by (simp add: loadSingBoxTemplate_def r GetSingBoxConfigTemplate_def
        getString_after_save [OF assms])
qed

theorem template_self_healing_witness:
  "fst (EnsureXrayTemplateConfigValid sampleCodec
      \<lparr>rows = [(''xrayTemplateConfig'', '' {} ''), (''singboxTemplateConfig'', ''oops'')],
       faults = []\<rparr>) = True
   \<and> fst (GetXrayConfigTemplate sampleCodec (snd (EnsureXrayTemplateConfigValid sampleCodec
      \<lparr>rows = [(''xrayTemplateConfig'', '' {} ''), (''singboxTemplateConfig'', ''oops'')],
       faults = []\<rparr>))) = Some (defaultXrayTemplateConfig sampleCodec)
   \<and> fst (EnsureSingBoxTemplateConfigValid sampleCodec
      \<lparr>rows = [(''xrayTemplateConfig'', '' {} ''), (''singboxTemplateConfig'', ''oops'')],
       faults = []\<rparr>) = True
   \<and> fst (GetSingBoxConfigTemplate sampleCodec (snd (EnsureSingBoxTemplateConfigValid sampleCodec
      \<lparr>rows = [(''xrayTemplateConfig'', '' {} ''), (''singboxTemplateConfig'', ''oops'')],
       faults = []\<rparr>))) = Some (defaultSingBoxTemplateConfig sampleCodec)"
proof -
  let ?st = "\<lparr>rows = [(''xrayTemplateConfig'', '' {} ''), (''singboxTemplateConfig'', ''oops'')],
       faults = []\<rparr>"
  have f: "faults ?st = []" by simp
  have t1: "TrimSpace '' {} '' = ''{}''" by code_simp
  have t2: "TrimSpace ''oops'' = ''oops''" by code_simp
  have h1: "mapGet (rows ?st) ''xrayTemplateConfig'' = Some '' {} ''
      \<and> (TrimSpace '' {} '' = [] \<or> TrimSpace '' {} '' = ''{}''
          \<or> unmarshalXrayConfig sampleCodec (TrimSpace '' {} '') = None)"
    by (simp add: t1)
  have h2: "mapGet (rows ?st) ''singboxTemplateConfig'' = Some ''oops''
      \<and> (TrimSpace ''oops'' = [] \<or> TrimSpace ''oops'' = ''{}''
          \<or> unmarshalTemplateMap sampleCodec (TrimSpace ''oops'') = None)"
    by (simp add: t2 sampleCodec_def)
  show ?thesis
    using template_self_healing [OF f, of "'' {} ''" sampleCodec]
      template_self_healing [OF f, of "''oops''" sampleCodec] h1 h2
    by blast
qed

section \<open>Proofs: the core switch\<close>

lemma rows_nextFault [simp]: "rows (snd (nextFault st)) = rows st"
  by (simp add: nextFault_def split: list.splits)

lemma rows_dbFirst [simp]: "rows (snd (dbFirst key st)) = rows st"
  using rows_nextFault [of st]
  by (cases "nextFault st") (auto simp: dbFirst_def split: bool.splits)

lemma dbFirst_result:
  "fst (dbFirst key st) = ReadErr
   \<or> fst (dbFirst key st) = (case mapGet (rows st) key of Some v \<Rightarrow> Row v | None \<Rightarrow> NotFound)"
  using rows_nextFault [of st]
  by (cases "nextFault st") (auto simp: dbFirst_def split: bool.splits)

lemma rows_dbWrite:
  "rows (snd (dbWrite key val st)) = (if fst (dbWrite key val st) then mapPut (rows st) key val else rows st)"
  using rows_nextFault [of st]
  by (cases "nextFault st") (auto simp: dbWrite_def split: bool.splits)

lemma rows_saveSetting:
  "rows (snd (saveSetting key val st))
     = (if fst (saveSetting key val st) then mapPut (rows st) key val else rows st)"
proof -
  obtain r st' where d: "dbFirst key st = (r, st')" by (cases "dbFirst key st")
  then have r: "rows st' = rows st" using rows_dbFirst [of key st] by simp
  show ?thesis
    using rows_dbWrite [of key val st'] r
    by (cases r) (simp_all add: saveSetting_def getSetting_def d)
qed

lemma rows_getString [simp]: "rows (snd (getString c key st)) = rows st"
proof -
  obtain r st' where d: "dbFirst key st = (r, st')" by (cases "dbFirst key st")
  then have "rows st' = rows st" using rows_dbFirst [of key st] by simp
  then show ?thesis by (cases r) (simp_all add: getString_def getSetting_def d)
qed

lemma getString_result:
  assumes "mapGet (rows st) key = Some v"
  shows "fst (getString c key st) = None \<or> fst (getString c key st) = Some v"
proof -
  obtain r st' where d: "dbFirst key st = (r, st')" by (cases "dbFirst key st")
  with dbFirst_result [of key st] assms have "r = ReadErr \<or> r = Row v" by simp
  then show ?thesis by (auto simp: getString_def getSetting_def d)
qed

lemma GetCoreType_valid:
  assumes "mapGet (rows st) ''coreType'' = Some t" "t = ''xray'' \<or> t = ''sing-box''"
  shows "rows (snd (snd (GetCoreType c st))) = rows st"
    and "fst (snd (GetCoreType c st)) \<Longrightarrow> fst (GetCoreType c st) = t"
proof -
  obtain r st' where g: "getString c ''coreType'' st = (r, st')"
    by (cases "getString c ''coreType'' st")
  then have rw: "rows st' = rows st" using rows_getString [of c "''coreType''" st] by simp
  from getString_result [OF assms(1), of c] g have r: "r = None \<or> r = Some t" by simp
  show "rows (snd (snd (GetCoreType c st))) = rows st"
    using r rw assms(2) by (auto simp: GetCoreType_def g)
  show "fst (GetCoreType c st) = t" if "fst (snd (GetCoreType c st))"
    using r that assms(2) by (auto simp: GetCoreType_def g)
qed

lemma GetCoreService_valid:
  assumes "mapGet (rows st) ''coreType'' = Some t" "t = ''xray'' \<or> t = ''sing-box''"
  shows "rows (snd (GetCoreService c st)) = rows st"
  using GetCoreType_valid(1) [OF assms, of c]
  by (cases "GetCoreType c st") (auto simp: GetCoreService_def)

lemma save_rows:
  "rows (snd (saveSetting k v st)) = rows st \<or> rows (snd (saveSetting k v st)) = mapPut (rows st) k v"
  using rows_saveSetting [of k v st] by (cases "fst (saveSetting k v st)") simp_all

lemma EnsureXray_rows:
  "rows (snd (EnsureXrayTemplateConfigValid c st)) = rows st
   \<or> rows (snd (EnsureXrayTemplateConfigValid c st))
       = rows (snd (EnsureXrayTemplateConfigValid c \<lparr>rows = rows st, faults = []\<rparr>))"
proof -
  let ?k = "''xrayTemplateConfig''"
  let ?st0 = "\<lparr>rows = rows st, faults = []\<rparr>"
  obtain r st' where d: "dbFirst ?k st = (r, st')" by (cases "dbFirst ?k st")
  then have r': "rows st' = rows st" using rows_dbFirst [of ?k st] by simp
  have d0: "dbFirst ?k ?st0 = ((case mapGet (rows st) ?k of Some v \<Rightarrow> Row v | None \<Rightarrow> NotFound), ?st0)"
    by (simp add: no_faults(1))
  have sv0: "rows (snd (saveSetting ?k v ?st0)) = mapPut (rows st) ?k v" for v
    by (simp add: saveSetting_no_faults)
  from dbFirst_result [of ?k st] d
  have "r = ReadErr \<or> r = (case mapGet (rows st) ?k of Some v \<Rightarrow> Row v | None \<Rightarrow> NotFound)" by simp
  then show ?thesis
  proof
    assume "r = ReadErr"
    then show ?thesis by (simp add: EnsureXrayTemplateConfigValid_def d r')
  next
    assume r: "r = (case mapGet (rows st) ?k of Some v \<Rightarrow> Row v | None \<Rightarrow> NotFound)"
    show ?thesis
      using save_rows [of ?k "defaultXrayTemplateConfig c" st'] r'
      by (cases "mapGet (rows st) ?k")
        (auto simp: EnsureXrayTemplateConfigValid_def d d0 r sv0 Let_def)
  qed
qed

lemma EnsureSingBox_rows:
  "rows (snd (EnsureSingBoxTemplateConfigValid c st)) = rows st
   \<or> rows (snd (EnsureSingBoxTemplateConfigValid c st))
       = rows (snd (EnsureSingBoxTemplateConfigValid c \<lparr>rows = rows st, faults = []\<rparr>))"
proof -
  let ?k = "''singboxTemplateConfig''"
  let ?st0 = "\<lparr>rows = rows st, faults = []\<rparr>"
  obtain r st' where d: "dbFirst ?k st = (r, st')" by (cases "dbFirst ?k st")
  then have r': "rows st' = rows st" using rows_dbFirst [of ?k st] by simp
  have d0: "dbFirst ?k ?st0 = ((case mapGet (rows st) ?k of Some v \<Rightarrow> Row v | None \<Rightarrow> NotFound), ?st0)"
    by (simp add: no_faults(1))
  have sv0: "rows (snd (saveSetting ?k v ?st0)) = mapPut (rows st) ?k v" for v
    by (simp add: saveSetting_no_faults)
  have sv: "rows (snd (saveSetting ?k v st')) = rows st
      \<or> rows (snd (saveSetting ?k v st')) = mapPut (rows st) ?k v" for v
    using save_rows [of ?k v st'] r' by simp
  from dbFirst_result [of ?k st] d
  have "r = ReadErr \<or> r = (case mapGet (rows st) ?k of Some v \<Rightarrow> Row v | None \<Rightarrow> NotFound)" by simp
  then show ?thesis
  proof
    assume "r = ReadErr"
    then show ?thesis by (simp add: EnsureSingBoxTemplateConfigValid_def d r')
  next
    assume r: "r = (case mapGet (rows st) ?k of Some v \<Rightarrow> Row v | None \<Rightarrow> NotFound)"
    show ?thesis
    proof (cases "mapGet (rows st) ?k")
      case None
      then show ?thesis using sv [of "defaultSingBoxTemplateConfig c"]
        by (auto simp: EnsureSingBoxTemplateConfigValid_def d d0 r sv0)
    next
      case (Some cur)
      show ?thesis
      proof (cases "TrimSpace cur = [] \<or> TrimSpace cur = ''{}''")
        case True
        then show ?thesis using sv [of "defaultSingBoxTemplateConfig c"] Some
          by (auto simp: EnsureSingBoxTemplateConfigValid_def d d0 r sv0 Let_def)
      next
        case False
        show ?thesis
        proof (cases "unmarshalTemplateMap c (TrimSpace cur)")
          case None
          then show ?thesis using sv [of "defaultSingBoxTemplateConfig c"] Some False
            by (auto simp: EnsureSingBoxTemplateConfigValid_def d d0 r sv0 Let_def)
        next
          case cfg: (Some cfg)
          show ?thesis
          proof (cases "cleanTemplate c cfg")
            case None
            then show ?thesis using Some False cfg r'
              by (auto simp: EnsureSingBoxTemplateConfigValid_def d d0 r sv0 Let_def)
          next
            case (Some cleaned)
            then show ?thesis using sv [of cleaned] \<open>mapGet (rows st) ?k = Some cur\<close> False cfg
              by (auto simp: EnsureSingBoxTemplateConfigValid_def d d0 r sv0 Let_def)
          qed
        qed
      qed
    qed
  qed
qed

lemma save_frame:
  "k \<noteq> key \<Longrightarrow> mapGet (rows (snd (saveSetting key v st))) k = mapGet (rows st) k"
  using save_rows [of key v st] by (auto simp: mapGet_mapPut_other)

lemma EnsureXray_frame:
  assumes "k \<noteq> ''xrayTemplateConfig''"
  shows "mapGet (rows (snd (EnsureXrayTemplateConfigValid c st))) k = mapGet (rows st) k"
proof -
  obtain r st' where d: "dbFirst ''xrayTemplateConfig'' st = (r, st')"
    by (cases "dbFirst ''xrayTemplateConfig'' st")
  then have r': "rows st' = rows st" using rows_dbFirst [of "''xrayTemplateConfig''" st] by simp
  show ?thesis
    using save_frame [OF assms, of _ st'] r'
    by (cases r) (auto simp: EnsureXrayTemplateConfigValid_def d Let_def)
qed

lemma EnsureSingBox_frame:
  assumes "k \<noteq> ''singboxTemplateConfig''"
  shows "mapGet (rows (snd (EnsureSingBoxTemplateConfigValid c st))) k = mapGet (rows st) k"
proof -
  obtain r st' where d: "dbFirst ''singboxTemplateConfig'' st = (r, st')"
    by (cases "dbFirst ''singboxTemplateConfig'' st")
  then have r': "rows st' = rows st" using rows_dbFirst [of "''singboxTemplateConfig''" st] by simp
  show ?thesis
    using save_frame [OF assms, of _ st'] r'
    by (cases r) (auto simp: EnsureSingBoxTemplateConfigValid_def d Let_def split: option.splits)
qed

lemma EnsureTemplate_rows:
  "rows (snd (EnsureTemplate c t st)) = rows st
   \<or> rows (snd (EnsureTemplate c t st)) = validated c t (rows st)"
  using EnsureXray_rows [of c st] EnsureSingBox_rows [of c st]
  by (simp add: EnsureTemplate_def validated_def)

lemma validated_frame:
  assumes "k \<noteq> templateKey t"
  shows "mapGet (validated c t rs) k = mapGet rs k"
  using assms EnsureXray_frame [of k c "\<lparr>rows = rs, faults = []\<rparr>"]
    EnsureSingBox_frame [of k c "\<lparr>rows = rs, faults = []\<rparr>"]
  by (auto simp: validated_def EnsureTemplate_def templateKey_def split: if_splits)

lemma EnsureXray_answering:
  assumes "mapGet rs ''xrayTemplateConfig'' = Some doc"
  shows "rows (snd (EnsureXrayTemplateConfigValid c \<lparr>rows = rs, faults = []\<rparr>))
    = (if TrimSpace doc = [] \<or> TrimSpace doc = ''{}'' \<or> unmarshalXrayConfig c (TrimSpace doc) = None
       then mapPut rs ''xrayTemplateConfig'' (defaultXrayTemplateConfig c) else rs)"
  using assms
  by (auto simp: EnsureXrayTemplateConfigValid_def no_faults(1) saveSetting_no_faults Let_def)

lemma EnsureSingBox_answering:
  assumes "mapGet rs ''singboxTemplateConfig'' = Some doc"
  shows "rows (snd (EnsureSingBoxTemplateConfigValid c \<lparr>rows = rs, faults = []\<rparr>))
    = (if TrimSpace doc = [] \<or> TrimSpace doc = ''{}''
       then mapPut rs ''singboxTemplateConfig'' (defaultSingBoxTemplateConfig c)
       else (case unmarshalTemplateMap c (TrimSpace doc) of
               None \<Rightarrow> mapPut rs ''singboxTemplateConfig'' (defaultSingBoxTemplateConfig c)
             | Some cfg \<Rightarrow>
                 (case cleanTemplate c cfg of
                    Some cleaned \<Rightarrow> mapPut rs ''singboxTemplateConfig'' cleaned
                  | None \<Rightarrow> rs)))"
proof -
  have d: "dbFirst ''singboxTemplateConfig'' \<lparr>rows = rs, faults = []\<rparr>
      = (Row doc, \<lparr>rows = rs, faults = []\<rparr>)"
    using assms by (simp add: no_faults(1))
  show ?thesis
    unfolding EnsureSingBoxTemplateConfigValid_def d
    by (simp add: saveSetting_no_faults Let_def split: option.splits)
qed

lemma validated_text:
  assumes "mapGet rs (templateKey t) = Some doc"
  shows "mapGet (validated c t rs) (templateKey t) = validatedText c t doc"
proof (cases "t = ''xray''")
  case True
  have a: "mapGet rs ''xrayTemplateConfig'' = Some doc" using assms True by (simp add: templateKey_def)
  have b: "mapGet [(''xrayTemplateConfig'', doc)] ''xrayTemplateConfig'' = Some doc" by simp
  show ?thesis
    unfolding validatedText_def validated_def EnsureTemplate_def
    using a by (simp add: True templateKey_def EnsureXray_answering [OF a]
        EnsureXray_answering [OF b] mapGet_mapPut_same)
next
  case False
  have a: "mapGet rs ''singboxTemplateConfig'' = Some doc"
    using assms False by (simp add: templateKey_def)
  have b: "mapGet [(''singboxTemplateConfig'', doc)] ''singboxTemplateConfig'' = Some doc" by simp
  show ?thesis
    unfolding validatedText_def validated_def EnsureTemplate_def
    using a by (simp add: False templateKey_def EnsureSingBox_answering [OF a]
        EnsureSingBox_answering [OF b] mapGet_mapPut_same split: option.splits)
qed

lemma templateKey_not_coreType [simp]:
  "templateKey t \<noteq> ''coreType''" "''coreType'' \<noteq> templateKey t"
  by (simp_all add: templateKey_def)

lemma loadSingBoxTemplate_rows:
  "touched c ''sing-box'' (rows st) (rows (snd (loadSingBoxTemplate c st)))"
proof -
  obtain ok st1 where e: "EnsureSingBoxTemplateConfigValid c st = (ok, st1)"
    by (cases "EnsureSingBoxTemplateConfigValid c st")
  have "rows (snd (getString c ''singboxTemplateConfig'' st1)) = rows st1" by simp
  moreover have "rows st1 = rows st \<or> rows st1 = validated c ''sing-box'' (rows st)"
    using EnsureTemplate_rows [of c "''sing-box''" st] e by (simp add: EnsureTemplate_def)
  ultimately show ?thesis
    by (cases "getString c ''singboxTemplateConfig'' st1")
      (auto simp: touched_def loadSingBoxTemplate_def e GetSingBoxConfigTemplate_def
        split: option.splits)
qed

lemma loadXrayTemplate_rows:
  "touched c ''xray'' (rows st) (rows (snd (loadXrayTemplate c st)))"
proof -
  obtain ok st1 where e: "EnsureXrayTemplateConfigValid c st = (ok, st1)"
    by (cases "EnsureXrayTemplateConfigValid c st")
  have "rows (snd (getString c ''xrayTemplateConfig'' st1)) = rows st1" by simp
  moreover have "rows st1 = rows st \<or> rows st1 = validated c ''xray'' (rows st)"
    using EnsureTemplate_rows [of c "''xray''" st] e by (simp add: EnsureTemplate_def)
  ultimately show ?thesis
    by (cases "getString c ''xrayTemplateConfig'' st1")
      (auto simp: touched_def loadXrayTemplate_def e GetXrayConfigTemplate_def
        split: option.splits)
qed

lemma GetSingBoxConfig_rows:
  "touched c ''sing-box'' (rows st) (rows (snd (GetSingBoxConfig c env st)))"
  using loadSingBoxTemplate_rows [of c st]
  by (cases "loadSingBoxTemplate c st") (auto simp: GetSingBoxConfig_def split: option.splits)

lemma GetXrayConfig_rows:
  "touched c ''xray'' (rows st) (rows (snd (GetXrayConfig c env st)))"
  using loadXrayTemplate_rows [of c st]
  by (cases "loadXrayTemplate c st") (auto simp: GetXrayConfig_def split: option.splits)

lemma rows_getBool [simp]: "rows (snd (getBool c key st)) = rows st"
  using rows_getString [of c key st]
  by (cases "getString c key st") (auto simp: getBool_def split: option.splits)

lemma RestartXray_rows:
  "touched c ''xray'' (rows st) (rows (snd (RestartXray c env st)))"
  using GetXrayConfig_rows [of c st env]
  by (cases "GetXrayConfig c env st") (auto simp: RestartXray_def split: sum.splits)

lemma RestartSingBox_rows:
  "touched c ''sing-box'' (rows st) (rows (snd (RestartSingBox c env st)))"
proof -
  obtain m st1 where g: "GetMultiNodeMode c st = (m, st1)" by (cases "GetMultiNodeMode c st")
  then have r1: "rows st1 = rows st"
    using rows_getBool [of c "''multiNodeMode''" st] by (simp add: GetMultiNodeMode_def)
  show ?thesis
  proof (cases "m = Some True")
    case True
    show ?thesis
      using loadSingBoxTemplate_rows [of c st1] r1 True
      by (cases "loadSingBoxTemplate c st1")
        (auto simp: RestartSingBox_def g restartSingBoxMultiMode_def touched_def
          split: option.splits)
  next
    case False
    show ?thesis
      using GetSingBoxConfig_rows [of c st1 env] r1 False
      by (cases "GetSingBoxConfig c env st1")
        (auto simp: RestartSingBox_def g split: sum.splits)
  qed
qed

lemma Restart_rows:
  "touched c (coreTypeOf core) (rows st) (rows (snd (Restart c env core st)))"
  using RestartXray_rows [of c st env] RestartSingBox_rows [of c st env]
  by (cases core) (simp_all add: Restart_def)

lemma Restart_fails:
  assumes "\<forall>cfg. xrayStart env cfg \<noteq> None" "\<forall>cfg. singboxStart env cfg \<noteq> None"
    "\<forall>cfg. applyToNodes env cfg \<noteq> None"
  shows "fst (Restart c env core st) \<noteq> None"
proof (cases core)
  case XrayCore
  show ?thesis using assms(1)
    by (cases "GetXrayConfig c env st")
      (auto simp: XrayCore Restart_def RestartXray_def split: sum.splits)
next
  case SingBoxCore
  obtain m st1 where g: "GetMultiNodeMode c st = (m, st1)" by (cases "GetMultiNodeMode c st")
  show ?thesis
  proof (cases "m = Some True")
    case True
    then show ?thesis using assms(3)
      by (cases "loadSingBoxTemplate c st1")
        (auto simp: SingBoxCore Restart_def RestartSingBox_def g restartSingBoxMultiMode_def
          split: option.splits)
  next
    case False
    then show ?thesis using assms(2)
      by (cases "GetSingBoxConfig c env st1")
        (auto simp: SingBoxCore Restart_def RestartSingBox_def g split: sum.splits)
  qed
qed

lemma currentConfig_rows:
  assumes "oldType = ''xray'' \<or> oldType = ''sing-box''"
  shows "touched c oldType (rows st) (rows (snd (currentConfig c env oldType st)))"
    and "fst (currentConfig c env oldType st) = Inl e \<Longrightarrow> earlyError e"
proof -
  show "touched c oldType (rows st) (rows (snd (currentConfig c env oldType st)))"
    using assms GetXrayConfig_rows [of c st env] GetSingBoxConfig_rows [of c st env]
    by (cases "GetXrayConfig c env st"; cases "GetSingBoxConfig c env st")
      (auto simp: currentConfig_def split: sum.splits)
  show "earlyError e" if "fst (currentConfig c env oldType st) = Inl e"
    using that
    by (cases "GetXrayConfig c env st"; cases "GetSingBoxConfig c env st")
      (auto simp: currentConfig_def split: sum.splits if_splits)
qed

lemma GetCoreService_kind:
  assumes "mapGet (rows st) ''coreType'' = Some t" "t = ''xray'' \<or> t = ''sing-box''"
  shows "fst (GetCoreService c st) = None \<or> (\<exists>core. fst (GetCoreService c st) = Some core \<and> coreTypeOf core = t)"
  using GetCoreType_valid(2) [OF assms, of c] assms(2)
  by (cases "GetCoreType c st") (auto simp: GetCoreService_def)

lemma touched_frame:
  "touched c t rs rs' \<Longrightarrow> k \<noteq> templateKey t \<Longrightarrow> mapGet rs' k = mapGet rs k"
  by (auto simp: touched_def validated_frame)

lemma touched_text:
  "touched c t rs rs' \<Longrightarrow> mapGet rs (templateKey t) = Some doc \<Longrightarrow>
   mapGet rs' (templateKey t) = Some doc \<or> mapGet rs' (templateKey t) = validatedText c t doc"
  by (auto simp: touched_def validated_text)

lemma persistTemplate_cases:
  "(fst (persistTemplate c newType newConfig st) = None
      \<and> templateText c newConfig \<noteq> None
      \<and> rows (snd (persistTemplate c newType newConfig st))
          = mapPut (rows st) (templateKey newType) (the (templateText c newConfig)))
   \<or> ((fst (persistTemplate c newType newConfig st) = Some MarshalFailed
          \<and> templateText c newConfig = None
        \<or> fst (persistTemplate c newType newConfig st) = Some SaveTemplateFailed)
      \<and> rows (snd (persistTemplate c newType newConfig st)) = rows st)"
proof (cases "templateText c newConfig")
  case None
  then show ?thesis by (simp add: persistTemplate_def)
next
  case (Some doc)
  obtain ok st' where sv: "saveSetting (templateKey newType) doc st = (ok, st')"
    by (cases "saveSetting (templateKey newType) doc st")
  with rows_saveSetting [of "templateKey newType" doc st]
  have "rows st' = (if ok then mapPut (rows st) (templateKey newType) doc else rows st)" by simp
  then show ?thesis by (cases ok) (simp_all add: persistTemplate_def Some sv)
qed

lemma finishSwitch_cases:
  assumes "newType = ''xray'' \<or> newType = ''sing-box''"
    and "mapGet (rows st) (templateKey newType) = Some doc"
    and "finishSwitch c env newType st = (res, st')"
  shows "(res = Some SetCoreTypeFailed \<and> rows st' = rows st)
       \<or> ((res = Some GetNewCoreFailed \<or> (\<exists>e. res = Some (RestartFailed e))
            \<or> (res = None
                \<and> (\<exists>core s. coreTypeOf core = newType \<and> fst (Restart c env core s) = None)))
          \<and> mapGet (rows st') ''coreType'' = Some newType
          \<and> (mapGet (rows st') (templateKey newType) = Some doc
              \<or> mapGet (rows st') (templateKey newType) = validatedText c newType doc))"
proof -
  obtain ok st1 where sc: "SetCoreType newType st = (ok, st1)" by (cases "SetCoreType newType st")
  have sv: "saveSetting ''coreType'' newType st = (ok, st1)"
    using sc assms(1) by (auto simp: SetCoreType_def)
  have r1: "rows st1 = (if ok then mapPut (rows st) ''coreType'' newType else rows st)"
    using rows_saveSetting [of "''coreType''" newType st] sv by simp
  show ?thesis
  proof (cases ok)
    case False
    with r1 assms(3) show ?thesis by (auto simp: finishSwitch_def sc)
  next
    case True
    with r1 have m: "mapGet (rows st1) ''coreType'' = Some newType"
      by (simp add: mapGet_mapPut_same)
    from True r1 assms(2) have t1: "mapGet (rows st1) (templateKey newType) = Some doc"
      by (simp add: mapGet_mapPut_other)
    obtain k st2 where gs: "GetCoreService c st1 = (k, st2)" by (cases "GetCoreService c st1")
    with GetCoreService_valid [OF m assms(1), of c] have r2: "rows st2 = rows st1" by simp
    show ?thesis
    proof (cases k)
      case None
      with assms(3) True gs have "res = Some GetNewCoreFailed" "st' = st2"
        by (auto simp: finishSwitch_def sc)
      with m t1 r2 show ?thesis by simp
    next
      case (Some core)
      with GetCoreService_kind [OF m assms(1), of c] gs have ct: "coreTypeOf core = newType" by simp
      obtain rr st3 where rs: "Restart c env core st2 = (rr, st3)" by (cases "Restart c env core st2")
      from Restart_rows [of c core st2 env] rs ct r2
      have tc: "touched c newType (rows st1) (rows st3)" by simp
      have res: "res = (case rr of Some e \<Rightarrow> Some (RestartFailed e) | None \<Rightarrow> None)" "st' = st3"
        using assms(3) True gs Some rs by (auto simp: finishSwitch_def sc split: option.splits)
      have f: "\<exists>core s. coreTypeOf core = newType \<and> fst (Restart c env core s) = None"
        if "rr = None"
        using that rs ct by (intro exI [of _ core] exI [of _ st2]) simp
      have k: "''coreType'' \<noteq> templateKey newType" by simp
      from touched_frame [OF tc k] m have m3: "mapGet (rows st3) ''coreType'' = Some newType" by simp
      note t3 = touched_text [OF tc t1]
      show ?thesis
        using res f m3 t3 by (cases rr) auto
    qed
  qed
qed

lemma switch_trace:
  assumes "mapGet (rows st) ''coreType'' = Some oldType"
    and "oldType = ''xray'' \<or> oldType = ''sing-box''"
    and "newType \<noteq> oldType"
    and "SwitchCoreWithConversion c env newType st = (res, st')"
  shows "(\<exists>err. res = Some err \<and> earlyError err \<and> touched c oldType (rows st) (rows st'))
       \<or> (\<exists>doc. translatedText c env newType st = Some doc
            \<and> ((res = Some SetCoreTypeFailed \<and> mapGet (rows st') ''coreType'' = Some oldType)
               \<or> ((res = Some GetNewCoreFailed \<or> (\<exists>e. res = Some (RestartFailed e))
                    \<or> (res = None
                        \<and> (\<exists>core s. coreTypeOf core = newType
                               \<and> fst (Restart c env core s) = None)))
                  \<and> mapGet (rows st') ''coreType'' = Some newType
                  \<and> (mapGet (rows st') (templateKey newType) = Some doc
                      \<or> mapGet (rows st') (templateKey newType) = validatedText c newType doc))))"
    and "translatedText c env newType st = None \<Longrightarrow> \<exists>err. res = Some err \<and> earlyError err"
proof -
  obtain t ok st1 where g: "GetCoreType c st = (t, ok, st1)" by (cases "GetCoreType c st")
  have r1: "rows st1 = rows st" using GetCoreType_valid(1) [OF assms(1,2), of c] g by simp
  have "((\<exists>err. res = Some err \<and> earlyError err \<and> touched c oldType (rows st) (rows st'))
          \<and> (translatedText c env newType st = None \<or> res = Some SaveTemplateFailed))
       \<or> (\<exists>doc. translatedText c env newType st = Some doc
            \<and> ((res = Some SetCoreTypeFailed \<and> mapGet (rows st') ''coreType'' = Some oldType)
               \<or> ((res = Some GetNewCoreFailed \<or> (\<exists>e. res = Some (RestartFailed e))
                    \<or> (res = None
                        \<and> (\<exists>core s. coreTypeOf core = newType
                               \<and> fst (Restart c env core s) = None)))
                  \<and> mapGet (rows st') ''coreType'' = Some newType
                  \<and> (mapGet (rows st') (templateKey newType) = Some doc
                      \<or> mapGet (rows st') (templateKey newType) = validatedText c newType doc))))"
  proof (cases ok)
    case False
    with g r1 assms(4) show ?thesis
      by (auto simp: SwitchCoreWithConversion_def translatedText_def touched_def)
  next
    case True
    with GetCoreType_valid(2) [OF assms(1,2), of c] g have t: "t = oldType" by simp
    obtain cur st2 where cc: "currentConfig c env oldType st1 = (cur, st2)"
      by (cases "currentConfig c env oldType st1")
    from currentConfig_rows(1) [OF assms(2), of c st1 env] cc r1
    have t2: "touched c oldType (rows st) (rows st2)" by simp
    have k: "''coreType'' \<noteq> templateKey oldType" by simp
    from touched_frame [OF t2 k] assms(1)
    have m2: "mapGet (rows st2) ''coreType'' = Some oldType" by simp
    show ?thesis
    proof (cases cur)
      case (Inl e)
      with currentConfig_rows(2) [OF assms(2), of c env st1 e] cc have "earlyError e" by simp
      with Inl g True t cc t2 assms(3,4) show ?thesis
        by (auto simp: SwitchCoreWithConversion_def translatedText_def)
    next
      case (Inr current)
      obtain k' st3 where gs: "GetCoreService c st2 = (k', st3)" by (cases "GetCoreService c st2")
      have r3: "rows st3 = rows st2" using GetCoreService_valid [OF m2 assms(2), of c] gs by simp
      show ?thesis
      proof (cases "translate oldType newType current")
        case (Inl e)
        then have "earlyError e"
          by (auto simp: translate_def split: if_splits anyConfig.splits)
        with Inl Inr g True t cc gs r3 t2 assms(3,4) show ?thesis
          by (auto simp: SwitchCoreWithConversion_def translatedText_def)
      next
        case tr: (Inr newConfig)
        then have nt: "newType = ''xray'' \<or> newType = ''sing-box''"
          by (auto simp: translate_def split: if_splits)
        have tt: "translatedText c env newType st = templateText c newConfig"
          by (simp add: translatedText_def g True t cc Inr tr)
        obtain pr st4 where p: "persistTemplate c newType newConfig st3 = (pr, st4)"
          by (cases "persistTemplate c newType newConfig st3")
        have sw: "(res, st')
            = (case pr of Some e \<Rightarrow> (Some e, st4) | None \<Rightarrow> finishSwitch c env newType st4)"
          using g True t assms(3,4) cc Inr gs tr p
          by (simp add: SwitchCoreWithConversion_def split: option.splits)
        from persistTemplate_cases [of c newType newConfig st3] p r3
        consider (saved) doc where "pr = None" "templateText c newConfig = Some doc"
            "rows st4 = mapPut (rows st2) (templateKey newType) doc"
          | (marshal) "pr = Some MarshalFailed" "templateText c newConfig = None" "rows st4 = rows st2"
          | (save) "pr = Some SaveTemplateFailed" "rows st4 = rows st2"
          by auto
        then show ?thesis
        proof cases
          case marshal
          with sw t2 tt show ?thesis by auto
        next
          case save
          with sw t2 show ?thesis by auto
        next
          case saved
          from saved(1) sw have fs: "finishSwitch c env newType st4 = (res, st')" by simp
          from saved(3) have t4: "mapGet (rows st4) (templateKey newType) = Some doc"
            by (simp add: mapGet_mapPut_same)
          from saved(3) m2 have m4: "mapGet (rows st4) ''coreType'' = Some oldType"
            by (simp add: mapGet_mapPut_other)
          from finishSwitch_cases [OF nt t4 fs] m4 tt saved(2)
          show ?thesis by auto
        qed
      qed
    qed
  qed
  then show "(\<exists>err. res = Some err \<and> earlyError err \<and> touched c oldType (rows st) (rows st'))
       \<or> (\<exists>doc. translatedText c env newType st = Some doc
            \<and> ((res = Some SetCoreTypeFailed \<and> mapGet (rows st') ''coreType'' = Some oldType)
               \<or> ((res = Some GetNewCoreFailed \<or> (\<exists>e. res = Some (RestartFailed e))
                    \<or> (res = None
                        \<and> (\<exists>core s. coreTypeOf core = newType
                               \<and> fst (Restart c env core s) = None)))
                  \<and> mapGet (rows st') ''coreType'' = Some newType
                  \<and> (mapGet (rows st') (templateKey newType) = Some doc
                      \<or> mapGet (rows st') (templateKey newType) = validatedText c newType doc))))"
    and "translatedText c env newType st = None \<Longrightarrow> \<exists>err. res = Some err \<and> earlyError err"
    by auto
qed

text \<open>
  Claim C2, as stated, fails in two places. Starting on Xray with every step before it
  succeeding and the start of sing-box failing, the call returns the restart error, and
  the settings hold the new core type and a new sing-box template: the translated
  text, which the validation that opens the restart has cleaned of its mKCP transport.
  Starting on sing-box with a stale template and a build that fails on the inbounds,
  the call returns the error of the build with the core type as it was, and the
  sing-box template has been replaced by the default.
\<close>

theorem core_switch_counterexample:
  "fst (SwitchCoreWithConversion switchCodec sampleEnv ''sing-box''
         \<lparr>rows = [(''coreType'', ''xray''), (''xrayTemplateConfig'', ''{\"inbounds\":[]}''),
                  (''singboxTemplateConfig'', ''old'')], faults = []\<rparr>)
     = Some (RestartFailed ''sing-box config validation failed'')
   \<and> rows (snd (SwitchCoreWithConversion switchCodec sampleEnv ''sing-box''
         \<lparr>rows = [(''coreType'', ''xray''), (''xrayTemplateConfig'', ''{\"inbounds\":[]}''),
                  (''singboxTemplateConfig'', ''old'')], faults = []\<rparr>))
     = [(''coreType'', ''sing-box''), (''xrayTemplateConfig'', ''{\"inbounds\":[]}''),
        (''singboxTemplateConfig'', ''sing-box inbound-443'')]
   \<and> translatedText switchCodec sampleEnv ''sing-box''
         \<lparr>rows = [(''coreType'', ''xray''), (''xrayTemplateConfig'', ''{\"inbounds\":[]}''),
                  (''singboxTemplateConfig'', ''old'')], faults = []\<rparr>
     = Some ''sing-box inbound-443+transport''
   \<and> fst (SwitchCoreWithConversion switchCodec failingBuild ''xray''
         \<lparr>rows = [(''coreType'', ''sing-box''), (''xrayTemplateConfig'', ''{\"inbounds\":[]}''),
                  (''singboxTemplateConfig'', ''stale'')], faults = []\<rparr>)
     = Some (GetConfigFailed ''failed to get inbounds'')
   \<and> rows (snd (SwitchCoreWithConversion switchCodec failingBuild ''xray''
         \<lparr>rows = [(''coreType'', ''sing-box''), (''xrayTemplateConfig'', ''{\"inbounds\":[]}''),
                  (''singboxTemplateConfig'', ''stale'')], faults = []\<rparr>))
     = [(''coreType'', ''sing-box''), (''xrayTemplateConfig'', ''{\"inbounds\":[]}''),
        (''singboxTemplateConfig'', ''{\"log\":{}}'')]"
  by code_simp

text \<open>
  Claim C2, amended. Let the stored core type be \<^verbatim>\<open>xray\<close> or \<^verbatim>\<open>sing-box\<close> and the new
  type differ from it. When reading the core type or the current configuration,
  translating it or encoding the result fails, the call returns an error of the steps
  before the flip. With every such error, a failed save of the template among them,
  the core-type setting is the original one and every setting but the template of the
  current core is as before the call, the template of the new core among them; the
  template of the current core is as before or as the validation that opens the build
  of its configuration left it (the default, or the cleaned text). When the restart
  of the new core fails, as it does when no process can be started, the call returns
  an error. The core-type setting differs from the original after the call only if it
  is the new type and the template of the new core was saved with the translated
  configuration: the flip comes after translation and persistence. In particular, when
  the restart fails the call returns its error with the core type already flipped and
  the template of the new core holding the translated configuration, or what the
  validation that opens the restart made of it; nothing is rolled back.
\<close>

theorem core_switch_failure:
  assumes "mapGet (rows st) ''coreType'' = Some oldType"
    and "oldType = ''xray'' \<or> oldType = ''sing-box''"
    and "newType \<noteq> oldType"
  shows "(translatedText c env newType st = None \<longrightarrow>
            (\<exists>err'. fst (SwitchCoreWithConversion c env newType st) = Some err' \<and> earlyError err'))
       \<and> (fst (SwitchCoreWithConversion c env newType st) = Some err \<and> earlyError err \<longrightarrow>
            mapGet (rows (snd (SwitchCoreWithConversion c env newType st))) ''coreType''
              = Some oldType
            \<and> (\<forall>k. k \<noteq> templateKey oldType \<longrightarrow>
                 mapGet (rows (snd (SwitchCoreWithConversion c env newType st))) k
                   = mapGet (rows st) k)
            \<and> (newType = ''xray'' \<or> newType = ''sing-box'' \<longrightarrow>
                 mapGet (rows (snd (SwitchCoreWithConversion c env newType st))) (templateKey newType)
                   = mapGet (rows st) (templateKey newType))
            \<and> (rows (snd (SwitchCoreWithConversion c env newType st)) = rows st
                \<or> rows (snd (SwitchCoreWithConversion c env newType st))
                    = validated c oldType (rows st)))
       \<and> ((\<forall>core s. coreTypeOf core = newType \<longrightarrow> fst (Restart c env core s) \<noteq> None) \<longrightarrow>
            fst (SwitchCoreWithConversion c env newType st) \<noteq> None)
       \<and> ((\<forall>cfg. xrayStart env cfg \<noteq> None) \<and> (\<forall>cfg. singboxStart env cfg \<noteq> None)
            \<and> (\<forall>cfg. applyToNodes env cfg \<noteq> None) \<longrightarrow>
            fst (SwitchCoreWithConversion c env newType st) \<noteq> None)
       \<and> (mapGet (rows (snd (SwitchCoreWithConversion c env newType st))) ''coreType''
             \<noteq> Some oldType \<longrightarrow>
            mapGet (rows (snd (SwitchCoreWithConversion c env newType st))) ''coreType''
              = Some newType
            \<and> (\<exists>doc. translatedText c env newType st = Some doc
                 \<and> (mapGet (rows (snd (SwitchCoreWithConversion c env newType st)))
                        (templateKey newType) = Some doc
                     \<or> mapGet (rows (snd (SwitchCoreWithConversion c env newType st)))
                        (templateKey newType) = validatedText c newType doc)))
       \<and> (fst (SwitchCoreWithConversion c env newType st) = Some (RestartFailed e) \<longrightarrow>
            mapGet (rows (snd (SwitchCoreWithConversion c env newType st))) ''coreType''
              = Some newType
            \<and> (\<exists>doc. translatedText c env newType st = Some doc
                 \<and> (mapGet (rows (snd (SwitchCoreWithConversion c env newType st)))
                        (templateKey newType) = Some doc
                     \<or> mapGet (rows (snd (SwitchCoreWithConversion c env newType st)))
                        (templateKey newType) = validatedText c newType doc)))"
proof -
  obtain res st' where R: "SwitchCoreWithConversion c env newType st = (res, st')"
    by (cases "SwitchCoreWithConversion c env newType st")
  note tr = switch_trace [OF assms R]
  have k: "''coreType'' \<noteq> templateKey oldType" by simp
  have early: "mapGet (rows st') ''coreType'' = Some oldType
      \<and> (\<forall>k. k \<noteq> templateKey oldType \<longrightarrow> mapGet (rows st') k = mapGet (rows st) k)
      \<and> (newType = ''xray'' \<or> newType = ''sing-box'' \<longrightarrow>
           mapGet (rows st') (templateKey newType) = mapGet (rows st) (templateKey newType))
      \<and> (rows st' = rows st \<or> rows st' = validated c oldType (rows st))"
    if "res = Some err" "earlyError err"
  proof -
    from tr(1) that have t: "touched c oldType (rows st) (rows st')" by auto
    have nk: "templateKey newType \<noteq> templateKey oldType" if "newType = ''xray'' \<or> newType = ''sing-box''"
      using that assms(2,3) by (auto simp: templateKey_def)
    show ?thesis
      using touched_frame [OF t] assms(1) k nk t by (auto simp: touched_def)
  qed
  have flipped: "mapGet (rows st') ''coreType'' = Some newType
      \<and> (\<exists>doc. translatedText c env newType st = Some doc
           \<and> (mapGet (rows st') (templateKey newType) = Some doc
               \<or> mapGet (rows st') (templateKey newType) = validatedText c newType doc))"
    if "mapGet (rows st') ''coreType'' \<noteq> Some oldType \<or> res = Some (RestartFailed e)"
  proof -
    from tr(1) show ?thesis
    proof
      assume "\<exists>err. res = Some err \<and> earlyError err \<and> touched c oldType (rows st) (rows st')"
      then obtain err' where e: "res = Some err'" "earlyError err'"
        "touched c oldType (rows st) (rows st')" by blast
      from touched_frame [OF e(3) k] assms(1)
      have "mapGet (rows st') ''coreType'' = Some oldType" by simp
      with that e(1,2) show ?thesis by auto
    next
      assume "\<exists>doc. translatedText c env newType st = Some doc
            \<and> ((res = Some SetCoreTypeFailed \<and> mapGet (rows st') ''coreType'' = Some oldType)
               \<or> ((res = Some GetNewCoreFailed \<or> (\<exists>e. res = Some (RestartFailed e))
                    \<or> (res = None
                        \<and> (\<exists>core s. coreTypeOf core = newType
                               \<and> fst (Restart c env core s) = None)))
                  \<and> mapGet (rows st') ''coreType'' = Some newType
                  \<and> (mapGet (rows st') (templateKey newType) = Some doc
                      \<or> mapGet (rows st') (templateKey newType) = validatedText c newType doc)))"
      with that show ?thesis by auto
    qed
  qed
  have fails: "res \<noteq> None"
    if "\<forall>core s. coreTypeOf core = newType \<longrightarrow> fst (Restart c env core s) \<noteq> None"
    using tr(1) that by blast
  have fails': "res \<noteq> None"
    if "(\<forall>cfg. xrayStart env cfg \<noteq> None) \<and> (\<forall>cfg. singboxStart env cfg \<noteq> None)
            \<and> (\<forall>cfg. applyToNodes env cfg \<noteq> None)"
  proof (rule fails, intro allI impI)
    fix core s
    show "fst (Restart c env core s) \<noteq> None"
      by (rule Restart_fails) (use that in blast)+
  qed
  show ?thesis
    unfolding R fst_conv snd_conv
    using tr(2) early flipped fails fails' by blast
qed

theorem core_switch_failure_witness:
  "fst (SwitchCoreWithConversion switchCodec sampleEnv ''sing-box''
         \<lparr>rows = [(''coreType'', ''xray''), (''xrayTemplateConfig'', ''{\"inbounds\":[]}''),
                  (''singboxTemplateConfig'', ''old'')], faults = []\<rparr>) \<noteq> None
   \<and> mapGet (rows (snd (SwitchCoreWithConversion switchCodec sampleEnv ''sing-box''
         \<lparr>rows = [(''coreType'', ''xray''), (''xrayTemplateConfig'', ''{\"inbounds\":[]}''),
                  (''singboxTemplateConfig'', ''old'')], faults = []\<rparr>))) ''coreType''
       = Some ''sing-box''
   \<and> fst (SwitchCoreWithConversion switchCodec failingBuild ''xray''
         \<lparr>rows = [(''coreType'', ''sing-box''), (''xrayTemplateConfig'', ''{\"inbounds\":[]}''),
                  (''singboxTemplateConfig'', ''stale'')], faults = []\<rparr>) \<noteq> None
   \<and> mapGet (rows (snd (SwitchCoreWithConversion switchCodec failingBuild ''xray''
         \<lparr>rows = [(''coreType'', ''sing-box''), (''xrayTemplateConfig'', ''{\"inbounds\":[]}''),
                  (''singboxTemplateConfig'', ''stale'')], faults = []\<rparr>))) ''coreType''
       = Some ''sing-box''
   \<and> mapGet (rows (snd (SwitchCoreWithConversion switchCodec failingBuild ''xray''
         \<lparr>rows = [(''coreType'', ''sing-box''), (''xrayTemplateConfig'', ''{\"inbounds\":[]}''),
                  (''singboxTemplateConfig'', ''stale'')], faults = []\<rparr>))) ''xrayTemplateConfig''
       = Some ''{\"inbounds\":[]}''
   \<and> fst (SwitchCoreWithConversion switchCodec sampleEnv ''sing-box''
         \<lparr>rows = [(''coreType'', ''xray''), (''xrayTemplateConfig'', ''stale''),
                  (''singboxTemplateConfig'', ''old'')],
          faults = [False, False, False, False, False, False, False, True]\<rparr>)
       = Some SaveTemplateFailed
   \<and> rows (snd (SwitchCoreWithConversion switchCodec sampleEnv ''sing-box''
         \<lparr>rows = [(''coreType'', ''xray''), (''xrayTemplateConfig'', ''stale''),
                  (''singboxTemplateConfig'', ''old'')],
          faults = [False, False, False, False, False, False, False, True]\<rparr>))
       = [(''coreType'', ''xray''), (''xrayTemplateConfig'', ''{\"inbounds\":[]}''),
          (''singboxTemplateConfig'', ''old'')]"
proof -
  let ?st1 = "\<lparr>rows = [(''coreType'', ''xray''), (''xrayTemplateConfig'', ''{\"inbounds\":[]}''),
                  (''singboxTemplateConfig'', ''old'')], faults = []\<rparr>"
  let ?st2 = "\<lparr>rows = [(''coreType'', ''sing-box''), (''xrayTemplateConfig'', ''{\"inbounds\":[]}''),
                  (''singboxTemplateConfig'', ''stale'')], faults = []\<rparr>"
  let ?st3 = "\<lparr>rows = [(''coreType'', ''xray''), (''xrayTemplateConfig'', ''stale''),
                  (''singboxTemplateConfig'', ''old'')],
          faults = [False, False, False, False, False, False, False, True]\<rparr>"
  have h3: "mapGet (rows ?st3) ''coreType'' = Some ''xray''" by simp
  have e3: "fst (SwitchCoreWithConversion switchCodec sampleEnv ''sing-box'' ?st3)
      = Some SaveTemplateFailed" by code_simp
  have v3: "validated switchCodec ''xray'' (rows ?st3)
      = [(''coreType'', ''xray''), (''xrayTemplateConfig'', ''{\"inbounds\":[]}''),
         (''singboxTemplateConfig'', ''old'')]" by code_simp
  have x3: "mapGet (rows (snd (SwitchCoreWithConversion switchCodec sampleEnv ''sing-box'' ?st3)))
      ''xrayTemplateConfig'' \<noteq> Some ''stale''" by code_simp
  have h1: "mapGet (rows ?st1) ''coreType'' = Some ''xray''" by simp
  have h2: "mapGet (rows ?st2) ''coreType'' = Some ''sing-box''" by simp
  have o1: "''xray'' = ''xray'' \<or> ''xray'' = ''sing-box''" by simp
  have o2: "''sing-box'' = ''xray'' \<or> ''sing-box'' = ''sing-box''" by simp
  have n1: "''sing-box'' \<noteq> ''xray''" by simp
  have n2: "''xray'' \<noteq> ''sing-box''" by simp
  have f: "(\<forall>cfg. xrayStart sampleEnv cfg \<noteq> None) \<and> (\<forall>cfg. singboxStart sampleEnv cfg \<noteq> None)
      \<and> (\<forall>cfg. applyToNodes sampleEnv cfg \<noteq> None)" by (simp add: sampleEnv_def)
  have e1: "fst (SwitchCoreWithConversion switchCodec sampleEnv ''sing-box'' ?st1)
      = Some (RestartFailed ''sing-box config validation failed'')" by code_simp
  have e2: "fst (SwitchCoreWithConversion switchCodec failingBuild ''xray'' ?st2)
      = Some (GetConfigFailed ''failed to get inbounds'')" by code_simp
  have t2: "translatedText switchCodec failingBuild ''xray'' ?st2 = None" by code_simp
  have ee: "earlyError (GetConfigFailed ''failed to get inbounds'')" by simp
  have k: "templateKey ''xray'' = ''xrayTemplateConfig''" "''xray'' = ''xray'' \<or> ''xray'' = ''sing-box''"
    by (simp_all add: templateKey_def)
  note w1 = core_switch_failure [OF h1 o1 n1, of switchCodec sampleEnv _
      "''sing-box config validation failed''"]
  note w2 = core_switch_failure [OF h2 o2 n2, of switchCodec failingBuild
      "GetConfigFailed ''failed to get inbounds''"]
  have g: "\<forall>core s. coreTypeOf core = ''sing-box'' \<longrightarrow> fst (Restart switchCodec sampleEnv core s) \<noteq> None"
  proof (intro allI impI)
    fix core s
    show "fst (Restart switchCodec sampleEnv core s) \<noteq> None"
      by (rule Restart_fails) (use f in blast)+
  qed
  from w1 f g have a: "fst (SwitchCoreWithConversion switchCodec sampleEnv ''sing-box'' ?st1) \<noteq> None"
    by blast
  from w1 e1 have b: "mapGet (rows (snd (SwitchCoreWithConversion switchCodec sampleEnv ''sing-box''
      ?st1))) ''coreType'' = Some ''sing-box''" by blast
  from w2 t2 have c: "fst (SwitchCoreWithConversion switchCodec failingBuild ''xray'' ?st2) \<noteq> None"
    by blast
  from w2 e2 ee have d: "mapGet (rows (snd (SwitchCoreWithConversion switchCodec failingBuild ''xray''
      ?st2))) ''coreType'' = Some ''sing-box''" by blast
  from w2 e2 ee k(2) have e: "mapGet (rows (snd (SwitchCoreWithConversion switchCodec failingBuild
      ''xray'' ?st2))) (templateKey ''xray'') = mapGet (rows ?st2) (templateKey ''xray'')" by blast
  note w3 = core_switch_failure [OF h3 o1 n1, of switchCodec sampleEnv SaveTemplateFailed]
  from w3 e3 have "rows (snd (SwitchCoreWithConversion switchCodec sampleEnv ''sing-box'' ?st3))
        = rows ?st3
      \<or> rows (snd (SwitchCoreWithConversion switchCodec sampleEnv ''sing-box'' ?st3))
        = validated switchCodec ''xray'' (rows ?st3)" by simp
  with x3 have r3: "rows (snd (SwitchCoreWithConversion switchCodec sampleEnv ''sing-box'' ?st3))
      = validated switchCodec ''xray'' (rows ?st3)" by auto
  show ?thesis using a b c d e e3 r3 unfolding k(1) v3 by simp
qed

end
